theory Spec2Isabelle
  imports Main
begin

section \<open>C strings\<close>

text \<open>
  A C string is modelled as the list of its bytes before the terminating NUL.
  \<open>strrchr s c\<close> is the offset of the last occurrence of \<open>c\<close> in \<open>s\<close>, or
  \<open>None\<close> where the C function returns NULL.
\<close>

fun strrchr :: "string \<Rightarrow> char \<Rightarrow> nat option" where
  "strrchr [] c = None"
| "strrchr (x # xs) c =
     (case strrchr xs c of
        Some i \<Rightarrow> Some (Suc i)
      | None \<Rightarrow> if x = c then Some 0 else None)"

section \<open>be\_get\_snap\<close>

text \<open>
  \<open>be_get_snap origin snap\<close> (be\_create.c, lines 1682 to 1704). The result is the
  return value, the contents of the \<open>origin\<close> buffer read as a C string after the call,
  and the value stored through \<open>snap\<close> (\<open>None\<close> when nothing is stored). Writing NUL at
  \<open>cp[0]\<close> truncates the buffer's string to the bytes before \<open>cp\<close>; \<open>cp + 1\<close> is the
  string of the bytes after it. \<open>cp[1]\<close> is NUL exactly when nothing follows \<open>cp\<close>.
\<close>

definition be_get_snap :: "string \<Rightarrow> int \<times> string \<times> string option" where
  "be_get_snap origin =
     (case strrchr origin (CHR ''@'') of
        Some cp \<Rightarrow>
          if drop (Suc cp) origin \<noteq> []
          then (0, take cp origin, Some (drop (Suc cp) origin))
          else (1, origin, None)
      | None \<Rightarrow> (1, origin, None))"

section \<open>Name/value lists\<close>

text \<open>
  An \<open>nvlist_t\<close> allocated with \<open>NV_UNIQUE_NAME\<close> and holding string values: an
  association list in insertion order. \<open>nvlist_add_string\<close> first removes a pair of
  the same name, then appends the new pair. \<open>nvlist_remove_all\<close> returns \<open>ENOENT\<close>
  when no pair has the name. Allocation failure is not modelled.
\<close>

type_synonym nvlist = "(string \<times> string) list"

definition ENOENT :: int where
  "ENOENT = 2"

definition nvlist_add_string :: "nvlist \<Rightarrow> string \<Rightarrow> string \<Rightarrow> nvlist" where
  "nvlist_add_string nvl name val = filter (\<lambda>p. fst p \<noteq> name) nvl @ [(name, val)]"

definition nvlist_remove_all :: "nvlist \<Rightarrow> string \<Rightarrow> int \<times> nvlist" where
  "nvlist_remove_all nvl name =
     (if name \<in> fst ` set nvl then (0, filter (\<lambda>p. fst p \<noteq> name) nvl)
      else (ENOENT, nvl))"

definition nvlist_lookup_string :: "nvlist \<Rightarrow> string \<Rightarrow> string option" where
  "nvlist_lookup_string nvl name = map_of nvl name"

datatype nvflag = NV_UNIQUE_NAME | NV_UNIQUE_NAME_TYPE | NV_NOT_UNIQUE

section \<open>The storage substrate (libzfs)\<close>

text \<open>
  libzfs is not part of the repository. Its namespace is modelled after the data model
  of the specification: pools, filesystems with locally set properties, a mount state
  and an optional origin, and snapshots named \<open>dataset@snapshot\<close>. Every call fails
  or succeeds as a function of that namespace; a failed call leaves it unchanged and
  yields the libzfs error number.
\<close>

datatype zfs_prop = ZFS_PROP_MOUNTPOINT | ZFS_PROP_CANMOUNT | ZFS_PROP_ORIGIN | ZFS_PROP_NUMCLONES

fun zfs_prop_to_name :: "zfs_prop \<Rightarrow> string" where
  "zfs_prop_to_name ZFS_PROP_MOUNTPOINT = ''mountpoint''"
| "zfs_prop_to_name ZFS_PROP_CANMOUNT = ''canmount''"
| "zfs_prop_to_name ZFS_PROP_ORIGIN = ''origin''"
| "zfs_prop_to_name ZFS_PROP_NUMCLONES = ''numclones''"

definition ZFS_MOUNTPOINT_LEGACY :: string where
  "ZFS_MOUNTPOINT_LEGACY = ''legacy''"

datatype zfs_type = ZFS_TYPE_FILESYSTEM | ZFS_TYPE_SNAPSHOT

datatype zfs_err = EZFS_EXISTS | EZFS_NOENT | EZFS_INVALIDNAME | EZFS_BUSY

datatype zprop_source = ZPROP_SRC_LOCAL | ZPROP_SRC_INHERITED

record dataset =
  ds_name :: string
  ds_props :: nvlist
  ds_mounted :: "string option"
  ds_origin :: "string option"

record zfs_state =
  zpools :: "string list"
  zdatasets :: "dataset list"
  zsnapshots :: "string list"

definition zfs_lookup :: "zfs_state \<Rightarrow> string \<Rightarrow> dataset option" where
  "zfs_lookup st name = find (\<lambda>d. ds_name d = name) (zdatasets st)"

definition zfs_dataset_exists :: "zfs_state \<Rightarrow> string \<Rightarrow> zfs_type \<Rightarrow> bool" where
  "zfs_dataset_exists st name ty =
     (case ty of
        ZFS_TYPE_FILESYSTEM \<Rightarrow> name \<in> set (map ds_name (zdatasets st))
      | ZFS_TYPE_SNAPSHOT \<Rightarrow> name \<in> set (zsnapshots st))"

definition zpool_open :: "zfs_state \<Rightarrow> string \<Rightarrow> bool" where
  "zpool_open st zpool \<longleftrightarrow> zpool \<in> set (zpools st)"

text \<open>The parent of \<open>a/b/c\<close> is \<open>a/b\<close>; a name without a slash has none.\<close>

definition zfs_parent :: "string \<Rightarrow> string option" where
  "zfs_parent name =
     (case strrchr name (CHR ''/'') of None \<Rightarrow> None | Some i \<Rightarrow> Some (take i name))"

definition zfs_is_child :: "string \<Rightarrow> string \<Rightarrow> bool" where
  "zfs_is_child p n \<longleftrightarrow>
     length p < length n \<and> take (length p) n = p \<and> n ! length p = CHR ''/''
     \<and> drop (Suc (length p)) n \<noteq> [] \<and> CHR ''/'' \<notin> set (drop (Suc (length p)) n)"

definition zfs_in_subtree :: "string \<Rightarrow> string \<Rightarrow> bool" where
  "zfs_in_subtree p n \<longleftrightarrow> n = p \<or> take (Suc (length p)) n = p @ ''/''"

definition zfs_new_dataset :: "string \<Rightarrow> nvlist \<Rightarrow> string option \<Rightarrow> dataset" where
  "zfs_new_dataset name props origin =
     \<lparr>ds_name = name, ds_props = props, ds_mounted = None, ds_origin = origin\<rparr>"

text \<open>
  \<open>zfs_create\<close> and \<open>zfs_clone\<close>: the parent must exist and the name must be free.
  The new dataset carries the given property list as its locally set properties and is
  not mounted; a clone records its origin snapshot.
\<close>

definition zfs_create :: "zfs_state \<Rightarrow> string \<Rightarrow> nvlist \<Rightarrow> zfs_err + zfs_state" where
  "zfs_create st name props =
     (case zfs_parent name of
        None \<Rightarrow> Inl EZFS_INVALIDNAME
      | Some p \<Rightarrow>
          if \<not> zfs_dataset_exists st p ZFS_TYPE_FILESYSTEM then Inl EZFS_NOENT
          else if zfs_dataset_exists st name ZFS_TYPE_FILESYSTEM then Inl EZFS_EXISTS
          else Inr (st\<lparr>zdatasets := zdatasets st @ [zfs_new_dataset name props None]\<rparr>))"

definition zfs_clone :: "zfs_state \<Rightarrow> string \<Rightarrow> string \<Rightarrow> nvlist \<Rightarrow> zfs_err + zfs_state" where
  "zfs_clone st snap name props =
     (case zfs_parent name of
        None \<Rightarrow> Inl EZFS_INVALIDNAME
      | Some p \<Rightarrow>
          if \<not> zfs_dataset_exists st p ZFS_TYPE_FILESYSTEM then Inl EZFS_NOENT
          else if zfs_dataset_exists st name ZFS_TYPE_FILESYSTEM then Inl EZFS_EXISTS
          else Inr (st\<lparr>zdatasets := zdatasets st @ [zfs_new_dataset name props (Some snap)]\<rparr>))"

definition zfs_is_mounted :: "zfs_state \<Rightarrow> string \<Rightarrow> string option" where
  "zfs_is_mounted st name =
     (case zfs_lookup st name of None \<Rightarrow> None | Some d \<Rightarrow> ds_mounted d)"

text \<open>A forced unmount of an existing filesystem succeeds, mounted or not.\<close>

definition zfs_unmount :: "zfs_state \<Rightarrow> string \<Rightarrow> zfs_err + zfs_state" where
  "zfs_unmount st name =
     (if \<not> zfs_dataset_exists st name ZFS_TYPE_FILESYSTEM then Inl EZFS_NOENT
      else Inr (st\<lparr>zdatasets :=
             map (\<lambda>d. if ds_name d = name then d\<lparr>ds_mounted := None\<rparr> else d) (zdatasets st)\<rparr>))"

text \<open>A snapshot name \<open>dataset@snap\<close> split at its last \<open>@\<close>.\<close>

definition zfs_snap_split :: "string \<Rightarrow> (string \<times> string) option" where
  "zfs_snap_split s =
     (case strrchr s (CHR ''@'') of
        None \<Rightarrow> None
      | Some i \<Rightarrow> Some (take i s, drop (Suc i) s))"

definition zfs_snap_of :: "string \<Rightarrow> string \<Rightarrow> bool" where
  "zfs_snap_of name s \<longleftrightarrow>
     (case zfs_snap_split s of None \<Rightarrow> False | Some (d, n) \<Rightarrow> d = name)"

text \<open>
  A filesystem can be destroyed only once it has neither child filesystems nor
  snapshots of its own.
\<close>

definition zfs_destroy :: "zfs_state \<Rightarrow> string \<Rightarrow> zfs_err + zfs_state" where
  "zfs_destroy st name =
     (if \<not> zfs_dataset_exists st name ZFS_TYPE_FILESYSTEM then Inl EZFS_NOENT
      else if \<exists>d \<in> set (zdatasets st). zfs_is_child name (ds_name d) then Inl EZFS_EXISTS
      else if \<exists>s \<in> set (zsnapshots st). zfs_snap_of name s then Inl EZFS_EXISTS
      else Inr (st\<lparr>zdatasets := filter (\<lambda>d. ds_name d \<noteq> name) (zdatasets st)\<rparr>))"

text \<open>
  The origin of a clone, \<open>None\<close> for a dataset that is not a clone (where
  \<open>zfs_prop_get\<close> of \<open>ZFS_PROP_ORIGIN\<close> fails), and the number of clones of a
  snapshot: the datasets whose origin it is.
\<close>

definition zfs_prop_get_origin :: "zfs_state \<Rightarrow> string \<Rightarrow> string option" where
  "zfs_prop_get_origin st name =
     (case zfs_lookup st name of None \<Rightarrow> None | Some d \<Rightarrow> ds_origin d)"

definition zfs_prop_get_numclones :: "zfs_state \<Rightarrow> string \<Rightarrow> nat option" where
  "zfs_prop_get_numclones st snap =
     (if zfs_dataset_exists st snap ZFS_TYPE_SNAPSHOT
      then Some (length (filter (\<lambda>d. ds_origin d = Some snap) (zdatasets st)))
      else None)"

text \<open>
  The mountpoint of a filesystem and where it comes from: the locally set value when
  the property list of the dataset has one, otherwise an inherited value, which no
  caller reads.
\<close>

definition zfs_prop_get_mountpoint :: "zfs_state \<Rightarrow> string \<Rightarrow> (string \<times> zprop_source) option" where
  "zfs_prop_get_mountpoint st name =
     (case zfs_lookup st name of
        None \<Rightarrow> None
      | Some d \<Rightarrow>
          (case nvlist_lookup_string (ds_props d) (zfs_prop_to_name ZFS_PROP_MOUNTPOINT) of
             Some mp \<Rightarrow> Some (mp, ZPROP_SRC_LOCAL)
           | None \<Rightarrow> Some ([], ZPROP_SRC_INHERITED)))"

text \<open>
  \<open>zfs_destroy_snaps zhp snap\<close> destroys the snapshot \<open>snap\<close> of the dataset and
  of every descendant that has it, all or none: it fails when there is none, or when
  one of them still has a clone.
\<close>

definition zfs_snaps_named :: "zfs_state \<Rightarrow> string \<Rightarrow> string \<Rightarrow> string list" where
  "zfs_snaps_named st name snap =
     filter (\<lambda>s. case zfs_snap_split s of
                   None \<Rightarrow> False
                 | Some (d, n) \<Rightarrow> n = snap \<and> zfs_in_subtree name d) (zsnapshots st)"

definition zfs_destroy_snaps :: "zfs_state \<Rightarrow> string \<Rightarrow> string \<Rightarrow> zfs_err + zfs_state" where
  "zfs_destroy_snaps st name snap =
     (let victims = zfs_snaps_named st name snap in
      if victims = [] then Inl EZFS_NOENT
      else if \<exists>d \<in> set (zdatasets st). \<exists>s \<in> set victims. ds_origin d = Some s
      then Inl EZFS_EXISTS
      else Inr (st\<lparr>zsnapshots := filter (\<lambda>s. s \<notin> set victims) (zsnapshots st)\<rparr>))"

text \<open>
  \<open>zfs_snapshot path recursive\<close>: snapshot the dataset, and with \<open>recursive\<close>
  every descendant, under one snapshot name; all or none.
\<close>

definition zfs_snapshot :: "zfs_state \<Rightarrow> string \<Rightarrow> bool \<Rightarrow> zfs_err + zfs_state" where
  "zfs_snapshot st path recursive =
     (case zfs_snap_split path of
        None \<Rightarrow> Inl EZFS_INVALIDNAME
      | Some (name, snap) \<Rightarrow>
          if \<not> zfs_dataset_exists st name ZFS_TYPE_FILESYSTEM then Inl EZFS_NOENT
          else
            let targets = filter (\<lambda>n. if recursive then zfs_in_subtree name n else n = name)
                            (map ds_name (zdatasets st));
                new = map (\<lambda>n. n @ ''@'' @ snap) targets
            in if \<exists>s \<in> set new. s \<in> set (zsnapshots st) then Inl EZFS_EXISTS
               else Inr (st\<lparr>zsnapshots := zsnapshots st @ new\<rparr>))"

subsection \<open>Handles and iteration\<close>

text \<open>
  A filesystem handle gives the dataset's name and, through
  \<open>zfs_iter_filesystems\<close>, handles to its immediate children. The model opens the
  whole subtree at once: the children a walk visits are those present when its root
  handle was opened.
\<close>

datatype zfs_handle = ZH (zfs_get_name: string) (zfs_children: "zfs_handle list")

lemma zfs_is_child_longer: "zfs_is_child p n \<Longrightarrow> length p < length n"
  by (simp add: zfs_is_child_def)

function zfs_make_handle :: "string list \<Rightarrow> string \<Rightarrow> zfs_handle" where
  "zfs_make_handle names n =
     ZH n (map (zfs_make_handle names) (filter (zfs_is_child n) names))"
  by pat_completeness auto
termination
proof (relation "measure (\<lambda>(names, n). Suc (sum_list (map length names)) - length n)")
  show "wf (measure (\<lambda>(names, n). Suc (sum_list (map length names)) - length n))"
    by simp
next
  fix names :: "string list" and n x :: string
  assume "x \<in> set (filter (zfs_is_child n) names)"
  then have x: "x \<in> set names" and c: "zfs_is_child n x" by simp_all
  from x have "length x \<le> sum_list (map length names)"
    by (simp add: member_le_sum_list)
  with zfs_is_child_longer [OF c]
  show "((names, x), (names, n))
          \<in> measure (\<lambda>(names, n). Suc (sum_list (map length names)) - length n)"
    by simp
qed

definition zfs_open :: "zfs_state \<Rightarrow> string \<Rightarrow> zfs_handle option" where
  "zfs_open st name =
     (if zfs_dataset_exists st name ZFS_TYPE_FILESYSTEM
      then Some (zfs_make_handle (map ds_name (zdatasets st)) name)
      else None)"

text \<open>
  \<open>zfs_iter_filesystems\<close> and \<open>zpool_iter\<close> call the callback on each child (each
  pool) in turn, stop at the first call that returns non-zero and return that value;
  they return 0 when every call did. The callback's \<open>data\<close> argument, and the
  namespace where the callback changes it, are threaded through as \<open>d\<close>.
\<close>

fun zfs_iter_filesystems :: "'h list \<Rightarrow> ('h \<Rightarrow> 'd \<Rightarrow> int \<times> 'd) \<Rightarrow> 'd \<Rightarrow> int \<times> 'd" where
  "zfs_iter_filesystems [] func d = (0, d)"
| "zfs_iter_filesystems (k # ks) func d =
     (case func k d of
        (ret, d') \<Rightarrow> if ret \<noteq> 0 then (ret, d') else zfs_iter_filesystems ks func d')"

lemma zfs_iter_filesystems_cong [fundef_cong]:
  "ks = ks' \<Longrightarrow> d = d' \<Longrightarrow> (\<And>k x. k \<in> set ks' \<Longrightarrow> func k x = func' k x)
   \<Longrightarrow> zfs_iter_filesystems ks func d = zfs_iter_filesystems ks' func' d'"
proof (induction ks arbitrary: ks' d d')
  case Nil
  then show ?case by simp
next
  case (Cons k ks)
  then show ?case by (auto split: prod.splits)
qed

definition zpool_iter :: "zfs_state \<Rightarrow> (string \<Rightarrow> 'd \<Rightarrow> int \<times> 'd) \<Rightarrow> 'd \<Rightarrow> int \<times> 'd" where
  "zpool_iter st func d = zfs_iter_filesystems (zpools st) func d"

section \<open>The collaborators of the BE library\<close>

text \<open>
  The constants of \<open>libbe_priv.h\<close> and the helper functions of the library that
  be\_create.c calls but does not define are parameters of the model.
  \<open>be_auto_be_name\<close> takes the number of earlier calls within the operation: its
  answer depends on what other actors did to the namespace in between.
\<close>

record be_env =
  BE_CONTAINER_DS_NAME :: string
  BE_AUTO_NAME_MAX_TRY :: int
  BE_ERR_EXISTS :: int
  BE_POLICY_PROPERTY :: string
  be_zfs_init :: bool
  be_valid_be_name :: "string \<Rightarrow> bool"
  be_default_policy :: string
  be_auto_be_name :: "nat \<Rightarrow> zfs_state \<Rightarrow> string \<Rightarrow> string option"
  be_auto_snap_name :: "zfs_state \<Rightarrow> string \<Rightarrow> string option"
  be_update_vfstab :: "string \<Rightarrow> string \<Rightarrow> int"
  be_append_grub :: "string \<Rightarrow> string \<Rightarrow> string option \<Rightarrow> int"
  be_remove_grub :: "string \<Rightarrow> string \<Rightarrow> int"
  send_exit_status :: "string \<Rightarrow> string \<Rightarrow> int"

text \<open>
  Modelled from the spec: \<open>be_make_container_ds\<close> and \<open>be_make_root_ds\<close> (not in
  be\_create.c) build the container path \<open>pool/container\<close> and the BE root path
  \<open>pool/container/BE\<close>.
\<close>

definition be_make_container_ds :: "be_env \<Rightarrow> string \<Rightarrow> string" where
  "be_make_container_ds env zpool = zpool @ ''/'' @ BE_CONTAINER_DS_NAME env"

definition be_make_root_ds :: "be_env \<Rightarrow> string \<Rightarrow> string \<Rightarrow> string" where
  "be_make_root_ds env zpool be_name =
     zpool @ ''/'' @ BE_CONTAINER_DS_NAME env @ ''/'' @ be_name"

section \<open>Attributes, errors and results\<close>

text \<open>
  The attribute list \<open>be_attrs\<close>: one optional field for each attribute that the
  three public functions look up.
\<close>

record be_attrs =
  BE_ATTR_ORIG_BE_NAME :: "string option"
  BE_ATTR_SNAP_NAME :: "string option"
  BE_ATTR_NEW_BE_NAME :: "string option"
  BE_ATTR_NEW_BE_POOL :: "string option"
  BE_ATTR_NEW_BE_DESC :: "string option"
  BE_ATTR_ZFS_PROPERTIES :: "(nvflag \<times> nvlist) option"
  BE_ATTR_POLICY :: "string option"
  BE_ATTR_FS_NAMES :: "string list option"
  BE_ATTR_FS_NUM :: "nat option"
  BE_ATTR_SHARED_FS_NAMES :: "string list option"
  BE_ATTR_SHARED_FS_NUM :: "nat option"

text \<open>
  Each failure exit of the public functions is a value naming the message printed
  there. The C functions return 1 at every one of them and 0 on success.
\<close>

datatype be_error =
    ErrZfsInit
  | ErrLookupAttr
  | ErrInvalidBEName
  | ErrFsNumMismatch
  | ErrSharedFsNumMismatch
  | ErrZpoolNotFound
  | ErrContainerDs
  | ErrBEExists
  | ErrZpoolIter
  | ErrPropsNotUnique
  | ErrCreateRootDs
  | ErrCreateChildDs
  | ErrCreateSharedDs
  | ErrFindZpool
  | ErrOpenRootDs
  | ErrMounted
  | ErrGetSnap
  | ErrDestroyRootDs
  | ErrOpenOrigin
  | ErrNumClones
  | ErrOpenParent
  | ErrDestroySnaps
  | ErrRemoveGrub
  | ErrFindCurrentBE
  | ErrAutoNamePool
  | ErrAutoNameSnap
  | ErrAutoBEName
  | ErrSnapshotMissing
  | ErrAutoSnapshot
  | ErrSnapshot
  | ErrClone
  | ErrUniqueAutoName
  | ErrSend
  | ErrVfstab
  | ErrAppendGrub
  | ErrSetPolicy

definition be_ret :: "be_error + 'a \<Rightarrow> int" where
  "be_ret r = (case r of Inl e \<Rightarrow> 1 | Inr v \<Rightarrow> 0)"

section \<open>Locating a BE\<close>

text \<open>
  \<open>be_find_zpool_callback\<close> and \<open>be_exists_callback\<close> (lines 1075 to 1133). The
  data of the first is the \<open>obe_zpool\<close> member it sets.
\<close>

definition be_find_zpool_callback ::
  "be_env \<Rightarrow> zfs_state \<Rightarrow> string \<Rightarrow> string \<Rightarrow> string option \<Rightarrow> int \<times> string option" where
  "be_find_zpool_callback env st obe_name zpool obe_zpool =
     (let be_root_ds = be_make_root_ds env zpool obe_name in
      if zfs_dataset_exists st be_root_ds ZFS_TYPE_FILESYSTEM then (1, Some zpool)
      else (0, obe_zpool))"

definition be_exists_callback ::
  "be_env \<Rightarrow> zfs_state \<Rightarrow> string \<Rightarrow> string \<Rightarrow> unit \<Rightarrow> int \<times> unit" where
  "be_exists_callback env st be_name zpool data =
     (let be_root_ds = be_make_root_ds env zpool be_name in
      if zfs_dataset_exists st be_root_ds ZFS_TYPE_FILESYSTEM then (1, ())
      else (0, ()))"

section \<open>be\_init\<close>

text \<open>\<open>be_create_container_ds\<close> (lines 1719 to 1767).\<close>

definition be_create_container_ds :: "be_env \<Rightarrow> string \<Rightarrow> zfs_state \<Rightarrow> bool \<times> zfs_state" where
  "be_create_container_ds env zpool st =
     (let be_container_ds = be_make_container_ds env zpool in
      if \<not> zfs_dataset_exists st be_container_ds ZFS_TYPE_FILESYSTEM then
        let props = nvlist_add_string [] (zfs_prop_to_name ZFS_PROP_MOUNTPOINT)
                      ZFS_MOUNTPOINT_LEGACY;
            props = nvlist_add_string props (zfs_prop_to_name ZFS_PROP_CANMOUNT) ''off''
        in case zfs_create st be_container_ds props of
             Inl e \<Rightarrow> (False, st)
           | Inr st' \<Rightarrow> (True, st')
      else (True, st))"

text \<open>
  The loop over the non-shared file systems (lines 264 to 297): the property list is
  the BE's own, changed in place, so each child is created with the root's properties
  and its own mountpoint.
\<close>

fun be_init_fs ::
  "string \<Rightarrow> string list \<Rightarrow> nvlist \<Rightarrow> zfs_state \<Rightarrow> (be_error + unit) \<times> zfs_state" where
  "be_init_fs nbe_root_ds [] props st = (Inr (), st)"
| "be_init_fs nbe_root_ds (fs # fs_names) props st =
     (if fs = ''/'' then be_init_fs nbe_root_ds fs_names props st
      else
        let props' = nvlist_add_string props (zfs_prop_to_name ZFS_PROP_MOUNTPOINT) fs;
            child_fs = nbe_root_ds @ fs
        in case zfs_create st child_fs props' of
             Inl e \<Rightarrow> (Inl ErrCreateChildDs, st)
           | Inr st' \<Rightarrow> be_init_fs nbe_root_ds fs_names props' st')"

text \<open>The loop over the shared file systems (lines 309 to 338).\<close>

fun be_init_shared_fs ::
  "string \<Rightarrow> string list \<Rightarrow> nvlist \<Rightarrow> zfs_state \<Rightarrow> (be_error + unit) \<times> zfs_state" where
  "be_init_shared_fs nbe_zpool [] props st = (Inr (), st)"
| "be_init_shared_fs nbe_zpool (fs # shared_fs_names) props st =
     (let child_fs = nbe_zpool @ fs;
          props' = nvlist_add_string props (zfs_prop_to_name ZFS_PROP_MOUNTPOINT) fs
      in if zfs_dataset_exists st child_fs ZFS_TYPE_FILESYSTEM
         then be_init_shared_fs nbe_zpool shared_fs_names props' st
         else case zfs_create st child_fs props' of
                Inl e \<Rightarrow> (Inl ErrCreateSharedDs, st)
              | Inr st' \<Rightarrow> be_init_shared_fs nbe_zpool shared_fs_names props' st')"

text \<open>
  \<open>be_init\<close> (lines 87 to 350). The first lookup of the file system attributes has
  no \<open>NV_FLAG_NOENTOK\<close>: both must be present. The shared ones may be absent, and
  count as zero and empty then.
\<close>

definition be_init :: "be_env \<Rightarrow> be_attrs \<Rightarrow> zfs_state \<Rightarrow> (be_error + unit) \<times> zfs_state" where
  "be_init env be_attrs st =
     (if \<not> be_zfs_init env then (Inl ErrZfsInit, st)
      else case BE_ATTR_NEW_BE_NAME be_attrs of
        None \<Rightarrow> (Inl ErrLookupAttr, st)
      | Some nbe_name \<Rightarrow>
      if \<not> be_valid_be_name env nbe_name then (Inl ErrInvalidBEName, st)
      else case BE_ATTR_NEW_BE_POOL be_attrs of
        None \<Rightarrow> (Inl ErrLookupAttr, st)
      | Some nbe_zpool \<Rightarrow>
      (case (BE_ATTR_FS_NUM be_attrs, BE_ATTR_FS_NAMES be_attrs) of
        (Some fs_num, Some fs_names) \<Rightarrow>
          if length fs_names \<noteq> fs_num then (Inl ErrFsNumMismatch, st)
          else
            let shared_fs_num = (case BE_ATTR_SHARED_FS_NUM be_attrs of None \<Rightarrow> 0 | Some n \<Rightarrow> n);
                shared_fs_names =
                  (case BE_ATTR_SHARED_FS_NAMES be_attrs of None \<Rightarrow> [] | Some l \<Rightarrow> l)
            in
            if length shared_fs_names \<noteq> shared_fs_num then (Inl ErrSharedFsNumMismatch, st)
            else if \<not> zpool_open st nbe_zpool then (Inl ErrZpoolNotFound, st)
            else case be_create_container_ds env nbe_zpool st of
              (False, st1) \<Rightarrow> (Inl ErrContainerDs, st1)
            | (True, st1) \<Rightarrow>
            (case zpool_iter st1 (be_exists_callback env st1 nbe_name) () of
              (zret, u) \<Rightarrow>
              if zret > 0 then (Inl ErrBEExists, st1)
              else if zret < 0 then (Inl ErrZpoolIter, st1)
              else
                let nbe_root_ds = be_make_root_ds env nbe_zpool nbe_name in
                (case (case BE_ATTR_ZFS_PROPERTIES be_attrs of
                         None \<Rightarrow> Some []
                       | Some (flag, zfs_props) \<Rightarrow>
                           if flag = NV_NOT_UNIQUE then None else Some zfs_props) of
                  None \<Rightarrow> (Inl ErrPropsNotUnique, st1)
                | Some nbe_zfs_props \<Rightarrow>
                  let props = nvlist_add_string nbe_zfs_props
                                (zfs_prop_to_name ZFS_PROP_MOUNTPOINT) ZFS_MOUNTPOINT_LEGACY;
                      props = nvlist_add_string props
                                (zfs_prop_to_name ZFS_PROP_CANMOUNT) ''noauto''
                  in case zfs_create st1 nbe_root_ds props of
                    Inl e \<Rightarrow> (Inl ErrCreateRootDs, st1)
                  | Inr st2 \<Rightarrow>
                    (case be_init_fs nbe_root_ds fs_names props st2 of
                      (Inl e, st3) \<Rightarrow> (Inl e, st3)
                    | (Inr u, st3) \<Rightarrow>
                        if shared_fs_num > 0
                        then be_init_shared_fs nbe_zpool shared_fs_names [] st3
                        else (Inr (), st3))))
      | _ \<Rightarrow> (Inl ErrLookupAttr, st)))"

section \<open>be\_destroy\<close>

text \<open>
  \<open>be_destroy_callback\<close> (lines 1643 to 1663): children first, then a forced
  unmount and the destroy of the node itself; the destroy is not tried when the
  unmount fails.
\<close>

fun be_destroy_callback :: "zfs_handle \<Rightarrow> zfs_state \<Rightarrow> int \<times> zfs_state" where
  "be_destroy_callback (ZH zhp_name kids) st =
     (case zfs_iter_filesystems kids (\<lambda>k d. be_destroy_callback k d) st of
        (ret, st1) \<Rightarrow>
          if ret \<noteq> 0 then (1, st1)
          else case zfs_unmount st1 zhp_name of
                 Inl e \<Rightarrow> (1, st1)
               | Inr st2 \<Rightarrow>
                   (case zfs_destroy st2 zhp_name of
                      Inl e \<Rightarrow> (1, st2)
                    | Inr st3 \<Rightarrow> (0, st3)))"

text \<open>
  The label \<open>done\<close> of \<open>be_destroy\<close> (lines 522 to 532): the boot menu entry is
  removed whatever \<open>ret\<close> is, and a failure there returns 1.
\<close>

definition be_destroy_done ::
  "be_env \<Rightarrow> string \<Rightarrow> string \<Rightarrow> be_error + unit \<Rightarrow> zfs_state
   \<Rightarrow> (be_error + unit) \<times> zfs_state" where
  "be_destroy_done env obe_name obe_zpool ret st =
     (if be_remove_grub env obe_name obe_zpool \<noteq> 0 then (Inl ErrRemoveGrub, st)
      else (ret, st))"

text \<open>
  The origin evaluation after the teardown (lines 461 to 520). \<open>numclones\<close> is read
  as a number: libzfs prints it in decimal and \<open>sscanf\<close> reads it back.
\<close>

definition be_destroy_origin ::
  "be_env \<Rightarrow> string \<Rightarrow> string \<Rightarrow> string \<Rightarrow> string \<Rightarrow> string \<Rightarrow> zfs_state
   \<Rightarrow> (be_error + unit) \<times> zfs_state" where
  "be_destroy_origin env obe_name obe_zpool origin parent snap st =
     (if snap \<noteq> obe_name then be_destroy_done env obe_name obe_zpool (Inr ()) st
      else if \<not> zfs_dataset_exists st origin ZFS_TYPE_SNAPSHOT
      then be_destroy_done env obe_name obe_zpool (Inl ErrOpenOrigin) st
      else case zfs_prop_get_numclones st origin of
        None \<Rightarrow> be_destroy_done env obe_name obe_zpool (Inl ErrNumClones) st
      | Some numclone \<Rightarrow>
          if numclone \<noteq> 0 then be_destroy_done env obe_name obe_zpool (Inr ()) st
          else if \<not> zfs_dataset_exists st parent ZFS_TYPE_FILESYSTEM
          then be_destroy_done env obe_name obe_zpool (Inl ErrOpenParent) st
          else case zfs_destroy_snaps st parent snap of
                 Inl e \<Rightarrow> be_destroy_done env obe_name obe_zpool (Inl ErrDestroySnaps) st
               | Inr st' \<Rightarrow> be_destroy_done env obe_name obe_zpool (Inr ()) st')"

text \<open>
  \<open>be_destroy\<close> (lines 369 to 533). \<open>zpool_iter\<close> returns non-zero only when the
  callback has set \<open>obe_zpool\<close>, and \<open>be_get_snap\<close> returns 0 only when it has set
  \<open>snap\<close>; the branches for an unset value stand where the C code would read NULL.
\<close>

definition be_destroy :: "be_env \<Rightarrow> be_attrs \<Rightarrow> zfs_state \<Rightarrow> (be_error + unit) \<times> zfs_state" where
  "be_destroy env be_attrs st =
     (if \<not> be_zfs_init env then (Inl ErrZfsInit, st)
      else case BE_ATTR_ORIG_BE_NAME be_attrs of
        None \<Rightarrow> (Inl ErrLookupAttr, st)
      | Some obe_name \<Rightarrow>
      if \<not> be_valid_be_name env obe_name then (Inl ErrInvalidBEName, st)
      else case zpool_iter st (be_find_zpool_callback env st obe_name) None of
        (zret, zp) \<Rightarrow>
        if zret = 0 then (Inl ErrFindZpool, st)
        else if zret < 0 then (Inl ErrZpoolIter, st)
        else case zp of
          None \<Rightarrow> (Inl ErrFindZpool, st)
        | Some obe_zpool \<Rightarrow>
        let obe_root_ds = be_make_root_ds env obe_zpool obe_name in
        case zfs_open st obe_root_ds of
          None \<Rightarrow> (Inl ErrOpenRootDs, st)
        | Some zhp \<Rightarrow>
        (case zfs_is_mounted st (zfs_get_name zhp) of
          Some mp \<Rightarrow> (Inl ErrMounted, st)
        | None \<Rightarrow>
          (case (case zfs_prop_get_origin st (zfs_get_name zhp) of
                   None \<Rightarrow> Inr None
                 | Some origin \<Rightarrow>
                     (case be_get_snap origin of
                        (r, parent, snap_opt) \<Rightarrow>
                          if r \<noteq> 0 then Inl ErrGetSnap
                          else case snap_opt of
                                 None \<Rightarrow> Inl ErrGetSnap
                               | Some snap \<Rightarrow> Inr (Some (origin, parent, snap)))) of
            Inl e \<Rightarrow> (Inl e, st)
          | Inr has_origin \<Rightarrow>
              (case be_destroy_callback zhp st of
                 (r, st1) \<Rightarrow>
                   if r \<noteq> 0 then (Inl ErrDestroyRootDs, st1)
                   else case has_origin of
                          None \<Rightarrow> be_destroy_done env obe_name obe_zpool (Inr ()) st1
                        | Some (origin, parent, snap) \<Rightarrow>
                            be_destroy_origin env obe_name obe_zpool origin parent snap st1))))"

section \<open>The hierarchy replicators\<close>

text \<open>
  \<open>strncmp a b n\<close> compares at most \<open>n\<close> bytes, as unsigned values, and stops at
  the end of either string; only the sign of the result is kept.
\<close>

fun strncmp :: "string \<Rightarrow> string \<Rightarrow> nat \<Rightarrow> int" where
  "strncmp a b 0 = 0"
| "strncmp [] [] (Suc n) = 0"
| "strncmp [] (y # ys) (Suc n) = - 1"
| "strncmp (x # xs) [] (Suc n) = 1"
| "strncmp (x # xs) (y # ys) (Suc n) =
     (if x = y then strncmp xs ys n
      else if (of_char x :: nat) < of_char y then - 1 else 1)"

text \<open>
  The members of \<open>be_transaction_data_t\<close> that the replicators read; \<open>be_copy\<close>
  sets all of them before the walk starts. \<open>nbe_zfs_props\<close> is the one property list
  of the transaction: every node changes it in place and the next node starts from
  what the last one left.
\<close>

record be_transaction_data =
  obe_root_ds :: string
  obe_snap_name :: string
  nbe_root_ds :: string
  nbe_zfs_props :: nvlist

text \<open>
  \<open>be_clone_fs_callback\<close> (lines 1265 to 1412). The relative name \<open>child_fs\<close> is
  \<open>zhp_name\<close> without its first \<open>strlen(obe_root_ds)\<close> bytes; every node of a walk
  that starts at the BE root has \<open>obe_root_ds\<close> as a prefix of its name. The value
  returned by \<open>zfs_iter_filesystems\<close> at the end is dropped, as in the source.
\<close>

fun be_clone_fs_callback ::
  "be_env \<Rightarrow> zfs_handle \<Rightarrow> be_transaction_data \<times> zfs_state
   \<Rightarrow> int \<times> be_transaction_data \<times> zfs_state" where
  "be_clone_fs_callback env (ZH zhp_name kids) (bt, st) =
     (if strncmp zhp_name (obe_root_ds bt) (length (obe_root_ds bt)) \<ge> 0 then
        let child_fs = drop (length (obe_root_ds bt)) zhp_name;
            clone_ds = nbe_root_ds bt @ child_fs
        in
        case (if child_fs = []
              then Inr (nvlist_add_string (nbe_zfs_props bt)
                          (zfs_prop_to_name ZFS_PROP_MOUNTPOINT) ZFS_MOUNTPOINT_LEGACY)
              else case zfs_prop_get_mountpoint st zhp_name of
                     None \<Rightarrow> Inl ()
                   | Some (mountpoint, sourcetype) \<Rightarrow>
                       if sourcetype = ZPROP_SRC_LOCAL
                       then Inr (nvlist_add_string (nbe_zfs_props bt)
                                   (zfs_prop_to_name ZFS_PROP_MOUNTPOINT) mountpoint)
                       else (case nvlist_remove_all (nbe_zfs_props bt)
                                    (zfs_prop_to_name ZFS_PROP_MOUNTPOINT) of
                               (ret, props) \<Rightarrow>
                                 if ret \<noteq> 0 \<and> ret \<noteq> ENOENT then Inl () else Inr props)) of
          Inl u \<Rightarrow> (1, bt, st)
        | Inr props \<Rightarrow>
            let props = nvlist_add_string props (zfs_prop_to_name ZFS_PROP_CANMOUNT) ''noauto'';
                bt = bt\<lparr>nbe_zfs_props := props\<rparr>;
                ss = zhp_name @ ''@'' @ obe_snap_name bt
            in
            if \<not> zfs_dataset_exists st ss ZFS_TYPE_SNAPSHOT then (1, bt, st)
            else case zfs_clone st ss clone_ds props of
                   Inl e \<Rightarrow> (if e = EZFS_EXISTS then BE_ERR_EXISTS env else 1, bt, st)
                 | Inr st' \<Rightarrow>
                     (case zfs_iter_filesystems kids
                             (\<lambda>k d. be_clone_fs_callback env k d) (bt, st') of
                        (ret, d) \<Rightarrow> (0, d))
      else (1, bt, st))"

text \<open>
  Receiving into the dataset created for it leaves the dataset in place and adds the
  snapshot that was sent.
\<close>

definition zfs_receive :: "zfs_state \<Rightarrow> string \<Rightarrow> string \<Rightarrow> zfs_err + zfs_state" where
  "zfs_receive st name snap =
     (if \<not> zfs_dataset_exists st name ZFS_TYPE_FILESYSTEM then Inl EZFS_NOENT
      else if zfs_dataset_exists st (name @ ''@'' @ snap) ZFS_TYPE_SNAPSHOT then Inl EZFS_EXISTS
      else Inr (st\<lparr>zsnapshots := zsnapshots st @ [name @ ''@'' @ snap]\<rparr>))"

text \<open>
  \<open>be_send_fs_callback\<close> (lines 1428 to 1628). The child process and the pipe are
  reduced to the exit status of the child, \<open>send_exit_status\<close>, which is 0 when
  \<open>zfs_send\<close> succeeded; the receive takes effect then. Failures of \<open>pipe\<close> and
  \<open>fork\<close> are not modelled. A failed receive only prints a message.
\<close>

fun be_send_fs_callback ::
  "be_env \<Rightarrow> zfs_handle \<Rightarrow> be_transaction_data \<times> zfs_state
   \<Rightarrow> int \<times> be_transaction_data \<times> zfs_state" where
  "be_send_fs_callback env (ZH zhp_name kids) (bt, st) =
     (if strncmp zhp_name (obe_root_ds bt) (length (obe_root_ds bt)) \<ge> 0 then
        let child_fs = drop (length (obe_root_ds bt)) zhp_name;
            clone_ds = nbe_root_ds bt @ child_fs
        in
        case (if child_fs = []
              then Inr (nvlist_add_string (nbe_zfs_props bt)
                          (zfs_prop_to_name ZFS_PROP_MOUNTPOINT) ZFS_MOUNTPOINT_LEGACY)
              else case zfs_prop_get_mountpoint st zhp_name of
                     None \<Rightarrow> Inl ()
                   | Some (mountpoint, sourcetype) \<Rightarrow>
                       if sourcetype = ZPROP_SRC_LOCAL
                       then Inr (nvlist_add_string (nbe_zfs_props bt)
                                   (zfs_prop_to_name ZFS_PROP_MOUNTPOINT) mountpoint)
                       else (case nvlist_remove_all (nbe_zfs_props bt)
                                    (zfs_prop_to_name ZFS_PROP_MOUNTPOINT) of
                               (ret, props) \<Rightarrow>
                                 if ret \<noteq> 0 \<and> ret \<noteq> ENOENT then Inl () else Inr props)) of
          Inl u \<Rightarrow> (1, bt, st)
        | Inr props \<Rightarrow>
            let props = nvlist_add_string props (zfs_prop_to_name ZFS_PROP_CANMOUNT) ''noauto'';
                bt = bt\<lparr>nbe_zfs_props := props\<rparr>;
                ss = zhp_name @ ''@'' @ obe_snap_name bt
            in
            if \<not> zfs_dataset_exists st ss ZFS_TYPE_SNAPSHOT then (1, bt, st)
            else case zfs_create st clone_ds props of
                   Inl e \<Rightarrow> (1, bt, st)
                 | Inr st1 \<Rightarrow>
                     let status = send_exit_status env zhp_name (obe_snap_name bt);
                         st2 = (if status = 0
                                then (case zfs_receive st1 clone_ds (obe_snap_name bt) of
                                        Inl e \<Rightarrow> st1
                                      | Inr s \<Rightarrow> s)
                                else st1)
                     in
                     if status \<noteq> 0 then (1, bt, st2)
                     else (case zfs_iter_filesystems kids
                                  (\<lambda>k d. be_send_fs_callback env k d) (bt, st2) of
                             (ret, d) \<Rightarrow> if ret \<noteq> 0 then (1, d) else (0, d))
      else (1, bt, st))"

section \<open>be\_copy\<close>

text \<open>The last component of a path, as \<open>basename\<close> gives it for a dataset name.\<close>

definition basename :: "string \<Rightarrow> string" where
  "basename path =
     (case strrchr path (CHR ''/'') of None \<Rightarrow> path | Some i \<Rightarrow> drop (Suc i) path)"

text \<open>
  \<open>be_zfs_find_current_be_callback\<close> and \<open>be_zpool_find_current_be_callback\<close>
  (lines 1152 to 1245). The data is the triple of \<open>obe_name\<close>, \<open>obe_root_ds\<close> and
  \<open>obe_zpool\<close> that they set.
\<close>

type_synonym cur_be = "string option \<times> string option \<times> string option"

definition be_zfs_find_current_be_callback ::
  "zfs_state \<Rightarrow> zfs_handle \<Rightarrow> cur_be \<Rightarrow> int \<times> cur_be" where
  "be_zfs_find_current_be_callback st zhp bt =
     (case zfs_is_mounted st (zfs_get_name zhp) of
        Some mp \<Rightarrow>
          if mp = ''/''
          then (1, Some (basename (zfs_get_name zhp)), Some (zfs_get_name zhp), snd (snd bt))
          else (0, bt)
      | None \<Rightarrow> (0, bt))"

definition be_zpool_find_current_be_callback ::
  "be_env \<Rightarrow> zfs_state \<Rightarrow> string \<Rightarrow> cur_be \<Rightarrow> int \<times> cur_be" where
  "be_zpool_find_current_be_callback env st zpool bt =
     (let be_container_ds = be_make_container_ds env zpool in
      if \<not> zfs_dataset_exists st be_container_ds ZFS_TYPE_FILESYSTEM then (0, bt)
      else case zfs_open st be_container_ds of
        None \<Rightarrow> (0, bt)
      | Some zhp \<Rightarrow>
          (case zfs_iter_filesystems (zfs_children zhp)
                  (be_zfs_find_current_be_callback st) bt of
             (ret, (n, r, z)) \<Rightarrow>
               if ret \<noteq> 0 then (1, (n, r, Some zpool)) else (0, (n, r, z))))"

text \<open>
  Resolving the original BE (lines 587 to 627): its name, given or that of the BE
  mounted at the root, and the first pool that holds a BE of that name.
\<close>

definition be_copy_source ::
  "be_env \<Rightarrow> be_attrs \<Rightarrow> zfs_state \<Rightarrow> be_error + (string \<times> string)" where
  "be_copy_source env be_attrs st =
     (case (case BE_ATTR_ORIG_BE_NAME be_attrs of
              None \<Rightarrow>
                (case zpool_iter st (be_zpool_find_current_be_callback env st)
                        (None, None, None) of
                   (zret, (n, r, z)) \<Rightarrow>
                     if zret = 0 then Inl ErrFindCurrentBE
                     else if zret < 0 then Inl ErrZpoolIter
                     else case n of None \<Rightarrow> Inl ErrFindCurrentBE | Some obe_name \<Rightarrow> Inr obe_name)
            | Some obe_name \<Rightarrow>
                if \<not> be_valid_be_name env obe_name then Inl ErrInvalidBEName
                else Inr obe_name) of
        Inl e \<Rightarrow> Inl e
      | Inr obe_name \<Rightarrow>
          (case zpool_iter st (be_find_zpool_callback env st obe_name) None of
             (zret, zp) \<Rightarrow>
               if zret = 0 then Inl ErrFindZpool
               else if zret < 0 then Inl ErrZpoolIter
               else case zp of
                      None \<Rightarrow> Inl ErrFindZpool
                    | Some obe_zpool \<Rightarrow> Inr (obe_name, obe_zpool)))"

text \<open>The property list of the new BE (lines 675 to 709).\<close>

definition be_copy_props :: "be_attrs \<Rightarrow> be_error + nvlist" where
  "be_copy_props be_attrs =
     (case BE_ATTR_ZFS_PROPERTIES be_attrs of
        None \<Rightarrow> Inr []
      | Some (flag, zfs_props) \<Rightarrow>
          if flag = NV_NOT_UNIQUE then Inl ErrPropsNotUnique else Inr zfs_props)"

text \<open>
  The name of the new BE (lines 711 to 769): the given one, validated and unused in
  every pool, or an automatic one, which excludes a pool and a snapshot attribute.
  The result is the name and the \<open>autoname\<close> flag.
\<close>

definition be_copy_dest ::
  "be_env \<Rightarrow> be_attrs \<Rightarrow> zfs_state \<Rightarrow> string \<Rightarrow> be_error + (string \<times> bool)" where
  "be_copy_dest env be_attrs st obe_name =
     (case BE_ATTR_NEW_BE_NAME be_attrs of
        Some nbe_name \<Rightarrow>
          if \<not> be_valid_be_name env nbe_name then Inl ErrInvalidBEName
          else (case zpool_iter st (be_exists_callback env st nbe_name) () of
                  (zret, u) \<Rightarrow>
                    if zret > 0 then Inl ErrBEExists
                    else if zret < 0 then Inl ErrZpoolIter
                    else Inr (nbe_name, False))
      | None \<Rightarrow>
          if BE_ATTR_NEW_BE_POOL be_attrs \<noteq> None then Inl ErrAutoNamePool
          else if BE_ATTR_SNAP_NAME be_attrs \<noteq> None then Inl ErrAutoNameSnap
          else (case be_auto_be_name env 0 st obe_name of
                  None \<Rightarrow> Inl ErrAutoBEName
                | Some nbe_name \<Rightarrow> Inr (nbe_name, True)))"

text \<open>
  Modelled from the spec: \<open>_be_create_snapshot\<close> (not in be\_create.c) creates a
  freshly auto-named recursive snapshot of the BE and gives its name.
\<close>

definition be_create_snapshot ::
  "be_env \<Rightarrow> string \<Rightarrow> string \<Rightarrow> zfs_state \<Rightarrow> (string \<times> zfs_state) option" where
  "be_create_snapshot env obe_name obe_root st =
     (case be_auto_snap_name env st obe_name of
        None \<Rightarrow> None
      | Some snap \<Rightarrow>
          (case zfs_snapshot st (obe_root @ ''@'' @ snap) True of
             Inl e \<Rightarrow> None
           | Inr st' \<Rightarrow> Some (snap, st')))"

text \<open>
  The snapshot to replicate from (lines 788 to 849): the given one, which must exist
  for the root dataset, or a new recursive one, auto-named or named after the new BE.
  The result is the snapshot name and the attribute list, to which an auto-named
  snapshot is added.
\<close>

definition be_copy_snapshot ::
  "be_env \<Rightarrow> be_attrs \<Rightarrow> bool \<Rightarrow> string \<Rightarrow> string \<Rightarrow> string \<Rightarrow> zfs_state
   \<Rightarrow> (be_error + (string \<times> be_attrs)) \<times> zfs_state" where
  "be_copy_snapshot env be_attrs autoname obe_name nbe_name obe_root st =
     (case BE_ATTR_SNAP_NAME be_attrs of
        Some snap \<Rightarrow>
          if \<not> zfs_dataset_exists st (obe_root @ ''@'' @ snap) ZFS_TYPE_SNAPSHOT
          then (Inl ErrSnapshotMissing, st)
          else (Inr (snap, be_attrs), st)
      | None \<Rightarrow>
          if autoname then
            (case be_create_snapshot env obe_name obe_root st of
               None \<Rightarrow> (Inl ErrAutoSnapshot, st)
             | Some (snap, st') \<Rightarrow>
                 (Inr (snap, be_attrs\<lparr>BE_ATTR_SNAP_NAME := Some snap\<rparr>), st'))
          else
            (case zfs_snapshot st (obe_root @ ''@'' @ nbe_name) True of
               Inl e \<Rightarrow> (Inl ErrSnapshot, st)
             | Inr st' \<Rightarrow> (Inr (nbe_name, be_attrs), st')))"

text \<open>
  The retry loop (lines 879 to 917), entered with \<open>i = 1\<close> after a first attempt
  that returned \<open>BE_ERR_EXISTS\<close>. It ends with \<open>Inr (i, name)\<close>: by \<open>break\<close>
  after a successful attempt, with \<open>i\<close> below the maximum, or by running out, with
  the name of the last attempt.
\<close>

function be_copy_retry ::
  "be_env \<Rightarrow> string \<Rightarrow> string \<Rightarrow> zfs_handle \<Rightarrow> int \<Rightarrow> string
   \<Rightarrow> be_transaction_data \<times> zfs_state
   \<Rightarrow> (be_error + (int \<times> string)) \<times> be_transaction_data \<times> zfs_state" where
  "be_copy_retry env obe_name nbe_zpool zhp i nbe_name (bt, st) =
     (if i < BE_AUTO_NAME_MAX_TRY env then
        case be_auto_be_name env (nat i) st obe_name of
          None \<Rightarrow> (Inl ErrAutoBEName, bt, st)
        | Some nbe_name' \<Rightarrow>
            let bt = bt\<lparr>nbe_root_ds := be_make_root_ds env nbe_zpool nbe_name'\<rparr> in
            (case be_clone_fs_callback env zhp (bt, st) of
               (zret, d) \<Rightarrow>
                 if zret = 0 then (Inr (i, nbe_name'), d)
                 else if zret \<noteq> BE_ERR_EXISTS env then (Inl ErrClone, d)
                 else be_copy_retry env obe_name nbe_zpool zhp (i + 1) nbe_name' d)
      else (Inr (i, nbe_name), bt, st))"
  by pat_completeness auto
termination
  by (relation "measure (\<lambda>(env, obe_name, nbe_zpool, zhp, i, nbe_name, d).
                           nat (BE_AUTO_NAME_MAX_TRY env - i))") auto

text \<open>
  The same-pool branch (lines 853 to 935). The result is the name under which the
  new BE was cloned.
\<close>

definition be_copy_clone ::
  "be_env \<Rightarrow> bool \<Rightarrow> string \<Rightarrow> string \<Rightarrow> string \<Rightarrow> be_transaction_data \<times> zfs_state
   \<Rightarrow> (be_error + string) \<times> be_transaction_data \<times> zfs_state" where
  "be_copy_clone env autoname obe_name nbe_name nbe_zpool d =
     (case zfs_open (snd d) (obe_root_ds (fst d)) of
        None \<Rightarrow> (Inl ErrOpenRootDs, d)
      | Some zhp \<Rightarrow>
          (case be_clone_fs_callback env zhp d of
             (zret, d1) \<Rightarrow>
               if zret \<noteq> 0 then
                 if \<not> autoname \<or> zret \<noteq> BE_ERR_EXISTS env then (Inl ErrClone, d1)
                 else (case be_copy_retry env obe_name nbe_zpool zhp 1 nbe_name d1 of
                         (Inl e, d2) \<Rightarrow> (Inl e, d2)
                       | (Inr (i, nbe_name'), d2) \<Rightarrow>
                           if i = BE_AUTO_NAME_MAX_TRY env then (Inl ErrUniqueAutoName, d2)
                           else (Inr nbe_name', d2))
               else (Inr nbe_name, d1)))"

text \<open>The cross-pool branch (lines 944 to 976).\<close>

definition be_copy_send ::
  "be_env \<Rightarrow> string \<Rightarrow> string \<Rightarrow> be_transaction_data \<times> zfs_state
   \<Rightarrow> (be_error + string) \<times> be_transaction_data \<times> zfs_state" where
  "be_copy_send env nbe_name nbe_zpool d =
     (case be_create_container_ds env nbe_zpool (snd d) of
        (False, st1) \<Rightarrow> (Inl ErrContainerDs, fst d, st1)
      | (True, st1) \<Rightarrow>
          (case zfs_open st1 (obe_root_ds (fst d)) of
             None \<Rightarrow> (Inl ErrOpenRootDs, fst d, st1)
           | Some zhp \<Rightarrow>
               (case be_send_fs_callback env zhp (fst d, st1) of
                  (zret, d1) \<Rightarrow>
                    if zret \<noteq> 0 then (Inl ErrSend, d1) else (Inr nbe_name, d1))))"

text \<open>A user property is set among the locally set properties of the dataset.\<close>

definition zfs_prop_set :: "zfs_state \<Rightarrow> string \<Rightarrow> string \<Rightarrow> string \<Rightarrow> zfs_err + zfs_state" where
  "zfs_prop_set st name prop val =
     (if \<not> zfs_dataset_exists st name ZFS_TYPE_FILESYSTEM then Inl EZFS_NOENT
      else Inr (st\<lparr>zdatasets :=
             map (\<lambda>d. if ds_name d = name
                      then d\<lparr>ds_props := nvlist_add_string (ds_props d) prop val\<rparr> else d)
               (zdatasets st)\<rparr>))"

text \<open>
  The post-processing (lines 984 to 1042): the vfstab of the new BE, its boot menu
  entry and, for an auto-named BE, the policy property and the name given back in
  the attribute list.
\<close>

definition be_copy_finish ::
  "be_env \<Rightarrow> be_attrs \<Rightarrow> bool \<Rightarrow> string \<Rightarrow> string \<Rightarrow> string \<Rightarrow> string \<Rightarrow> zfs_state
   \<Rightarrow> (be_error + be_attrs) \<times> zfs_state" where
  "be_copy_finish env be_attrs autoname nbe_name nbe_zpool nbe_root policy st =
     (if be_update_vfstab env nbe_name nbe_root \<noteq> 0 then (Inl ErrVfstab, st)
      else if be_append_grub env nbe_name nbe_zpool (BE_ATTR_NEW_BE_DESC be_attrs) \<noteq> 0
      then (Inl ErrAppendGrub, st)
      else if autoname then
        (case zfs_open st nbe_root of
           None \<Rightarrow> (Inl ErrOpenRootDs, st)
         | Some zhp \<Rightarrow>
             (case zfs_prop_set st (zfs_get_name zhp) (BE_POLICY_PROPERTY env) policy of
                Inl e \<Rightarrow> (Inl ErrSetPolicy, st)
              | Inr st' \<Rightarrow> (Inr (be_attrs\<lparr>BE_ATTR_NEW_BE_NAME := Some nbe_name\<rparr>), st')))
      else (Inr be_attrs, st))"

text \<open>
  \<open>be_copy\<close> (lines 568 to 1051). On success the result is the attribute list as
  the caller finds it afterwards.
\<close>

definition be_copy :: "be_env \<Rightarrow> be_attrs \<Rightarrow> zfs_state \<Rightarrow> (be_error + be_attrs) \<times> zfs_state" where
  "be_copy env be_attrs st =
     (if \<not> be_zfs_init env then (Inl ErrZfsInit, st)
      else case be_copy_source env be_attrs st of
        Inl e \<Rightarrow> (Inl e, st)
      | Inr (obe_name, obe_zpool) \<Rightarrow>
      let policy = (case BE_ATTR_POLICY be_attrs of
                      None \<Rightarrow> be_default_policy env | Some p \<Rightarrow> p)
      in
      case be_copy_props be_attrs of
        Inl e \<Rightarrow> (Inl e, st)
      | Inr zfs_props \<Rightarrow>
      (case be_copy_dest env be_attrs st obe_name of
        Inl e \<Rightarrow> (Inl e, st)
      | Inr (nbe_name, autoname) \<Rightarrow>
      let nbe_zpool = (case BE_ATTR_NEW_BE_POOL be_attrs of
                         None \<Rightarrow> obe_zpool | Some p \<Rightarrow> p);
          obe_root = be_make_root_ds env obe_zpool obe_name;
          nbe_root = be_make_root_ds env nbe_zpool nbe_name
      in
      (case be_copy_snapshot env be_attrs autoname obe_name nbe_name obe_root st of
        (Inl e, st1) \<Rightarrow> (Inl e, st1)
      | (Inr (snap, be_attrs1), st1) \<Rightarrow>
      let bt = \<lparr>obe_root_ds = obe_root, obe_snap_name = snap,
                nbe_root_ds = nbe_root, nbe_zfs_props = zfs_props\<rparr>
      in
      (case (if obe_zpool = nbe_zpool
             then be_copy_clone env autoname obe_name nbe_name nbe_zpool (bt, st1)
             else be_copy_send env nbe_name nbe_zpool (bt, st1)) of
        (Inl e, bt2, st2) \<Rightarrow> (Inl e, st2)
      | (Inr nbe_name', bt2, st2) \<Rightarrow>
          be_copy_finish env be_attrs1 autoname nbe_name' nbe_zpool
            (nbe_root_ds bt2) policy st2))))"

section \<open>The property policy of the replicators\<close>

text \<open>
  \<open>be_node_props\<close> is the mountpoint part of both replicators (lines 1312 to 1354
  and 1478 to 1520) as one function: the property list after it, or \<open>Inl\<close> where
  the callback returns 1. \<open>spec_node_props\<close> is the policy in the words of the
  specification: canmount is noauto for every node; the BE root (empty relative path)
  has mountpoint legacy; another node has the literal mountpoint of the source node
  when that is set locally, and no mountpoint entry when it is inherited.
\<close>

definition be_node_props :: "be_transaction_data \<Rightarrow> zfs_state \<Rightarrow> string \<Rightarrow> unit + nvlist" where
  "be_node_props bt st zhp_name =
     (if drop (length (obe_root_ds bt)) zhp_name = []
      then Inr (nvlist_add_string (nbe_zfs_props bt)
                  (zfs_prop_to_name ZFS_PROP_MOUNTPOINT) ZFS_MOUNTPOINT_LEGACY)
      else case zfs_prop_get_mountpoint st zhp_name of
             None \<Rightarrow> Inl ()
           | Some (mountpoint, sourcetype) \<Rightarrow>
               if sourcetype = ZPROP_SRC_LOCAL
               then Inr (nvlist_add_string (nbe_zfs_props bt)
                           (zfs_prop_to_name ZFS_PROP_MOUNTPOINT) mountpoint)
               else (case nvlist_remove_all (nbe_zfs_props bt)
                            (zfs_prop_to_name ZFS_PROP_MOUNTPOINT) of
                       (ret, props) \<Rightarrow>
                         if ret \<noteq> 0 \<and> ret \<noteq> ENOENT then Inl () else Inr props))"


text \<open>The replicators only add datasets at the end of the namespace.\<close>

definition zfs_extends :: "zfs_state \<Rightarrow> be_transaction_data \<times> zfs_state \<Rightarrow> bool" where
  "zfs_extends st d \<longleftrightarrow> (\<exists>new. zdatasets (snd d) = zdatasets st @ new)"


section \<open>Replication attempts\<close>


definition be_same_source :: "be_transaction_data \<Rightarrow> be_transaction_data \<Rightarrow> bool" where
  "be_same_source bt bt' \<longleftrightarrow>
     obe_root_ds bt' = obe_root_ds bt \<and> obe_snap_name bt' = obe_snap_name bt"

text \<open>
  The relative paths of the datasets of a BE, in the words of the specification: the
  names of the root dataset and its descendants, without the root's name.
\<close>

definition be_rel_paths :: "zfs_state \<Rightarrow> string \<Rightarrow> string list" where
  "be_rel_paths st root =
     map (drop (length root)) (filter (zfs_in_subtree root) (map ds_name (zdatasets st)))"

text \<open>
  The names of the datasets that a handle and its descendants stand for, and what a
  walk of \<open>be_clone_fs_callback\<close> keeps: the roots and the snapshot name of the
  transaction, the pools and the snapshots of the namespace; and every dataset of the
  namespace was there before or lies under the destination root.
\<close>

fun zfs_handle_names :: "zfs_handle \<Rightarrow> string list" where
  "zfs_handle_names (ZH n kids) = n # concat (map zfs_handle_names kids)"

definition be_clone_inv ::
  "be_transaction_data \<Rightarrow> zfs_state \<Rightarrow> be_transaction_data \<times> zfs_state \<Rightarrow> bool" where
  "be_clone_inv bt st d \<longleftrightarrow>
     obe_root_ds (fst d) = obe_root_ds bt \<and> nbe_root_ds (fst d) = nbe_root_ds bt
     \<and> obe_snap_name (fst d) = obe_snap_name bt
     \<and> zpools (snd d) = zpools st \<and> zsnapshots (snd d) = zsnapshots st
     \<and> (\<forall>x \<in> set (zdatasets (snd d)).
          x \<in> set (zdatasets st) \<or> zfs_in_subtree (nbe_root_ds bt) (ds_name x))"

section \<open>Well-formed namespaces\<close>

text \<open>
  In a namespace that libzfs can produce, every snapshot is named \<open>dataset@snap\<close>
  with a non-empty snapshot name and an existing dataset, and the origin of every
  clone is an existing snapshot.
\<close>

definition zfs_wf :: "zfs_state \<Rightarrow> bool" where
  "zfs_wf st \<longleftrightarrow>
     (\<forall>s \<in> set (zsnapshots st).
        case zfs_snap_split s of
          None \<Rightarrow> False
        | Some (d, n) \<Rightarrow> n \<noteq> [] \<and> zfs_dataset_exists st d ZFS_TYPE_FILESYSTEM)
     \<and> (\<forall>d \<in> set (zdatasets st).
          case ds_origin d of None \<Rightarrow> True | Some orig \<Rightarrow> orig \<in> set (zsnapshots st))"

text \<open>
  What a teardown that started in \<open>s0\<close> keeps: the pools, the snapshots, and every
  dataset that has a snapshot.
\<close>

definition teardown_inv :: "zfs_state \<Rightarrow> zfs_state \<Rightarrow> bool" where
  "teardown_inv s0 st \<longleftrightarrow>
     zpools st = zpools s0 \<and> zsnapshots st = zsnapshots s0
     \<and> (\<forall>n. (\<exists>s \<in> set (zsnapshots s0). zfs_snap_of n s)
            \<and> zfs_dataset_exists s0 n ZFS_TYPE_FILESYSTEM
          \<longrightarrow> zfs_dataset_exists st n ZFS_TYPE_FILESYSTEM)"

section \<open>Example namespaces\<close>

text \<open>
  A small environment and namespace on which the theorems below are instantiated: one
  pool \<open>p\<close>, the container \<open>p/R\<close>, and the BE \<open>a\<close> with a child \<open>v\<close> whose
  mountpoint is set locally. The snapshot \<open>s\<close> exists for the root of \<open>a\<close> only.
  Automatic BE names append \<open>x\<close> to the original name, one more at every call.
\<close>

definition ex_env :: be_env where
  "ex_env =
     \<lparr>BE_CONTAINER_DS_NAME = ''R'', BE_AUTO_NAME_MAX_TRY = 3, BE_ERR_EXISTS = 2,
      BE_POLICY_PROPERTY = ''pol'', be_zfs_init = True,
      be_valid_be_name = (\<lambda>n. n \<noteq> [] \<and> CHR ''/'' \<notin> set n),
      be_default_policy = ''static'',
      be_auto_be_name = (\<lambda>k st n. Some (n @ replicate (Suc k) (CHR ''x''))),
      be_auto_snap_name = (\<lambda>st n. Some ''t''),
      be_update_vfstab = (\<lambda>n r. 0), be_append_grub = (\<lambda>n z d. 0),
      be_remove_grub = (\<lambda>n z. 0), send_exit_status = (\<lambda>n s. 0)\<rparr>"

definition ex_attrs :: be_attrs where
  "ex_attrs =
     \<lparr>BE_ATTR_ORIG_BE_NAME = Some ''a'', BE_ATTR_SNAP_NAME = None,
      BE_ATTR_NEW_BE_NAME = None, BE_ATTR_NEW_BE_POOL = None, BE_ATTR_NEW_BE_DESC = None,
      BE_ATTR_ZFS_PROPERTIES = None, BE_ATTR_POLICY = None, BE_ATTR_FS_NAMES = None,
      BE_ATTR_FS_NUM = None, BE_ATTR_SHARED_FS_NAMES = None,
      BE_ATTR_SHARED_FS_NUM = None\<rparr>"

definition ex_datasets :: "dataset list" where
  "ex_datasets =
     [zfs_new_dataset ''p'' [] None,
      zfs_new_dataset ''p/R'' [(''mountpoint'', ''legacy''), (''canmount'', ''off'')] None,
      zfs_new_dataset ''p/R/a'' [(''mountpoint'', ''legacy''), (''canmount'', ''noauto'')] None,
      zfs_new_dataset ''p/R/a/v'' [(''canmount'', ''noauto''), (''mountpoint'', ''/v'')] None]"

definition ex_st :: zfs_state where
  "ex_st = \<lparr>zpools = [''p''], zdatasets = ex_datasets, zsnapshots = [''p/R/a@s'']\<rparr>"

text \<open>The same namespace with the root of \<open>a\<close> mounted at the system root.\<close>

definition ex_st_mounted :: zfs_state where
  "ex_st_mounted =
     \<lparr>zpools = [''p''],
      zdatasets =
        [zfs_new_dataset ''p'' [] None,
         zfs_new_dataset ''p/R'' [(''mountpoint'', ''legacy''), (''canmount'', ''off'')] None,
         \<lparr>ds_name = ''p/R/a'',
          ds_props = [(''mountpoint'', ''legacy''), (''canmount'', ''noauto'')],
          ds_mounted = Some ''/'', ds_origin = None\<rparr>],
      zsnapshots = []\<rparr>"

text \<open>
  A pool \<open>rpool\<close> without a container, the attributes of an \<open>init\<close> of \<open>be1\<close>
  with the file systems \<open>/\<close> and \<open>/var\<close> and the shared file system \<open>/export\<close>,
  and the namespace after it.
\<close>

definition ex_rpool :: zfs_state where
  "ex_rpool = \<lparr>zpools = [''rpool''], zdatasets = [zfs_new_dataset ''rpool'' [] None],
     zsnapshots = []\<rparr>"

definition ex_init_attrs :: be_attrs where
  "ex_init_attrs =
     \<lparr>BE_ATTR_ORIG_BE_NAME = None, BE_ATTR_SNAP_NAME = None,
      BE_ATTR_NEW_BE_NAME = Some ''be1'', BE_ATTR_NEW_BE_POOL = Some ''rpool'',
      BE_ATTR_NEW_BE_DESC = None, BE_ATTR_ZFS_PROPERTIES = None, BE_ATTR_POLICY = None,
      BE_ATTR_FS_NAMES = Some [''/'', ''/var''], BE_ATTR_FS_NUM = Some 2,
      BE_ATTR_SHARED_FS_NAMES = Some [''/export''], BE_ATTR_SHARED_FS_NUM = Some 1\<rparr>"

definition ex_rpool_init :: zfs_state where
  "ex_rpool_init =
     \<lparr>zpools = [''rpool''],
      zdatasets =
        [zfs_new_dataset ''rpool'' [] None,
         zfs_new_dataset ''rpool/R'' [(''mountpoint'', ''legacy''), (''canmount'', ''off'')] None,
         zfs_new_dataset ''rpool/R/be1''
           [(''mountpoint'', ''legacy''), (''canmount'', ''noauto'')] None,
         zfs_new_dataset ''rpool/R/be1/var''
           [(''canmount'', ''noauto''), (''mountpoint'', ''/var'')] None,
         zfs_new_dataset ''rpool/export'' [(''mountpoint'', ''/export'')] None],
      zsnapshots = []\<rparr>"

text \<open>
  Namespaces with clones of the snapshot \<open>p/R/a@b\<close>: the BEs \<open>b\<close> and \<open>c\<close>
  in the first, \<open>b\<close> alone in the second, which is also given after the teardown of
  \<open>b\<close> and after the destruction of the snapshot. In the environment
  \<open>ex_env_grub\<close> the removal of a boot menu entry fails.
\<close>

definition ex_env_grub :: be_env where
  "ex_env_grub = ex_env\<lparr>be_remove_grub := (\<lambda>n z. 1)\<rparr>"

definition ex_st_clones :: zfs_state where
  "ex_st_clones =
     \<lparr>zpools = [''p''],
      zdatasets =
        [zfs_new_dataset ''p'' [] None,
         zfs_new_dataset ''p/R'' [] None,
         zfs_new_dataset ''p/R/a'' [] None,
         zfs_new_dataset ''p/R/b'' [] (Some ''p/R/a@b''),
         zfs_new_dataset ''p/R/c'' [] (Some ''p/R/a@b'')],
      zsnapshots = [''p/R/a@b'']\<rparr>"

definition ex_st_clone1 :: zfs_state where
  "ex_st_clone1 =
     \<lparr>zpools = [''p''],
      zdatasets =
        [zfs_new_dataset ''p'' [] None,
         zfs_new_dataset ''p/R'' [] None,
         zfs_new_dataset ''p/R/a'' [] None,
         zfs_new_dataset ''p/R/b'' [] (Some ''p/R/a@b'')],
      zsnapshots = [''p/R/a@b'']\<rparr>"

definition ex_st_clone1_torn :: zfs_state where
  "ex_st_clone1_torn =
     \<lparr>zpools = [''p''],
      zdatasets =
        [zfs_new_dataset ''p'' [] None,
         zfs_new_dataset ''p/R'' [] None,
         zfs_new_dataset ''p/R/a'' [] None],
      zsnapshots = [''p/R/a@b'']\<rparr>"

definition ex_st_clone1_done :: zfs_state where
  "ex_st_clone1_done = ex_st_clone1_torn\<lparr>zsnapshots := []\<rparr>"




definition ex_zhp :: zfs_handle where
  "ex_zhp = ZH ''p/R/a'' [ZH ''p/R/a/v'' []]"







text \<open>The transaction of a copy of \<open>a\<close> to \<open>b\<close> from the snapshot \<open>s\<close>.\<close>

definition ex_bt_s :: be_transaction_data where
  "ex_bt_s = \<lparr>obe_root_ds = ''p/R/a'', obe_snap_name = ''s'', nbe_root_ds = ''p/R/b'',
     nbe_zfs_props = []\<rparr>"

text \<open>
  The example namespace with a second pool \<open>q\<close> that has a BE container of its own;
  a name generator that gives up after the first name, and one whose later names lie
  under a dataset that does not exist, with the names it gives.
\<close>

definition ex_st_pools :: zfs_state where
  "ex_st_pools =
     \<lparr>zpools = [''p'', ''q''],
      zdatasets = ex_datasets
        @ [zfs_new_dataset ''q'' [] None,
           zfs_new_dataset ''q/R'' [(''mountpoint'', ''legacy''), (''canmount'', ''off'')] None],
      zsnapshots = [''p/R/a@s'']\<rparr>"




section \<open>Properties of be\_get\_snap\<close>

lemma strrchr_None: "strrchr s c = None \<longleftrightarrow> c \<notin> set s"
  by (induction s) (auto split: option.splits)

lemma strrchr_Some:
  "strrchr s c = Some i \<longleftrightarrow>
     i < length s \<and> s ! i = c \<and> c \<notin> set (drop (Suc i) s)"
proof (induction s arbitrary: i)
  case Nil
  show ?case by simp
next
  case (Cons x xs)
  show ?case
  proof (cases "strrchr xs c")
    case None
    then have notin: "c \<notin> set xs" by (simp add: strrchr_None)
    show ?thesis
    proof (cases i)
      case 0
      with None notin show ?thesis by auto
    next
      case (Suc j)
      have "j < length xs \<Longrightarrow> xs ! j = c \<Longrightarrow> False"
        using notin nth_mem by metis
      with None Suc show ?thesis by (auto split: if_splits)
    qed
  next
    case (Some k)
    then have k: "k < length xs" "xs ! k = c" "c \<notin> set (drop (Suc k) xs)"
      using Cons.IH [of k] by auto
    then have cin: "c \<in> set xs" using nth_mem by metis
    show ?thesis
    proof (cases i)
      case 0
      with Some cin show ?thesis by auto
    next
      case (Suc j)
      with Some Cons.IH [of j] show ?thesis by auto
    qed
  qed
qed

lemma strrchr_split:
  "strrchr s c = Some i \<longleftrightarrow>
     i < length s \<and> s = take i s @ c # drop (Suc i) s \<and> c \<notin> set (drop (Suc i) s)"
proof
  assume "strrchr s c = Some i"
  then have "i < length s" "s ! i = c" "c \<notin> set (drop (Suc i) s)"
    by (simp_all add: strrchr_Some)
  then show "i < length s \<and> s = take i s @ c # drop (Suc i) s \<and> c \<notin> set (drop (Suc i) s)"
    using id_take_nth_drop [of i s] by simp
next
  assume a: "i < length s \<and> s = take i s @ c # drop (Suc i) s \<and> c \<notin> set (drop (Suc i) s)"
  have len: "length (take i s) = i" using a by simp
  have "(take i s @ c # drop (Suc i) s) ! length (take i s) = c"
    by (rule nth_append_length)
  then have "(take i s @ c # drop (Suc i) s) ! i = c" by (simp only: len)
  moreover have "(take i s @ c # drop (Suc i) s) = s" using a by presburger
  ultimately have "s ! i = c" by (simp only:)
  then show "strrchr s c = Some i" using a strrchr_Some [of s c i] by blast
qed

lemma strrchr_append:
  "c \<notin> set post \<Longrightarrow> strrchr (pre @ c # post) c = Some (length pre)"
  by (simp add: strrchr_Some nth_append)

text \<open>
  Claim C10. \<open>be_get_snap\<close> returns 0 exactly when the input has an \<open>@\<close> whose last
  occurrence is followed by at least one character; then the buffer holds the part
  before that \<open>@\<close> and the snapshot pointer the non-empty part after it. In every other
  case (no \<open>@\<close>, or the last \<open>@\<close> ends the string) it returns 1, the buffer is unchanged
  and the snapshot pointer is not set.
\<close>

theorem be_get_snap_spec:
  "(fst (be_get_snap s) = 0 \<longleftrightarrow>
      (\<exists>pre post. s = pre @ CHR ''@'' # post \<and> CHR ''@'' \<notin> set post \<and> post \<noteq> []))
   \<and> (\<forall>pre post. s = pre @ CHR ''@'' # post \<and> CHR ''@'' \<notin> set post \<and> post \<noteq> []
        \<longrightarrow> be_get_snap s = (0, pre, Some post))
   \<and> (CHR ''@'' \<notin> set s \<or> (\<exists>pre. s = pre @ [CHR ''@''])
        \<longrightarrow> be_get_snap s = (1, s, None))"
proof (intro conjI allI impI)
  show "fst (be_get_snap s) = 0 \<longleftrightarrow>
      (\<exists>pre post. s = pre @ CHR ''@'' # post \<and> CHR ''@'' \<notin> set post \<and> post \<noteq> [])"
  proof
    assume ok: "fst (be_get_snap s) = 0"
    then obtain i where i: "strrchr s (CHR ''@'') = Some i" "drop (Suc i) s \<noteq> []"
      by (auto simp: be_get_snap_def split: option.splits if_splits)
    from i(1) have "s = take i s @ CHR ''@'' # drop (Suc i) s"
      and "CHR ''@'' \<notin> set (drop (Suc i) s)"
      by (simp_all add: strrchr_split)
    with i(2) show "\<exists>pre post. s = pre @ CHR ''@'' # post \<and> CHR ''@'' \<notin> set post \<and> post \<noteq> []"
      by blast
  next
    assume "\<exists>pre post. s = pre @ CHR ''@'' # post \<and> CHR ''@'' \<notin> set post \<and> post \<noteq> []"
    then obtain pre post where "s = pre @ CHR ''@'' # post" "CHR ''@'' \<notin> set post" "post \<noteq> []"
      by blast
    then show "fst (be_get_snap s) = 0"
      by (simp add: be_get_snap_def strrchr_append)
  qed
next
  fix pre post
  assume "s = pre @ CHR ''@'' # post \<and> CHR ''@'' \<notin> set post \<and> post \<noteq> []"
  then show "be_get_snap s = (0, pre, Some post)"
    by (simp add: be_get_snap_def strrchr_append)
next
  assume "CHR ''@'' \<notin> set s \<or> (\<exists>pre. s = pre @ [CHR ''@''])"
  then show "be_get_snap s = (1, s, None)"
  proof
    assume "CHR ''@'' \<notin> set s"
    then have "strrchr s (CHR ''@'') = None" by (simp add: strrchr_None)
    then show ?thesis by (simp add: be_get_snap_def)
  next
    assume "\<exists>pre. s = pre @ [CHR ''@'']"
    then obtain pre where "s = pre @ [CHR ''@'']" by blast
    then show ?thesis
      using strrchr_append [of "CHR ''@''" "[]" pre] by (simp add: be_get_snap_def)
  qed
qed

theorem be_get_snap_spec_witness:
  "fst (be_get_snap ''p/R/a@b@c'') = 0
   \<and> be_get_snap ''p/R/a@b@c'' = (0, ''p/R/a@b'', Some ''c'')
   \<and> be_get_snap ''p/R/a'' = (1, ''p/R/a'', None)
   \<and> be_get_snap ''p/R/a@'' = (1, ''p/R/a@'', None)"
proof -
  have a: "fst (be_get_snap ''p/R/a@b@c'') = 0"
    using be_get_snap_spec [of "''p/R/a@b@c''"] by (simp add: be_get_snap_def)
  have b: "be_get_snap ''p/R/a@b@c'' = (0, ''p/R/a@b'', Some ''c'')"
    using be_get_snap_spec [of "''p/R/a@b@c''"] by (simp add: be_get_snap_def)
  have c: "be_get_snap ''p/R/a'' = (1, ''p/R/a'', None)"
    using be_get_snap_spec [of "''p/R/a''"] by simp
  have d: "be_get_snap ''p/R/a@'' = (1, ''p/R/a@'', None)"
    using be_get_snap_spec [of "''p/R/a@''"] by simp
  from a b c d show ?thesis by blast
qed

section \<open>Handles and the locator\<close>

lemma zfs_get_name_make_handle [simp]: "zfs_get_name (zfs_make_handle names n) = n"
  by (subst zfs_make_handle.simps) simp

lemma zfs_open_name: "zfs_open st n = Some zhp \<Longrightarrow> zfs_get_name zhp = n"
  by (auto simp: zfs_open_def split: if_splits)

lemma zfs_lookup_exists:
  "zfs_lookup st n = Some d \<Longrightarrow> zfs_dataset_exists st n ZFS_TYPE_FILESYSTEM"
  by (auto simp: zfs_lookup_def zfs_dataset_exists_def find_Some_iff)

lemma zfs_is_mounted_exists:
  "zfs_is_mounted st n = Some mp \<Longrightarrow> zfs_dataset_exists st n ZFS_TYPE_FILESYSTEM"
  by (auto simp: zfs_is_mounted_def split: option.splits dest: zfs_lookup_exists)

lemma be_find_zpool_callback_found:
  "zfs_dataset_exists st (be_make_root_ds env p n) ZFS_TYPE_FILESYSTEM \<Longrightarrow>
   be_find_zpool_callback env st n p z = (1, Some p)"
  by (simp add: be_find_zpool_callback_def)

lemma be_find_zpool_callback_absent:
  "\<not> zfs_dataset_exists st (be_make_root_ds env p n) ZFS_TYPE_FILESYSTEM \<Longrightarrow>
   be_find_zpool_callback env st n p z = (0, z)"
  by (simp add: be_find_zpool_callback_def)

lemma be_find_zpool_iter:
  "zfs_iter_filesystems ps (be_find_zpool_callback env st n) z0 = (r, z) \<Longrightarrow>
     (r = 0 \<and> z = z0
        \<and> (\<forall>p \<in> set ps. \<not> zfs_dataset_exists st (be_make_root_ds env p n) ZFS_TYPE_FILESYSTEM))
   \<or> (r = 1 \<and> (\<exists>p \<in> set ps. z = Some p
                 \<and> zfs_dataset_exists st (be_make_root_ds env p n) ZFS_TYPE_FILESYSTEM))"
proof (induction ps arbitrary: z0)
  case Nil
  then show ?case by simp
next
  case (Cons p ps)
  show ?case
  proof (cases "zfs_dataset_exists st (be_make_root_ds env p n) ZFS_TYPE_FILESYSTEM")
    case True
    with Cons.prems show ?thesis by (simp add: be_find_zpool_callback_found)
  next
    case False
    with Cons.prems have "zfs_iter_filesystems ps (be_find_zpool_callback env st n) z0 = (r, z)"
      by (simp add: be_find_zpool_callback_absent)
    from Cons.IH [OF this] False show ?thesis by auto
  qed
qed

lemma be_exists_callback_found:
  "zfs_dataset_exists st (be_make_root_ds env p n) ZFS_TYPE_FILESYSTEM \<Longrightarrow>
   be_exists_callback env st n p u = (1, ())"
  by (simp add: be_exists_callback_def)

lemma be_exists_callback_absent:
  "\<not> zfs_dataset_exists st (be_make_root_ds env p n) ZFS_TYPE_FILESYSTEM \<Longrightarrow>
   be_exists_callback env st n p u = (0, ())"
  by (simp add: be_exists_callback_def)

lemma be_exists_iter:
  "zfs_iter_filesystems ps (be_exists_callback env st n) u =
     (if \<exists>p \<in> set ps. zfs_dataset_exists st (be_make_root_ds env p n) ZFS_TYPE_FILESYSTEM
      then 1 else 0, ())"
proof (induction ps)
  case Nil
  show ?case by simp
next
  case (Cons p ps)
  show ?case
  proof (cases "zfs_dataset_exists st (be_make_root_ds env p n) ZFS_TYPE_FILESYSTEM")
    case True
    then show ?thesis by (simp add: be_exists_callback_found)
  next
    case False
    with Cons show ?thesis by (simp add: be_exists_callback_absent)
  qed
qed

section \<open>The mounted guard of be\_destroy\<close>

text \<open>
  Claim C5. When the locator finds the pool of the BE named in the attributes and the
  root dataset of that BE is mounted, \<open>be_destroy\<close> returns 1 and the namespace after
  the call is the namespace before it: nothing was unmounted or destroyed, no snapshot
  was destroyed. With the library initialised and the name valid, the failure is the
  one of the mounted check.
\<close>

theorem be_destroy_mounted_guard:
  assumes name: "BE_ATTR_ORIG_BE_NAME a = Some B"
    and pool: "zpool_iter st (be_find_zpool_callback env st B) None = (zret, Some zp)"
    and mnt: "zfs_is_mounted st (be_make_root_ds env zp B) = Some mp"
  shows "be_ret (fst (be_destroy env a st)) = 1 \<and> snd (be_destroy env a st) = st
         \<and> (be_zfs_init env \<and> be_valid_be_name env B
              \<longrightarrow> be_destroy env a st = (Inl ErrMounted, st))"
proof -
  from pool have "zret = 1"
    using be_find_zpool_iter [of "zpools st" env st B None zret "Some zp"]
    by (auto simp: zpool_iter_def)
  moreover from mnt have "zfs_dataset_exists st (be_make_root_ds env zp B) ZFS_TYPE_FILESYSTEM"
    by (rule zfs_is_mounted_exists)
  then obtain zhp where "zfs_open st (be_make_root_ds env zp B) = Some zhp"
    and "zfs_get_name zhp = be_make_root_ds env zp B"
    by (simp add: zfs_open_def)
  ultimately show ?thesis
    using name pool mnt by (simp add: be_destroy_def be_ret_def)
qed

theorem be_destroy_mounted_guard_witness:
  "BE_ATTR_ORIG_BE_NAME ex_attrs = Some ''a''
   \<and> zpool_iter ex_st_mounted (be_find_zpool_callback ex_env ex_st_mounted ''a'') None
       = (1, Some ''p'')
   \<and> zfs_is_mounted ex_st_mounted (be_make_root_ds ex_env ''p'' ''a'') = Some ''/''
   \<and> be_ret (fst (be_destroy ex_env ex_attrs ex_st_mounted)) = 1
   \<and> snd (be_destroy ex_env ex_attrs ex_st_mounted) = ex_st_mounted
   \<and> be_destroy ex_env ex_attrs ex_st_mounted = (Inl ErrMounted, ex_st_mounted)"
proof -
  have h1: "BE_ATTR_ORIG_BE_NAME ex_attrs = Some ''a''"
    by (simp add: ex_attrs_def)
  have h2: "zpool_iter ex_st_mounted (be_find_zpool_callback ex_env ex_st_mounted ''a'') None
       = (1, Some ''p'')"
    by code_simp
  have h3: "zfs_is_mounted ex_st_mounted (be_make_root_ds ex_env ''p'' ''a'') = Some ''/''"
    by code_simp
  have h4: "be_zfs_init ex_env \<and> be_valid_be_name ex_env ''a''"
    by (simp add: ex_env_def)
  from be_destroy_mounted_guard [OF h1 h2 h3] h1 h2 h3 h4 show ?thesis by blast
qed

section \<open>be\_init\<close>

lemma zfs_create_Inr:
  "zfs_create st n P = Inr st' \<Longrightarrow>
     st' = st\<lparr>zdatasets := zdatasets st @ [zfs_new_dataset n P None]\<rparr>
     \<and> \<not> zfs_dataset_exists st n ZFS_TYPE_FILESYSTEM"
  by (auto simp: zfs_create_def split: option.splits if_splits)

lemma zfs_dataset_exists_append:
  "zfs_dataset_exists (st\<lparr>zdatasets := zdatasets st @ new\<rparr>) n ZFS_TYPE_FILESYSTEM \<longleftrightarrow>
     zfs_dataset_exists st n ZFS_TYPE_FILESYSTEM \<or> n \<in> set (map ds_name new)"
  by (auto simp: zfs_dataset_exists_def)

lemma ds_name_new [simp]: "ds_name (zfs_new_dataset n P org) = n"
  by (simp add: zfs_new_dataset_def)

lemma be_init_fs_appends:
  "be_init_fs root fs P st = (Inr (), st') \<Longrightarrow>
     \<exists>new. st' = st\<lparr>zdatasets := zdatasets st @ new\<rparr>"
proof (induction root fs P st rule: be_init_fs.induct)
  case (1 root P st)
  then have "st' = st\<lparr>zdatasets := zdatasets st @ []\<rparr>" by simp
  then show ?case by blast
next
  case (2 root fs fs_names P st)
  show ?case
  proof (cases "fs = ''/''")
    case True
    with 2 show ?thesis by simp
  next
    case False
    let ?P = "nvlist_add_string P (zfs_prop_to_name ZFS_PROP_MOUNTPOINT) fs"
    from 2(3) False obtain st1 where c: "zfs_create st (root @ fs) ?P = Inr st1"
      and r: "be_init_fs root fs_names ?P st1 = (Inr (), st')"
      by (auto simp: Let_def split: sum.splits)
    from 2(2) [OF False refl refl c r] obtain new where
      "st' = st1\<lparr>zdatasets := zdatasets st1 @ new\<rparr>" by blast
    with zfs_create_Inr [OF c]
    have "st' = st\<lparr>zdatasets := zdatasets st @ (zfs_new_dataset (root @ fs) ?P None # new)\<rparr>"
      by simp
    then show ?thesis by blast
  qed
qed

lemma be_init_shared_fs_appends:
  "be_init_shared_fs zp fs P st = (Inr (), st') \<Longrightarrow>
     \<exists>new. st' = st\<lparr>zdatasets := zdatasets st @ new\<rparr>"
proof (induction zp fs P st rule: be_init_shared_fs.induct)
  case (1 zp P st)
  then have "st' = st\<lparr>zdatasets := zdatasets st @ []\<rparr>" by simp
  then show ?case by blast
next
  case (2 zp fs rest P st)
  let ?P = "nvlist_add_string P (zfs_prop_to_name ZFS_PROP_MOUNTPOINT) fs"
  show ?case
  proof (cases "zfs_dataset_exists st (zp @ fs) ZFS_TYPE_FILESYSTEM")
    case True
    with 2(3) have "be_init_shared_fs zp rest ?P st = (Inr (), st')" by (simp add: Let_def)
    from 2(1) [OF refl refl True this] show ?thesis .
  next
    case False
    from 2(3) False obtain st1 where c: "zfs_create st (zp @ fs) ?P = Inr st1"
      and r: "be_init_shared_fs zp rest ?P st1 = (Inr (), st')"
      by (auto simp: Let_def split: sum.splits)
    from 2(2) [OF refl refl False c r] obtain new where
      "st' = st1\<lparr>zdatasets := zdatasets st1 @ new\<rparr>" by blast
    with zfs_create_Inr [OF c]
    have "st' = st\<lparr>zdatasets := zdatasets st @ (zfs_new_dataset (zp @ fs) ?P None # new)\<rparr>"
      by simp
    then show ?thesis by blast
  qed
qed

lemma be_create_container_ds_True:
  "be_create_container_ds env zp st = (True, st1) \<Longrightarrow>
     zfs_dataset_exists st1 (be_make_container_ds env zp) ZFS_TYPE_FILESYSTEM
     \<and> (\<exists>new. st1 = st\<lparr>zdatasets := zdatasets st @ new\<rparr>)"
proof (cases "zfs_dataset_exists st (be_make_container_ds env zp) ZFS_TYPE_FILESYSTEM")
  case True
  assume "be_create_container_ds env zp st = (True, st1)"
  with True have "st1 = st" by (simp add: be_create_container_ds_def)
  then have "st1 = st\<lparr>zdatasets := zdatasets st @ []\<rparr>" by simp
  with True \<open>st1 = st\<close> show ?thesis by blast
next
  case False
  assume a: "be_create_container_ds env zp st = (True, st1)"
  with False obtain P where c: "zfs_create st (be_make_container_ds env zp) P = Inr st1"
    by (auto simp: be_create_container_ds_def Let_def split: sum.splits)
  from zfs_create_Inr [OF c] show ?thesis
    by (auto simp: zfs_dataset_exists_def)
qed

lemma be_create_container_ds_present:
  "zfs_dataset_exists st (be_make_container_ds env zp) ZFS_TYPE_FILESYSTEM \<Longrightarrow>
   be_create_container_ds env zp st = (True, st)"
  by (simp add: be_create_container_ds_def)

lemma be_init_success:
  assumes "be_init env a st = (Inr (), st')"
  obtains nbe_name nbe_zpool fs_num fs_names st1 zfs_props st2 st3 where
    "be_zfs_init env"
    "BE_ATTR_NEW_BE_NAME a = Some nbe_name"
    "be_valid_be_name env nbe_name"
    "BE_ATTR_NEW_BE_POOL a = Some nbe_zpool"
    "BE_ATTR_FS_NUM a = Some fs_num"
    "BE_ATTR_FS_NAMES a = Some fs_names"
    "length fs_names = fs_num"
    "length (case BE_ATTR_SHARED_FS_NAMES a of None \<Rightarrow> [] | Some l \<Rightarrow> l)
       = (case BE_ATTR_SHARED_FS_NUM a of None \<Rightarrow> 0 | Some n \<Rightarrow> n)"
    "zpool_open st nbe_zpool"
    "be_create_container_ds env nbe_zpool st = (True, st1)"
    "zpool_iter st1 (be_exists_callback env st1 nbe_name) () = (0, ())"
    "(case BE_ATTR_ZFS_PROPERTIES a of None \<Rightarrow> Some []
      | Some (flag, zfs_props) \<Rightarrow> if flag = NV_NOT_UNIQUE then None else Some zfs_props)
       = Some zfs_props"
    "zfs_create st1 (be_make_root_ds env nbe_zpool nbe_name)
       (nvlist_add_string (nvlist_add_string zfs_props (zfs_prop_to_name ZFS_PROP_MOUNTPOINT)
          ZFS_MOUNTPOINT_LEGACY) (zfs_prop_to_name ZFS_PROP_CANMOUNT) ''noauto'') = Inr st2"
    "be_init_fs (be_make_root_ds env nbe_zpool nbe_name) fs_names
       (nvlist_add_string (nvlist_add_string zfs_props (zfs_prop_to_name ZFS_PROP_MOUNTPOINT)
          ZFS_MOUNTPOINT_LEGACY) (zfs_prop_to_name ZFS_PROP_CANMOUNT) ''noauto'') st2
       = (Inr (), st3)"
    "(if (case BE_ATTR_SHARED_FS_NUM a of None \<Rightarrow> 0 | Some n \<Rightarrow> n) > 0
      then be_init_shared_fs nbe_zpool
             (case BE_ATTR_SHARED_FS_NAMES a of None \<Rightarrow> [] | Some l \<Rightarrow> l) [] st3
      else (Inr (), st3)) = (Inr (), st')"
  using assms
  unfolding be_init_def Let_def
  by (auto split: if_splits option.splits prod.splits sum.splits bool.splits)


lemma zpool_open_append [simp]:
  "zpool_open (st\<lparr>zdatasets := ds\<rparr>) zp = zpool_open st zp"
  by (simp add: zpool_open_def)

text \<open>
  Claim C7. After a successful \<open>be_init\<close>, a second call with the same attributes
  on the resulting namespace fails at the check that the BE does not exist yet: it
  returns 1 with the condition "BE already exists", and the namespace, hence the
  hierarchy that the first call created, is unchanged.
\<close>

theorem be_init_twice_fails:
  assumes ok: "be_init env a st = (Inr (), st')"
  shows "be_init env a st' = (Inl ErrBEExists, st') \<and> be_ret (fst (be_init env a st')) = 1"
proof -
  from ok obtain nbe_name nbe_zpool fs_num fs_names st1 zfs_props st2 st3 where
    f: "be_zfs_init env"
    "BE_ATTR_NEW_BE_NAME a = Some nbe_name"
    "be_valid_be_name env nbe_name"
    "BE_ATTR_NEW_BE_POOL a = Some nbe_zpool"
    "BE_ATTR_FS_NUM a = Some fs_num"
    "BE_ATTR_FS_NAMES a = Some fs_names"
    "length fs_names = fs_num"
    "length (case BE_ATTR_SHARED_FS_NAMES a of None \<Rightarrow> [] | Some l \<Rightarrow> l)
       = (case BE_ATTR_SHARED_FS_NUM a of None \<Rightarrow> 0 | Some n \<Rightarrow> n)"
    "zpool_open st nbe_zpool"
    and cont: "be_create_container_ds env nbe_zpool st = (True, st1)"
    and root: "zfs_create st1 (be_make_root_ds env nbe_zpool nbe_name)
       (nvlist_add_string (nvlist_add_string zfs_props (zfs_prop_to_name ZFS_PROP_MOUNTPOINT)
          ZFS_MOUNTPOINT_LEGACY) (zfs_prop_to_name ZFS_PROP_CANMOUNT) ''noauto'') = Inr st2"
    and fs: "be_init_fs (be_make_root_ds env nbe_zpool nbe_name) fs_names
       (nvlist_add_string (nvlist_add_string zfs_props (zfs_prop_to_name ZFS_PROP_MOUNTPOINT)
          ZFS_MOUNTPOINT_LEGACY) (zfs_prop_to_name ZFS_PROP_CANMOUNT) ''noauto'') st2
       = (Inr (), st3)"
    and sh: "(if (case BE_ATTR_SHARED_FS_NUM a of None \<Rightarrow> 0 | Some n \<Rightarrow> n) > 0
      then be_init_shared_fs nbe_zpool
             (case BE_ATTR_SHARED_FS_NAMES a of None \<Rightarrow> [] | Some l \<Rightarrow> l) [] st3
      else (Inr (), st3)) = (Inr (), st')"
    by (rule be_init_success)
  let ?root = "be_make_root_ds env nbe_zpool nbe_name"
  from be_create_container_ds_True [OF cont] obtain n1 where
    c1: "zfs_dataset_exists st1 (be_make_container_ds env nbe_zpool) ZFS_TYPE_FILESYSTEM"
    and s1: "st1 = st\<lparr>zdatasets := zdatasets st @ n1\<rparr>" by blast
  from zfs_create_Inr [OF root] have
    s2: "st2 = st1\<lparr>zdatasets := zdatasets st1 @ [zfs_new_dataset ?root
       (nvlist_add_string (nvlist_add_string zfs_props (zfs_prop_to_name ZFS_PROP_MOUNTPOINT)
          ZFS_MOUNTPOINT_LEGACY) (zfs_prop_to_name ZFS_PROP_CANMOUNT) ''noauto'') None]\<rparr>"
    by simp
  from be_init_fs_appends [OF fs] obtain n3 where
    s3: "st3 = st2\<lparr>zdatasets := zdatasets st2 @ n3\<rparr>" by blast
  have "\<exists>n4. st' = st3\<lparr>zdatasets := zdatasets st3 @ n4\<rparr>"
  proof (cases "(case BE_ATTR_SHARED_FS_NUM a of None \<Rightarrow> 0 | Some n \<Rightarrow> n) > 0")
    case True
    with sh show ?thesis by (simp add: be_init_shared_fs_appends)
  next
    case False
    with sh have "st' = st3\<lparr>zdatasets := zdatasets st3 @ []\<rparr>" by simp
    then show ?thesis by blast
  qed
  then obtain n4 where s4: "st' = st3\<lparr>zdatasets := zdatasets st3 @ n4\<rparr>" by blast
  have pools: "zpool_open st' nbe_zpool"
    using f(9) s1 s2 s3 s4 by simp
  have c4: "zfs_dataset_exists st' (be_make_container_ds env nbe_zpool) ZFS_TYPE_FILESYSTEM"
    using c1 s2 s3 s4 by (simp add: zfs_dataset_exists_def)
  have r4: "zfs_dataset_exists st' ?root ZFS_TYPE_FILESYSTEM"
    using s2 s3 s4 by (simp add: zfs_dataset_exists_def)
  from pools have "nbe_zpool \<in> set (zpools st')" by (simp add: zpool_open_def)
  with r4 have it: "zpool_iter st' (be_exists_callback env st' nbe_name) () = (1, ())"
    by (auto simp: zpool_iter_def be_exists_iter)
  have "be_init env a st' = (Inl ErrBEExists, st')"
    using f pools it be_create_container_ds_present [OF c4]
    by (simp add: be_init_def)
  then show ?thesis by (simp add: be_ret_def)
qed

lemma nvlist_add_mountpoint_single:
  "P = [] \<or> (\<exists>v. P = [(zfs_prop_to_name ZFS_PROP_MOUNTPOINT, v)]) \<Longrightarrow>
   nvlist_add_string P (zfs_prop_to_name ZFS_PROP_MOUNTPOINT) s
     = [(zfs_prop_to_name ZFS_PROP_MOUNTPOINT, s)]"
  by (auto simp: nvlist_add_string_def)

lemma be_init_shared_fs_spec:
  "be_init_shared_fs zp sh P st = (Inr (), st') \<Longrightarrow>
   P = [] \<or> (\<exists>v. P = [(zfs_prop_to_name ZFS_PROP_MOUNTPOINT, v)]) \<Longrightarrow>
   \<exists>new. st' = st\<lparr>zdatasets := zdatasets st @ new\<rparr>
     \<and> (\<forall>d \<in> set new. \<exists>s \<in> set sh.
           d = zfs_new_dataset (zp @ s) [(zfs_prop_to_name ZFS_PROP_MOUNTPOINT, s)] None)
     \<and> (\<forall>d \<in> set new. \<not> zfs_dataset_exists st (ds_name d) ZFS_TYPE_FILESYSTEM)
     \<and> distinct (map ds_name new)
     \<and> (\<forall>s \<in> set sh. zfs_dataset_exists st' (zp @ s) ZFS_TYPE_FILESYSTEM)"
proof (induction zp sh P st rule: be_init_shared_fs.induct)
  case (1 zp P st)
  then have "st' = st\<lparr>zdatasets := zdatasets st @ []\<rparr>" by simp
  then show ?case by fastforce
next
  case (2 zp fs rest P st)
  let ?mp = "zfs_prop_to_name ZFS_PROP_MOUNTPOINT"
  let ?P = "nvlist_add_string P ?mp fs"
  have P': "?P = [(?mp, fs)]" using 2(4) by (rule nvlist_add_mountpoint_single)
  then have inv: "?P = [] \<or> (\<exists>v. ?P = [(?mp, v)])" by blast
  show ?case
  proof (cases "zfs_dataset_exists st (zp @ fs) ZFS_TYPE_FILESYSTEM")
    case True
    with 2(3) have r: "be_init_shared_fs zp rest ?P st = (Inr (), st')" by (simp add: Let_def)
    from 2(1) [OF refl refl True r inv] obtain new where
      n: "st' = st\<lparr>zdatasets := zdatasets st @ new\<rparr>"
      "\<forall>d \<in> set new. \<exists>s \<in> set rest. d = zfs_new_dataset (zp @ s) [(?mp, s)] None"
      "\<forall>d \<in> set new. \<not> zfs_dataset_exists st (ds_name d) ZFS_TYPE_FILESYSTEM"
      "distinct (map ds_name new)"
      "\<forall>s \<in> set rest. zfs_dataset_exists st' (zp @ s) ZFS_TYPE_FILESYSTEM"
      by blast
    have "zfs_dataset_exists st' (zp @ fs) ZFS_TYPE_FILESYSTEM"
      using True n(1) by (simp add: zfs_dataset_exists_def)
    with n show ?thesis by (intro exI [of _ new]) auto
  next
    case False
    from 2(3) False obtain st1 where c: "zfs_create st (zp @ fs) ?P = Inr st1"
      and r: "be_init_shared_fs zp rest ?P st1 = (Inr (), st')"
      by (auto simp: Let_def split: sum.splits)
    from zfs_create_Inr [OF c] P'
    have s1: "st1 = st\<lparr>zdatasets := zdatasets st @ [zfs_new_dataset (zp @ fs) [(?mp, fs)] None]\<rparr>"
      by simp
    from 2(2) [OF refl refl False c r inv] obtain new where
      n: "st' = st1\<lparr>zdatasets := zdatasets st1 @ new\<rparr>"
      "\<forall>d \<in> set new. \<exists>s \<in> set rest. d = zfs_new_dataset (zp @ s) [(?mp, s)] None"
      "\<forall>d \<in> set new. \<not> zfs_dataset_exists st1 (ds_name d) ZFS_TYPE_FILESYSTEM"
      "distinct (map ds_name new)"
      "\<forall>s \<in> set rest. zfs_dataset_exists st' (zp @ s) ZFS_TYPE_FILESYSTEM"
      by blast
    let ?new = "zfs_new_dataset (zp @ fs) [(?mp, fs)] None # new"
    have a: "st' = st\<lparr>zdatasets := zdatasets st @ ?new\<rparr>" using n(1) s1 by simp
    have b: "\<forall>d \<in> set ?new. \<exists>s \<in> set (fs # rest). d = zfs_new_dataset (zp @ s) [(?mp, s)] None"
      using n(2) by auto
    have c': "\<forall>d \<in> set ?new. \<not> zfs_dataset_exists st (ds_name d) ZFS_TYPE_FILESYSTEM"
      using n(3) False s1 by (auto simp: zfs_dataset_exists_def)
    have d: "distinct (map ds_name ?new)"
      using n(3,4) s1 by (auto simp: zfs_dataset_exists_def)
    have e: "\<forall>s \<in> set (fs # rest). zfs_dataset_exists st' (zp @ s) ZFS_TYPE_FILESYSTEM"
      using n(5) a by (auto simp: zfs_dataset_exists_def)
    from a b c' d e show ?thesis by blast
  qed
qed


text \<open>
  Claim C8. A successful \<open>be_init\<close> of \<open>be1\<close> in \<open>rpool\<close> with the file systems
  \<open>/\<close> and \<open>/var\<close> adds to the namespace, in this order: the container dataset
  with mountpoint legacy and canmount off if it was absent; the root dataset
  \<open>rpool/container/be1\<close> with mountpoint legacy and canmount noauto; and
  \<open>rpool/container/be1/var\<close> with mountpoint \<open>/var\<close> and canmount noauto. Nothing
  is created for the entry \<open>/\<close>. After these come the shared file systems: each new
  dataset is \<open>rpool\<close> followed by a shared path, with that path as mountpoint, did
  not exist before, and is created once; in the end every shared path exists.
\<close>

theorem be_init_scenario:
  assumes n: "BE_ATTR_NEW_BE_NAME a = Some ''be1''"
    and p: "BE_ATTR_NEW_BE_POOL a = Some ''rpool''"
    and fsn: "BE_ATTR_FS_NAMES a = Some [''/'', ''/var'']"
    and zp: "BE_ATTR_ZFS_PROPERTIES a = None"
    and ok: "be_init env a st = (Inr (), st')"
  shows "\<exists>shared.
     st' = st\<lparr>zdatasets := zdatasets st
       @ (if zfs_dataset_exists st (be_make_container_ds env ''rpool'') ZFS_TYPE_FILESYSTEM
          then []
          else [zfs_new_dataset (be_make_container_ds env ''rpool'')
                  [(''mountpoint'', ''legacy''), (''canmount'', ''off'')] None])
       @ [zfs_new_dataset (be_make_root_ds env ''rpool'' ''be1'')
            [(''mountpoint'', ''legacy''), (''canmount'', ''noauto'')] None,
          zfs_new_dataset (be_make_root_ds env ''rpool'' ''be1'' @ ''/var'')
            [(''canmount'', ''noauto''), (''mountpoint'', ''/var'')] None]
       @ shared\<rparr>
     \<and> (\<forall>d \<in> set shared.
           \<exists>s \<in> set (case BE_ATTR_SHARED_FS_NAMES a of None \<Rightarrow> [] | Some l \<Rightarrow> l).
             d = zfs_new_dataset (''rpool'' @ s) [(''mountpoint'', s)] None)
     \<and> (\<forall>d \<in> set shared.
           \<not> zfs_dataset_exists st (ds_name d) ZFS_TYPE_FILESYSTEM
           \<and> ds_name d \<noteq> be_make_container_ds env ''rpool''
           \<and> ds_name d \<noteq> be_make_root_ds env ''rpool'' ''be1''
           \<and> ds_name d \<noteq> be_make_root_ds env ''rpool'' ''be1'' @ ''/var'')
     \<and> distinct (map ds_name shared)
     \<and> (\<forall>s \<in> set (case BE_ATTR_SHARED_FS_NAMES a of None \<Rightarrow> [] | Some l \<Rightarrow> l).
           zfs_dataset_exists st' (''rpool'' @ s) ZFS_TYPE_FILESYSTEM)"
proof -
  let ?sh = "case BE_ATTR_SHARED_FS_NAMES a of None \<Rightarrow> [] | Some l \<Rightarrow> l"
  let ?num = "case BE_ATTR_SHARED_FS_NUM a of None \<Rightarrow> 0 | Some n \<Rightarrow> n"
  let ?cds = "be_make_container_ds env ''rpool''"
  let ?rds = "be_make_root_ds env ''rpool'' ''be1''"
  let ?P = "[(''mountpoint'', ''legacy''), (''canmount'', ''noauto'')]"
  let ?Pv = "[(''canmount'', ''noauto''), (''mountpoint'', ''/var'')]"
  let ?cont = "if zfs_dataset_exists st ?cds ZFS_TYPE_FILESYSTEM then []
     else [zfs_new_dataset ?cds [(''mountpoint'', ''legacy''), (''canmount'', ''off'')] None]"
  from ok obtain nbe_name nbe_zpool fs_num fs_names st1 zfs_props st2 st3 where
    f: "BE_ATTR_NEW_BE_NAME a = Some nbe_name"
    "BE_ATTR_NEW_BE_POOL a = Some nbe_zpool"
    "BE_ATTR_FS_NAMES a = Some fs_names"
    "length ?sh = ?num"
    and cont: "be_create_container_ds env nbe_zpool st = (True, st1)"
    and props: "(case BE_ATTR_ZFS_PROPERTIES a of None \<Rightarrow> Some []
      | Some (flag, zfs_props) \<Rightarrow> if flag = NV_NOT_UNIQUE then None else Some zfs_props)
       = Some zfs_props"
    and root: "zfs_create st1 (be_make_root_ds env nbe_zpool nbe_name)
       (nvlist_add_string (nvlist_add_string zfs_props (zfs_prop_to_name ZFS_PROP_MOUNTPOINT)
          ZFS_MOUNTPOINT_LEGACY) (zfs_prop_to_name ZFS_PROP_CANMOUNT) ''noauto'') = Inr st2"
    and fs: "be_init_fs (be_make_root_ds env nbe_zpool nbe_name) fs_names
       (nvlist_add_string (nvlist_add_string zfs_props (zfs_prop_to_name ZFS_PROP_MOUNTPOINT)
          ZFS_MOUNTPOINT_LEGACY) (zfs_prop_to_name ZFS_PROP_CANMOUNT) ''noauto'') st2
       = (Inr (), st3)"
    and sh: "(if ?num > 0 then be_init_shared_fs nbe_zpool ?sh [] st3 else (Inr (), st3))
       = (Inr (), st')"
    by (rule be_init_success)
  from f n p fsn zp props have e: "nbe_name = ''be1''" "nbe_zpool = ''rpool''"
    "fs_names = [''/'', ''/var'']" "zfs_props = []" by simp_all
  have P: "nvlist_add_string (nvlist_add_string [] (zfs_prop_to_name ZFS_PROP_MOUNTPOINT)
          ZFS_MOUNTPOINT_LEGACY) (zfs_prop_to_name ZFS_PROP_CANMOUNT) ''noauto'' = ?P"
    by (simp add: nvlist_add_string_def ZFS_MOUNTPOINT_LEGACY_def)
  have Pv: "nvlist_add_string ?P (zfs_prop_to_name ZFS_PROP_MOUNTPOINT) ''/var'' = ?Pv"
    by (simp add: nvlist_add_string_def)
  have s1: "st1 = st\<lparr>zdatasets := zdatasets st @ ?cont\<rparr>"
  proof (cases "zfs_dataset_exists st ?cds ZFS_TYPE_FILESYSTEM")
    case True
    with cont e show ?thesis by (simp add: be_create_container_ds_def)
  next
    case False
    with cont e obtain c where "zfs_create st ?cds
        (nvlist_add_string (nvlist_add_string [] (zfs_prop_to_name ZFS_PROP_MOUNTPOINT)
           ZFS_MOUNTPOINT_LEGACY) (zfs_prop_to_name ZFS_PROP_CANMOUNT) ''off'') = Inr st1"
      by (auto simp: be_create_container_ds_def Let_def split: sum.splits)
    from zfs_create_Inr [OF this] False show ?thesis
      by (simp add: nvlist_add_string_def ZFS_MOUNTPOINT_LEGACY_def)
  qed
  from zfs_create_Inr [OF root] e P
  have s2: "st2 = st1\<lparr>zdatasets := zdatasets st1 @ [zfs_new_dataset ?rds ?P None]\<rparr>"
    and r1: "\<not> zfs_dataset_exists st1 ?rds ZFS_TYPE_FILESYSTEM"
    by simp_all
  from fs e P Pv obtain "zfs_create st2 (?rds @ ''/var'') ?Pv = Inr st3"
    by (auto simp: Let_def split: sum.splits)
  from zfs_create_Inr [OF this]
  have s3: "st3 = st2\<lparr>zdatasets := zdatasets st2 @ [zfs_new_dataset (?rds @ ''/var'') ?Pv None]\<rparr>"
    by simp
  have s3': "st3 = st\<lparr>zdatasets := zdatasets st @ ?cont
       @ [zfs_new_dataset ?rds ?P None, zfs_new_dataset (?rds @ ''/var'') ?Pv None]\<rparr>"
    using s1 s2 s3 by simp
  have names3: "zfs_dataset_exists st3 x ZFS_TYPE_FILESYSTEM \<longleftrightarrow>
      zfs_dataset_exists st x ZFS_TYPE_FILESYSTEM \<or> x \<in> set (map ds_name ?cont)
      \<or> x = ?rds \<or> x = ?rds @ ''/var''" for x
    unfolding s3' by (auto simp: zfs_dataset_exists_def)
  have c3: "zfs_dataset_exists st3 ?cds ZFS_TYPE_FILESYSTEM"
    by (simp add: names3)
  obtain shared where sp:
    "st' = st3\<lparr>zdatasets := zdatasets st3 @ shared\<rparr>"
    "\<forall>d \<in> set shared. \<exists>s \<in> set ?sh.
        d = zfs_new_dataset (''rpool'' @ s) [(zfs_prop_to_name ZFS_PROP_MOUNTPOINT, s)] None"
    "\<forall>d \<in> set shared. \<not> zfs_dataset_exists st3 (ds_name d) ZFS_TYPE_FILESYSTEM"
    "distinct (map ds_name shared)"
    "\<forall>s \<in> set ?sh. zfs_dataset_exists st' (''rpool'' @ s) ZFS_TYPE_FILESYSTEM"
  proof (cases "?num > 0")
    case True
    with sh e have "be_init_shared_fs ''rpool'' ?sh [] st3 = (Inr (), st')" by simp
    from be_init_shared_fs_spec [OF this] that show ?thesis by blast
  next
    case False
    with sh f(4) have "st' = st3\<lparr>zdatasets := zdatasets st3 @ []\<rparr>" and "?sh = []" by simp_all
    with that [of "[]"] show ?thesis by simp
  qed
  have a1: "st' = st\<lparr>zdatasets := zdatasets st @ ?cont
       @ [zfs_new_dataset ?rds ?P None, zfs_new_dataset (?rds @ ''/var'') ?Pv None]
       @ shared\<rparr>"
    using sp(1) s3' by simp
  have a2: "\<forall>d \<in> set shared. \<exists>s \<in> set ?sh.
        d = zfs_new_dataset (''rpool'' @ s) [(''mountpoint'', s)] None"
    using sp(2) by simp
  have a3: "\<forall>d \<in> set shared.
           \<not> zfs_dataset_exists st (ds_name d) ZFS_TYPE_FILESYSTEM
           \<and> ds_name d \<noteq> ?cds \<and> ds_name d \<noteq> ?rds \<and> ds_name d \<noteq> ?rds @ ''/var''"
  proof
    fix d assume "d \<in> set shared"
    with sp(3) have nd: "\<not> zfs_dataset_exists st3 (ds_name d) ZFS_TYPE_FILESYSTEM" by blast
    then have "ds_name d \<noteq> ?cds" using c3 by auto
    with nd show "\<not> zfs_dataset_exists st (ds_name d) ZFS_TYPE_FILESYSTEM
           \<and> ds_name d \<noteq> ?cds \<and> ds_name d \<noteq> ?rds \<and> ds_name d \<noteq> ?rds @ ''/var''"
      by (simp add: names3)
  qed
  from a1 a2 a3 sp(4) sp(5) show ?thesis by blast
qed

theorem be_init_twice_fails_witness:
  "be_init ex_env ex_init_attrs ex_rpool = (Inr (), ex_rpool_init)
   \<and> be_init ex_env ex_init_attrs ex_rpool_init = (Inl ErrBEExists, ex_rpool_init)
   \<and> be_ret (fst (be_init ex_env ex_init_attrs ex_rpool_init)) = 1"
proof -
  have h: "be_init ex_env ex_init_attrs ex_rpool = (Inr (), ex_rpool_init)"
    by code_simp
  from be_init_twice_fails [OF h] h show ?thesis by blast
qed

theorem be_init_scenario_witness:
  "BE_ATTR_NEW_BE_NAME ex_init_attrs = Some ''be1''
   \<and> BE_ATTR_NEW_BE_POOL ex_init_attrs = Some ''rpool''
   \<and> BE_ATTR_FS_NAMES ex_init_attrs = Some [''/'', ''/var'']
   \<and> BE_ATTR_ZFS_PROPERTIES ex_init_attrs = None
   \<and> be_init ex_env ex_init_attrs ex_rpool = (Inr (), ex_rpool_init)
   \<and> (\<exists>shared.
        ex_rpool_init = ex_rpool\<lparr>zdatasets := zdatasets ex_rpool
          @ [zfs_new_dataset ''rpool/R'' [(''mountpoint'', ''legacy''), (''canmount'', ''off'')] None]
          @ [zfs_new_dataset ''rpool/R/be1''
               [(''mountpoint'', ''legacy''), (''canmount'', ''noauto'')] None,
             zfs_new_dataset ''rpool/R/be1/var''
               [(''canmount'', ''noauto''), (''mountpoint'', ''/var'')] None]
          @ shared\<rparr>
        \<and> (\<forall>d \<in> set shared. d = zfs_new_dataset ''rpool/export'' [(''mountpoint'', ''/export'')] None)
        \<and> zfs_dataset_exists ex_rpool_init ''rpool/export'' ZFS_TYPE_FILESYSTEM)"
proof -
  have h1: "BE_ATTR_NEW_BE_NAME ex_init_attrs = Some ''be1''"
    and h2: "BE_ATTR_NEW_BE_POOL ex_init_attrs = Some ''rpool''"
    and h3: "BE_ATTR_FS_NAMES ex_init_attrs = Some [''/'', ''/var'']"
    and h4: "BE_ATTR_ZFS_PROPERTIES ex_init_attrs = None"
    by (simp_all add: ex_init_attrs_def)
  have h5: "be_init ex_env ex_init_attrs ex_rpool = (Inr (), ex_rpool_init)"
    by code_simp
  have c: "be_make_container_ds ex_env ''rpool'' = ''rpool/R''"
    and r: "be_make_root_ds ex_env ''rpool'' ''be1'' = ''rpool/R/be1''"
    by (simp_all add: be_make_container_ds_def be_make_root_ds_def ex_env_def)
  have nc: "\<not> zfs_dataset_exists ex_rpool ''rpool/R'' ZFS_TYPE_FILESYSTEM"
    by (simp add: zfs_dataset_exists_def ex_rpool_def)
  have sh: "(case BE_ATTR_SHARED_FS_NAMES ex_init_attrs of None \<Rightarrow> [] | Some l \<Rightarrow> l)
      = [''/export'']"
    by (simp add: ex_init_attrs_def)
  from be_init_scenario [OF h1 h2 h3 h4 h5] obtain shared where
    "ex_rpool_init = ex_rpool\<lparr>zdatasets := zdatasets ex_rpool
          @ [zfs_new_dataset ''rpool/R'' [(''mountpoint'', ''legacy''), (''canmount'', ''off'')] None]
          @ [zfs_new_dataset ''rpool/R/be1''
               [(''mountpoint'', ''legacy''), (''canmount'', ''noauto'')] None,
             zfs_new_dataset ''rpool/R/be1/var''
               [(''canmount'', ''noauto''), (''mountpoint'', ''/var'')] None]
          @ shared\<rparr>"
    "\<forall>d \<in> set shared. d = zfs_new_dataset ''rpool/export'' [(''mountpoint'', ''/export'')] None"
    "zfs_dataset_exists ex_rpool_init ''rpool/export'' ZFS_TYPE_FILESYSTEM"
    unfolding c r sh using nc by auto
  with h1 h2 h3 h4 h5 show ?thesis by blast
qed

section \<open>be\_destroy and the origin snapshot\<close>

lemma zfs_iter_filesystems_invariant:
  "\<forall>k \<in> set ks. \<forall>d r d'. I d \<longrightarrow> func k d = (r, d') \<longrightarrow> I d' \<Longrightarrow>
   I d \<Longrightarrow> zfs_iter_filesystems ks func d = (r, d') \<Longrightarrow> I d'"
proof (induction ks arbitrary: d)
  case Nil
  then show ?case by simp
next
  case (Cons k ks)
  obtain r1 d1 where f: "func k d = (r1, d1)" by (cases "func k d")
  have I1: "I d1" using Cons.prems(1,2) f by auto
  show ?case
  proof (cases "r1 = 0")
    case True
    with Cons.prems(3) f have "zfs_iter_filesystems ks func d1 = (r, d')" by simp
    moreover have "\<forall>k \<in> set ks. \<forall>d r d'. I d \<longrightarrow> func k d = (r, d') \<longrightarrow> I d'"
    proof (intro ballI allI impI)
      fix k' d r d'
      assume "k' \<in> set ks" "I d" "func k' d = (r, d')"
      moreover from this have "k' \<in> set (k # ks)" by simp
      ultimately show "I d'" using Cons.prems(1) by blast
    qed
    ultimately show ?thesis using I1 by (rule Cons.IH [rotated 2])
  next
    case False
    with Cons.prems(3) f have "d' = d1" by simp
    with I1 show ?thesis by simp
  qed
qed

lemma zfs_unmount_Inr:
  "zfs_unmount st n = Inr st' \<Longrightarrow>
     zpools st' = zpools st \<and> zsnapshots st' = zsnapshots st
     \<and> map ds_name (zdatasets st') = map ds_name (zdatasets st)"
  by (auto simp: zfs_unmount_def split: if_splits)

lemma zfs_destroy_Inr:
  "zfs_destroy st n = Inr st' \<Longrightarrow>
     st' = st\<lparr>zdatasets := filter (\<lambda>d. ds_name d \<noteq> n) (zdatasets st)\<rparr>
     \<and> (\<forall>s \<in> set (zsnapshots st). \<not> zfs_snap_of n s)"
  by (auto simp: zfs_destroy_def split: if_splits)

lemma be_destroy_callback_inv:
  "teardown_inv s0 st \<Longrightarrow> be_destroy_callback zhp st = (r, st') \<Longrightarrow> teardown_inv s0 st'"
proof (induction zhp st arbitrary: r st' rule: be_destroy_callback.induct)
  case (1 zhp_name kids st)
  obtain r1 st1 where it: "zfs_iter_filesystems kids (\<lambda>k d. be_destroy_callback k d) st = (r1, st1)"
    by (cases "zfs_iter_filesystems kids (\<lambda>k d. be_destroy_callback k d) st")
  have I1: "teardown_inv s0 st1"
  proof (rule zfs_iter_filesystems_invariant [where I = "teardown_inv s0", OF _ 1(2) it])
    show "\<forall>k \<in> set kids. \<forall>d r d'. teardown_inv s0 d \<longrightarrow>
            be_destroy_callback k d = (r, d') \<longrightarrow> teardown_inv s0 d'"
      using 1(1) by blast
  qed
  show ?case
  proof (cases "r1 \<noteq> 0")
    case True
    with 1(3) it I1 show ?thesis by simp
  next
    case False
    note r1 = this
    show ?thesis
    proof (cases "zfs_unmount st1 zhp_name")
      case (Inl e)
      with 1(3) it r1 I1 show ?thesis by simp
    next
      case (Inr st2)
      from zfs_unmount_Inr [OF Inr] I1 have I2: "teardown_inv s0 st2"
        by (simp add: teardown_inv_def zfs_dataset_exists_def)
      show ?thesis
      proof (cases "zfs_destroy st2 zhp_name")
        case (Inl e)
        with 1(3) it r1 Inr I2 show ?thesis by simp
      next
        case des: (Inr st3)
        from 1(3) it r1 Inr des have "st' = st3" by simp
        moreover have "teardown_inv s0 st3"
        proof -
          from zfs_destroy_Inr [OF des] have
            e3: "st3 = st2\<lparr>zdatasets := filter (\<lambda>d. ds_name d \<noteq> zhp_name) (zdatasets st2)\<rparr>"
            and ns: "\<forall>s \<in> set (zsnapshots st2). \<not> zfs_snap_of zhp_name s" by simp_all
          have "zfs_dataset_exists st3 n ZFS_TYPE_FILESYSTEM"
            if h: "\<exists>s \<in> set (zsnapshots s0). zfs_snap_of n s"
              "zfs_dataset_exists s0 n ZFS_TYPE_FILESYSTEM" for n
          proof -
            from h I2 have in2: "zfs_dataset_exists st2 n ZFS_TYPE_FILESYSTEM"
              by (simp add: teardown_inv_def)
            from h(1) ns I2 have "n \<noteq> zhp_name" by (auto simp: teardown_inv_def)
            with in2 show ?thesis unfolding e3 by (auto simp: zfs_dataset_exists_def)
          qed
          with I2 e3 show ?thesis by (simp add: teardown_inv_def)
        qed
        ultimately show ?thesis by simp
      qed
    qed
  qed
qed

lemma zfs_snap_split_be_get_snap:
  "zfs_snap_split s = Some (d, n) \<Longrightarrow> n \<noteq> [] \<Longrightarrow> be_get_snap s = (0, d, Some n)"
  by (auto simp: zfs_snap_split_def be_get_snap_def split: option.splits)

lemma zfs_prop_get_origin_mem:
  "zfs_prop_get_origin st n = Some orig \<Longrightarrow>
     \<exists>d \<in> set (zdatasets st). ds_origin d = Some orig"
  by (auto simp: zfs_prop_get_origin_def zfs_lookup_def find_Some_iff split: option.splits)

lemma zfs_destroy_snaps_Inr:
  assumes d: "zfs_destroy_snaps st p snap = Inr st'"
    and sp: "zfs_snap_split orig = Some (p, snap)"
  shows "orig \<notin> set (zsnapshots st')"
proof
  assume m: "orig \<in> set (zsnapshots st')"
  from d have e: "st' = st\<lparr>zsnapshots :=
      filter (\<lambda>s. s \<notin> set (zfs_snaps_named st p snap)) (zsnapshots st)\<rparr>"
    by (simp add: zfs_destroy_snaps_def Let_def split: if_splits)
  with m have "orig \<in> set (zsnapshots st)" "orig \<notin> set (zfs_snaps_named st p snap)"
    by simp_all
  moreover have "orig \<in> set (zsnapshots st) \<Longrightarrow> orig \<in> set (zfs_snaps_named st p snap)"
    using sp by (simp add: zfs_snaps_named_def zfs_in_subtree_def)
  ultimately show False by blast
qed


lemma be_destroy_reaches_origin:
  assumes wf: "zfs_wf st"
    and init: "be_zfs_init env"
    and name: "BE_ATTR_ORIG_BE_NAME a = Some B"
    and valid: "be_valid_be_name env B"
    and pool: "zpool_iter st (be_find_zpool_callback env st B) None = (zret, Some zp)"
    and opn: "zfs_open st (be_make_root_ds env zp B) = Some zhp"
    and nmnt: "zfs_is_mounted st (be_make_root_ds env zp B) = None"
    and orig: "zfs_prop_get_origin st (be_make_root_ds env zp B) = Some origin"
    and split: "zfs_snap_split origin = Some (parent, snap)"
    and tear: "be_destroy_callback zhp st = (0, st1)"
  shows "be_destroy env a st = be_destroy_origin env B zp origin parent snap st1"
    and "origin \<in> set (zsnapshots st)"
    and "zsnapshots st1 = zsnapshots st"
    and "zfs_dataset_exists st1 parent ZFS_TYPE_FILESYSTEM"
proof -
  from pool have zret: "zret = 1"
    using be_find_zpool_iter [of "zpools st" env st B None zret "Some zp"]
    by (auto simp: zpool_iter_def)
  from opn have nm: "zfs_get_name zhp = be_make_root_ds env zp B" by (rule zfs_open_name)
  from zfs_prop_get_origin_mem [OF orig] wf show mem: "origin \<in> set (zsnapshots st)"
    by (fastforce simp: zfs_wf_def)
  with wf split have ne: "snap \<noteq> []"
    and pex: "zfs_dataset_exists st parent ZFS_TYPE_FILESYSTEM"
    by (auto simp: zfs_wf_def)
  from split ne have gs: "be_get_snap origin = (0, parent, Some snap)"
    by (rule zfs_snap_split_be_get_snap)
  have "teardown_inv st st" by (simp add: teardown_inv_def)
  from be_destroy_callback_inv [OF this tear] have inv: "teardown_inv st st1" .
  then show "zsnapshots st1 = zsnapshots st" by (simp add: teardown_inv_def)
  have "zfs_snap_of parent origin" using split by (simp add: zfs_snap_of_def)
  with mem pex inv show "zfs_dataset_exists st1 parent ZFS_TYPE_FILESYSTEM"
    by (auto simp: teardown_inv_def)
  show "be_destroy env a st = be_destroy_origin env B zp origin parent snap st1"
    using init name valid pool zret opn nm nmnt orig gs tear
    by (simp add: be_destroy_def)
qed

text \<open>
  Claim C3, as amended. Take a well-formed namespace and a \<open>be_destroy\<close> of the BE
  \<open>B\<close> that passes the mounted check, whose root dataset has the origin
  \<open>parent@snap\<close> and whose teardown succeeds, leaving the namespace \<open>st1\<close>. Then
  the origin snapshot is gone afterwards only if \<open>snap\<close> is the name of the BE and
  the origin has no clone left in \<open>st1\<close>. When both hold, \<open>zfs_destroy_snaps\<close> is
  called on the origin's dataset: if it succeeds the origin is destroyed, and
  \<open>be_destroy\<close> succeeds exactly when the boot menu entry is removed; if it fails,
  the snapshots are untouched and \<open>be_destroy\<close> returns 1. In every other case the
  snapshots are untouched, and \<open>be_destroy\<close> succeeds exactly when the boot menu
  entry is removed.
\<close>

theorem be_destroy_origin_cleanup:
  assumes wf: "zfs_wf st"
    and init: "be_zfs_init env"
    and name: "BE_ATTR_ORIG_BE_NAME a = Some B"
    and valid: "be_valid_be_name env B"
    and pool: "zpool_iter st (be_find_zpool_callback env st B) None = (zret, Some zp)"
    and opn: "zfs_open st (be_make_root_ds env zp B) = Some zhp"
    and nmnt: "zfs_is_mounted st (be_make_root_ds env zp B) = None"
    and orig: "zfs_prop_get_origin st (be_make_root_ds env zp B) = Some origin"
    and split: "zfs_snap_split origin = Some (parent, snap)"
    and tear: "be_destroy_callback zhp st = (0, st1)"
  shows "origin \<in> set (zsnapshots st)
    \<and> (origin \<notin> set (zsnapshots (snd (be_destroy env a st)))
         \<longrightarrow> snap = B \<and> zfs_prop_get_numclones st1 origin = Some 0)
    \<and> (snap = B \<and> zfs_prop_get_numclones st1 origin = Some 0 \<longrightarrow>
         (\<forall>st2. zfs_destroy_snaps st1 parent snap = Inr st2 \<longrightarrow>
             origin \<notin> set (zsnapshots st2)
             \<and> be_destroy env a st
                 = (if be_remove_grub env B zp = 0 then Inr () else Inl ErrRemoveGrub, st2))
         \<and> (\<forall>e. zfs_destroy_snaps st1 parent snap = Inl e \<longrightarrow>
             zsnapshots (snd (be_destroy env a st)) = zsnapshots st
             \<and> be_ret (fst (be_destroy env a st)) = 1))
    \<and> (\<not> (snap = B \<and> zfs_prop_get_numclones st1 origin = Some 0) \<longrightarrow>
         zsnapshots (snd (be_destroy env a st)) = zsnapshots st
         \<and> be_destroy env a st
             = (if be_remove_grub env B zp = 0 then Inr () else Inl ErrRemoveGrub, st1))"
proof -
  note r = be_destroy_reaches_origin [OF assms]
  let ?nc = "zfs_prop_get_numclones st1 origin"
  let ?grub = "be_remove_grub env B zp"
  from r(2,3) have sx: "zfs_dataset_exists st1 origin ZFS_TYPE_SNAPSHOT"
    by (simp add: zfs_dataset_exists_def)
  then obtain k where k: "?nc = Some k" by (simp add: zfs_prop_get_numclones_def)
  have other: "be_destroy env a st = (if ?grub = 0 then Inr () else Inl ErrRemoveGrub, st1)"
    if "\<not> (snap = B \<and> ?nc = Some 0)"
    using that sx k unfolding r(1) by (auto simp: be_destroy_origin_def be_destroy_done_def)
  have good: "be_destroy env a st = (if ?grub = 0 then Inr () else Inl ErrRemoveGrub, st2)"
    if "snap = B" "?nc = Some 0" "zfs_destroy_snaps st1 parent snap = Inr st2" for st2
    using that sx r(4) unfolding r(1) by (simp add: be_destroy_origin_def be_destroy_done_def)
  have bad: "be_destroy env a st
        = (if ?grub = 0 then Inl ErrDestroySnaps else Inl ErrRemoveGrub, st1)"
    if "snap = B" "?nc = Some 0" "zfs_destroy_snaps st1 parent snap = Inl e" for e
    using that sx r(4) unfolding r(1) by (simp add: be_destroy_origin_def be_destroy_done_def)
  have gone: "origin \<notin> set (zsnapshots st2)"
    if "zfs_destroy_snaps st1 parent snap = Inr st2" for st2
    using that split by (rule zfs_destroy_snaps_Inr)
  have c2: "snap = B \<and> ?nc = Some 0"
    if g: "origin \<notin> set (zsnapshots (snd (be_destroy env a st)))"
  proof (rule ccontr)
    assume "\<not> ?thesis"
    from other [OF this] have "snd (be_destroy env a st) = st1" by simp
    with g r(2,3) show False by simp
  qed
  have c3a: "origin \<notin> set (zsnapshots st2)
             \<and> be_destroy env a st
                 = (if ?grub = 0 then Inr () else Inl ErrRemoveGrub, st2)"
    if "snap = B \<and> ?nc = Some 0" "zfs_destroy_snaps st1 parent snap = Inr st2" for st2
    using that good gone by blast
  have c3b: "zsnapshots (snd (be_destroy env a st)) = zsnapshots st
             \<and> be_ret (fst (be_destroy env a st)) = 1"
    if "snap = B \<and> ?nc = Some 0" "zfs_destroy_snaps st1 parent snap = Inl e" for e
    using that bad [of e] r(3) by (simp add: be_ret_def)
  have c4: "zsnapshots (snd (be_destroy env a st)) = zsnapshots st
         \<and> be_destroy env a st = (if ?grub = 0 then Inr () else Inl ErrRemoveGrub, st1)"
    if "\<not> (snap = B \<and> ?nc = Some 0)"
    using other [OF that] r(3) by simp
  from r(2) c2 c3a c3b c4 show ?thesis by blast
qed

theorem be_destroy_origin_cleanup_witness:
  "zfs_wf ex_st_clone1
   \<and> be_zfs_init ex_env
   \<and> BE_ATTR_ORIG_BE_NAME (ex_attrs\<lparr>BE_ATTR_ORIG_BE_NAME := Some ''b''\<rparr>) = Some ''b''
   \<and> be_valid_be_name ex_env ''b''
   \<and> zpool_iter ex_st_clone1 (be_find_zpool_callback ex_env ex_st_clone1 ''b'') None
       = (1, Some ''p'')
   \<and> zfs_open ex_st_clone1 (be_make_root_ds ex_env ''p'' ''b'') = Some (ZH ''p/R/b'' [])
   \<and> zfs_is_mounted ex_st_clone1 (be_make_root_ds ex_env ''p'' ''b'') = None
   \<and> zfs_prop_get_origin ex_st_clone1 (be_make_root_ds ex_env ''p'' ''b'') = Some ''p/R/a@b''
   \<and> zfs_snap_split ''p/R/a@b'' = Some (''p/R/a'', ''b'')
   \<and> be_destroy_callback (ZH ''p/R/b'' []) ex_st_clone1 = (0, ex_st_clone1_torn)
   \<and> zfs_prop_get_numclones ex_st_clone1_torn ''p/R/a@b'' = Some 0
   \<and> zfs_destroy_snaps ex_st_clone1_torn ''p/R/a'' ''b'' = Inr ex_st_clone1_done
   \<and> ''p/R/a@b'' \<in> set (zsnapshots ex_st_clone1)
   \<and> ''p/R/a@b'' \<notin> set (zsnapshots ex_st_clone1_done)
   \<and> be_destroy ex_env (ex_attrs\<lparr>BE_ATTR_ORIG_BE_NAME := Some ''b''\<rparr>) ex_st_clone1
       = (Inr (), ex_st_clone1_done)"
proof -
  let ?a = "ex_attrs\<lparr>BE_ATTR_ORIG_BE_NAME := Some ''b''\<rparr>"
  have h1: "zfs_wf ex_st_clone1" by code_simp
  have h2: "be_zfs_init ex_env" by (simp add: ex_env_def)
  have h3: "BE_ATTR_ORIG_BE_NAME ?a = Some ''b''" by simp
  have h4: "be_valid_be_name ex_env ''b''" by (simp add: ex_env_def)
  have h5: "zpool_iter ex_st_clone1 (be_find_zpool_callback ex_env ex_st_clone1 ''b'') None
       = (1, Some ''p'')" by code_simp
  have h6: "zfs_open ex_st_clone1 (be_make_root_ds ex_env ''p'' ''b'') = Some (ZH ''p/R/b'' [])"
    by code_simp
  have h7: "zfs_is_mounted ex_st_clone1 (be_make_root_ds ex_env ''p'' ''b'') = None"
    by code_simp
  have h8: "zfs_prop_get_origin ex_st_clone1 (be_make_root_ds ex_env ''p'' ''b'')
       = Some ''p/R/a@b''" by code_simp
  have h9: "zfs_snap_split ''p/R/a@b'' = Some (''p/R/a'', ''b'')" by code_simp
  have h10: "be_destroy_callback (ZH ''p/R/b'' []) ex_st_clone1 = (0, ex_st_clone1_torn)"
    by code_simp
  have n0: "zfs_prop_get_numclones ex_st_clone1_torn ''p/R/a@b'' = Some 0" by code_simp
  have ds: "zfs_destroy_snaps ex_st_clone1_torn ''p/R/a'' ''b'' = Inr ex_st_clone1_done"
    by code_simp
  have g: "be_remove_grub ex_env ''b'' ''p'' = 0" by (simp add: ex_env_def)
  from be_destroy_origin_cleanup [OF h1 h2 h3 h4 h5 h6 h7 h8 h9 h10] n0 ds g
  have "''p/R/a@b'' \<in> set (zsnapshots ex_st_clone1)
    \<and> ''p/R/a@b'' \<notin> set (zsnapshots ex_st_clone1_done)
    \<and> be_destroy ex_env ?a ex_st_clone1 = (Inr (), ex_st_clone1_done)"
    by simp
  with h1 h2 h3 h4 h5 h6 h7 h8 h9 h10 n0 ds show ?thesis by blast
qed

text \<open>
  Claim C3 as stated fails where the name of the origin snapshot differs from the
  name of the BE and the boot menu entry cannot be removed: the teardown of \<open>c\<close>
  succeeds, its origin \<open>p/R/a@b\<close> is left untouched, and \<open>be_destroy\<close> returns 1.
\<close>

theorem be_destroy_origin_counterexample:
  "zfs_prop_get_origin ex_st_clones ''p/R/c'' = Some ''p/R/a@b''
   \<and> zfs_open ex_st_clones ''p/R/c'' = Some (ZH ''p/R/c'' [])
   \<and> fst (be_destroy_callback (ZH ''p/R/c'' []) ex_st_clones) = 0
   \<and> ''p/R/a@b'' \<in> set (zsnapshots (snd (be_destroy ex_env_grub
         (ex_attrs\<lparr>BE_ATTR_ORIG_BE_NAME := Some ''c''\<rparr>) ex_st_clones)))
   \<and> fst (be_destroy ex_env_grub (ex_attrs\<lparr>BE_ATTR_ORIG_BE_NAME := Some ''c''\<rparr>) ex_st_clones)
       = Inl ErrRemoveGrub
   \<and> be_ret (fst (be_destroy ex_env_grub
         (ex_attrs\<lparr>BE_ATTR_ORIG_BE_NAME := Some ''c''\<rparr>) ex_st_clones)) = 1"
  by code_simp

section \<open>The replicators and their property policy\<close>

lemma map_of_filter_other:
  "m \<noteq> n \<Longrightarrow> map_of (filter (\<lambda>p. fst p \<noteq> n) l) m = map_of l m"
  by (induction l) auto

lemma map_of_filter_same: "map_of (filter (\<lambda>p. fst p \<noteq> n) l) n = None"
  by (induction l) auto

lemma nvlist_lookup_add_same [simp]:
  "nvlist_lookup_string (nvlist_add_string l n v) n = Some v"
  by (simp add: nvlist_lookup_string_def nvlist_add_string_def map_add_def map_of_filter_same)

lemma nvlist_lookup_add_other [simp]:
  "m \<noteq> n \<Longrightarrow> nvlist_lookup_string (nvlist_add_string l n v) m = nvlist_lookup_string l m"
  by (simp add: nvlist_lookup_string_def nvlist_add_string_def map_add_def map_of_filter_other
      split: option.splits)



lemma be_clone_fs_callback_unfold:
  "be_clone_fs_callback env (ZH zhp_name kids) (bt, st) =
     (if strncmp zhp_name (obe_root_ds bt) (length (obe_root_ds bt)) \<ge> 0 then
        case be_node_props bt st zhp_name of
          Inl u \<Rightarrow> (1, bt, st)
        | Inr b \<Rightarrow>
            if \<not> zfs_dataset_exists st (zhp_name @ ''@'' @ obe_snap_name bt) ZFS_TYPE_SNAPSHOT
            then (1, bt\<lparr>nbe_zfs_props :=
                     nvlist_add_string b (zfs_prop_to_name ZFS_PROP_CANMOUNT) ''noauto''\<rparr>, st)
            else case zfs_clone st (zhp_name @ ''@'' @ obe_snap_name bt)
                        (nbe_root_ds bt @ drop (length (obe_root_ds bt)) zhp_name)
                        (nvlist_add_string b (zfs_prop_to_name ZFS_PROP_CANMOUNT) ''noauto'') of
                   Inl e \<Rightarrow> (if e = EZFS_EXISTS then BE_ERR_EXISTS env else 1,
                             bt\<lparr>nbe_zfs_props :=
                               nvlist_add_string b (zfs_prop_to_name ZFS_PROP_CANMOUNT) ''noauto''\<rparr>,
                             st)
                 | Inr st' \<Rightarrow>
                     (0, snd (zfs_iter_filesystems kids (\<lambda>k d. be_clone_fs_callback env k d)
                            (bt\<lparr>nbe_zfs_props :=
                               nvlist_add_string b (zfs_prop_to_name ZFS_PROP_CANMOUNT) ''noauto''\<rparr>,
                             st')))
      else (1, bt, st))"
  by (simp add: be_node_props_def Let_def split: sum.splits prod.splits)



lemma zfs_clone_Inr:
  "zfs_clone st ss n P = Inr st' \<Longrightarrow>
     st' = st\<lparr>zdatasets := zdatasets st @ [zfs_new_dataset n P (Some ss)]\<rparr>
     \<and> \<not> zfs_dataset_exists st n ZFS_TYPE_FILESYSTEM"
  by (auto simp: zfs_clone_def split: option.splits if_splits)


lemma zfs_extends_refl: "zfs_extends st (bt, st)"
  by (simp add: zfs_extends_def)

lemma zfs_extends_trans:
  "zfs_extends st (bt1, st1) \<Longrightarrow> zfs_extends st1 d \<Longrightarrow> zfs_extends st d"
  by (auto simp: zfs_extends_def)

lemma zfs_extends_iter:
  assumes step: "\<And>k bt st r d'. k \<in> set ks \<Longrightarrow> func k (bt, st) = (r, d') \<Longrightarrow> zfs_extends st d'"
    and run: "zfs_iter_filesystems ks func d = (r, d')"
  shows "zfs_extends (snd d) d'"
proof (rule zfs_iter_filesystems_invariant [where I = "zfs_extends (snd d)", OF _ _ run])
  show "zfs_extends (snd d) d" by (cases d) (simp add: zfs_extends_refl)
  show "\<forall>k \<in> set ks. \<forall>x r x'. zfs_extends (snd d) x \<longrightarrow> func k x = (r, x') \<longrightarrow> zfs_extends (snd d) x'"
  proof (intro ballI allI impI)
    fix k x r x'
    assume k: "k \<in> set ks" and e: "zfs_extends (snd d) x" and f: "func k x = (r, x')"
    obtain bt st where x: "x = (bt, st)" by (cases x)
    from step [OF k f [unfolded x]] have "zfs_extends st x'" .
    with e x show "zfs_extends (snd d) x'" by (auto intro: zfs_extends_trans)
  qed
qed

declare be_clone_fs_callback.simps [simp del]
declare be_send_fs_callback.simps [simp del]

lemma be_clone_fs_callback_cases:
  assumes "be_clone_fs_callback env (ZH zhp_name kids) (bt, st) = (r, d')"
  obtains (fail) "snd d' = st"
  | (ok) b st1 where
      "be_node_props bt st zhp_name = Inr b"
      "zfs_clone st (zhp_name @ ''@'' @ obe_snap_name bt)
         (nbe_root_ds bt @ drop (length (obe_root_ds bt)) zhp_name)
         (nvlist_add_string b (zfs_prop_to_name ZFS_PROP_CANMOUNT) ''noauto'') = Inr st1"
      "r = 0"
      "d' = snd (zfs_iter_filesystems kids (\<lambda>k d. be_clone_fs_callback env k d)
           (bt\<lparr>nbe_zfs_props :=
              nvlist_add_string b (zfs_prop_to_name ZFS_PROP_CANMOUNT) ''noauto''\<rparr>, st1))"
  using assms unfolding be_clone_fs_callback_unfold
  by (auto split: if_splits sum.splits)


lemma zfs_extends_kids:
  assumes "\<And>k bt st r d'. k \<in> set kids \<Longrightarrow> func k (bt, st) = (r, d') \<Longrightarrow> zfs_extends st d'"
  shows "zfs_extends st (snd (zfs_iter_filesystems kids func (bt, st)))"
proof -
  have "zfs_iter_filesystems kids func (bt, st)
      = (fst (zfs_iter_filesystems kids func (bt, st)),
         snd (zfs_iter_filesystems kids func (bt, st)))" by simp
  from zfs_extends_iter [OF assms this]
  show ?thesis by simp
qed

lemma be_clone_fs_callback_zfs_extends:
  "be_clone_fs_callback env h (bt, st) = (r, d') \<Longrightarrow> zfs_extends st d'"
proof (induction h arbitrary: bt st r d')
  case (ZH zhp_name kids)
  from ZH.prems show ?case
  proof (cases rule: be_clone_fs_callback_cases)
    case fail
    then show ?thesis by (simp add: zfs_extends_def)
  next
    case (ok b st1)
    have "zfs_extends st1 d'"
      unfolding ok(4) by (rule zfs_extends_kids) (rule ZH.IH)
    moreover have "zfs_extends st (bt, st1)"
      using zfs_clone_Inr [OF ok(2)] by (simp add: zfs_extends_def)
    ultimately show ?thesis by (rule zfs_extends_trans [rotated])
  qed
qed





section \<open>The retry loop of be\_copy\<close>

lemma be_node_props_irrelevant:
  "(be_node_props (bt\<lparr>nbe_zfs_props := Q\<rparr>) st n = Inl ()) = (be_node_props bt st n = Inl ())"
  by (simp add: be_node_props_def nvlist_remove_all_def ENOENT_def split: option.splits prod.splits)

lemma zfs_clone_props_irrelevant:
  "(zfs_clone st ss n P = Inl e) = (zfs_clone st ss n P' = Inl e)"
  by (simp add: zfs_clone_def split: option.splits)

lemma be_clone_fs_callback_outcome:
  fixes env zhp_name kids bt st
  defines "ss \<equiv> zhp_name @ ''@'' @ obe_snap_name bt"
    and "cds \<equiv> nbe_root_ds bt @ drop (length (obe_root_ds bt)) zhp_name"
  shows "\<exists>Q d. be_clone_fs_callback env (ZH zhp_name kids) (bt, st) =
     (if strncmp zhp_name (obe_root_ds bt) (length (obe_root_ds bt)) \<ge> 0 then
        if be_node_props bt st zhp_name = Inl () then (1, bt\<lparr>nbe_zfs_props := Q\<rparr>, st)
        else if \<not> zfs_dataset_exists st ss ZFS_TYPE_SNAPSHOT
        then (1, bt\<lparr>nbe_zfs_props := Q\<rparr>, st)
        else if zfs_clone st ss cds [] = Inl EZFS_EXISTS
        then (BE_ERR_EXISTS env, bt\<lparr>nbe_zfs_props := Q\<rparr>, st)
        else if \<exists>e. zfs_clone st ss cds [] = Inl e
        then (1, bt\<lparr>nbe_zfs_props := Q\<rparr>, st)
        else (0, d)
      else (1, bt\<lparr>nbe_zfs_props := Q\<rparr>, st))"
proof -
  have c: "zfs_clone st ss m P = Inl e \<longleftrightarrow> zfs_clone st ss m [] = Inl e" for ss m P e
    by (rule zfs_clone_props_irrelevant)
  have id: "bt = bt\<lparr>nbe_zfs_props := nbe_zfs_props bt\<rparr>" by simp
  show ?thesis
  proof (cases "strncmp zhp_name (obe_root_ds bt) (length (obe_root_ds bt)) \<ge> 0")
    case False
    then have "be_clone_fs_callback env (ZH zhp_name kids) (bt, st) = (1, bt, st)"
      by (simp add: be_clone_fs_callback_unfold)
    with False id show ?thesis by (intro exI [of _ "nbe_zfs_props bt"]) simp
  next
    case True
    show ?thesis
    proof (cases "be_node_props bt st zhp_name")
      case (Inl u)
      with True have "be_clone_fs_callback env (ZH zhp_name kids) (bt, st) = (1, bt, st)"
        by (simp add: be_clone_fs_callback_unfold)
      with True Inl id show ?thesis by (intro exI [of _ "nbe_zfs_props bt"]) simp
    next
      case (Inr b)
      let ?P = "nvlist_add_string b (zfs_prop_to_name ZFS_PROP_CANMOUNT) ''noauto''"
      show ?thesis
      proof (cases "zfs_dataset_exists st ss ZFS_TYPE_SNAPSHOT")
        case False
        with True Inr have "be_clone_fs_callback env (ZH zhp_name kids) (bt, st)
            = (1, bt\<lparr>nbe_zfs_props := ?P\<rparr>, st)"
          by (simp add: be_clone_fs_callback_unfold ss_def)
        with True Inr False show ?thesis by (intro exI [of _ ?P]) simp
      next
        case sx: True
        show ?thesis
        proof (cases "zfs_clone st ss cds ?P")
          case (Inl e)
          then have e0: "zfs_clone st ss cds [] = Inl e" using c by blast
          from True Inr sx Inl have "be_clone_fs_callback env (ZH zhp_name kids) (bt, st)
            = (if e = EZFS_EXISTS then BE_ERR_EXISTS env else 1, bt\<lparr>nbe_zfs_props := ?P\<rparr>, st)"
            by (simp add: be_clone_fs_callback_unfold ss_def cds_def)
          with True Inr sx e0 show ?thesis by (intro exI [of _ ?P]) auto
        next
          case ok: (Inr st1)
          then have e0: "\<forall>e. zfs_clone st ss cds [] \<noteq> Inl e" using c [of ss cds "[]"]
            by (metis Inl_Inr_False zfs_clone_props_irrelevant)
          from True Inr sx ok have "\<exists>d. be_clone_fs_callback env (ZH zhp_name kids) (bt, st) = (0, d)"
            by (simp add: be_clone_fs_callback_unfold ss_def cds_def)
          with True Inr sx e0 show ?thesis by auto
        qed
      qed
    qed
  qed
qed


lemma be_clone_fs_callback_failed:
  assumes "be_clone_fs_callback env zhp (bt, st) = (r, d')" and "r \<noteq> 0"
  shows "\<exists>Q. d' = (bt\<lparr>nbe_zfs_props := Q\<rparr>, st)"
proof (cases zhp)
  case (ZH n kids)
  from be_clone_fs_callback_outcome [of env n kids bt st] assms show ?thesis
    unfolding ZH by (auto split: if_splits)
qed

lemma be_clone_fs_callback_ret:
  "fst (be_clone_fs_callback env (ZH n kids) (bt, st)) =
     (if strncmp n (obe_root_ds bt) (length (obe_root_ds bt)) \<ge> 0 then
        if be_node_props bt st n = Inl () then 1
        else if \<not> zfs_dataset_exists st (n @ ''@'' @ obe_snap_name bt) ZFS_TYPE_SNAPSHOT then 1
        else if zfs_clone st (n @ ''@'' @ obe_snap_name bt)
                  (nbe_root_ds bt @ drop (length (obe_root_ds bt)) n) [] = Inl EZFS_EXISTS
        then BE_ERR_EXISTS env
        else if \<exists>e. zfs_clone st (n @ ''@'' @ obe_snap_name bt)
                  (nbe_root_ds bt @ drop (length (obe_root_ds bt)) n) [] = Inl e
        then 1 else 0
      else 1)"
proof -
  from be_clone_fs_callback_outcome [of env n kids bt st] obtain Q d where
    e: "be_clone_fs_callback env (ZH n kids) (bt, st) =
     (if strncmp n (obe_root_ds bt) (length (obe_root_ds bt)) \<ge> 0 then
        if be_node_props bt st n = Inl () then (1, bt\<lparr>nbe_zfs_props := Q\<rparr>, st)
        else if \<not> zfs_dataset_exists st (n @ ''@'' @ obe_snap_name bt) ZFS_TYPE_SNAPSHOT
        then (1, bt\<lparr>nbe_zfs_props := Q\<rparr>, st)
        else if zfs_clone st (n @ ''@'' @ obe_snap_name bt)
                  (nbe_root_ds bt @ drop (length (obe_root_ds bt)) n) [] = Inl EZFS_EXISTS
        then (BE_ERR_EXISTS env, bt\<lparr>nbe_zfs_props := Q\<rparr>, st)
        else if \<exists>e. zfs_clone st (n @ ''@'' @ obe_snap_name bt)
                  (nbe_root_ds bt @ drop (length (obe_root_ds bt)) n) [] = Inl e
        then (1, bt\<lparr>nbe_zfs_props := Q\<rparr>, st)
        else (0, d)
      else (1, bt\<lparr>nbe_zfs_props := Q\<rparr>, st))"
    by blast
  show ?thesis unfolding e by simp
qed

lemma be_clone_fs_callback_props_irrelevant:
  "fst (be_clone_fs_callback env zhp (bt\<lparr>nbe_zfs_props := Q\<rparr>, st))
     = fst (be_clone_fs_callback env zhp (bt, st))"
  by (cases zhp) (simp add: be_clone_fs_callback_ret be_node_props_irrelevant)

lemma be_clone_fs_callback_cases_bt:
  assumes run: "be_clone_fs_callback env (ZH zhp_name kids) (bt, st) = (r, d')"
  obtains (fail) Q where "d' = (bt\<lparr>nbe_zfs_props := Q\<rparr>, st)"
      "r = 1 \<or> r = BE_ERR_EXISTS env"
  | (ok) b st1 where
      "be_node_props bt st zhp_name = Inr b"
      "zfs_clone st (zhp_name @ ''@'' @ obe_snap_name bt)
         (nbe_root_ds bt @ drop (length (obe_root_ds bt)) zhp_name)
         (nvlist_add_string b (zfs_prop_to_name ZFS_PROP_CANMOUNT) ''noauto'') = Inr st1"
      "r = 0"
      "d' = snd (zfs_iter_filesystems kids (\<lambda>k d. be_clone_fs_callback env k d)
           (bt\<lparr>nbe_zfs_props :=
              nvlist_add_string b (zfs_prop_to_name ZFS_PROP_CANMOUNT) ''noauto''\<rparr>, st1))"
proof (cases "strncmp zhp_name (obe_root_ds bt) (length (obe_root_ds bt)) \<ge> 0")
  case False
  with run have "d' = (bt, st)" and r: "r = 1" by (simp_all add: be_clone_fs_callback_unfold)
  then have "d' = (bt\<lparr>nbe_zfs_props := nbe_zfs_props bt\<rparr>, st)" by simp
  from fail [OF this] r show ?thesis by simp
next
  case True
  show ?thesis
  proof (cases "be_node_props bt st zhp_name")
    case (Inl u)
    with True run have "d' = (bt, st)" and r: "r = 1"
      by (simp_all add: be_clone_fs_callback_unfold)
    then have "d' = (bt\<lparr>nbe_zfs_props := nbe_zfs_props bt\<rparr>, st)" by simp
    from fail [OF this] r show ?thesis by simp
  next
    case (Inr b)
    let ?P = "nvlist_add_string b (zfs_prop_to_name ZFS_PROP_CANMOUNT) ''noauto''"
    show ?thesis
    proof (cases "zfs_dataset_exists st (zhp_name @ ''@'' @ obe_snap_name bt) ZFS_TYPE_SNAPSHOT")
      case False
      with True Inr run have "d' = (bt\<lparr>nbe_zfs_props := ?P\<rparr>, st)" and r: "r = 1"
        by (simp_all add: be_clone_fs_callback_unfold)
      from fail [OF this(1)] r show ?thesis by simp
    next
      case sx: True
      show ?thesis
      proof (cases "zfs_clone st (zhp_name @ ''@'' @ obe_snap_name bt)
         (nbe_root_ds bt @ drop (length (obe_root_ds bt)) zhp_name) ?P")
        case (Inl e)
        with True Inr sx run have "d' = (bt\<lparr>nbe_zfs_props := ?P\<rparr>, st)"
          and r: "r = (if e = EZFS_EXISTS then BE_ERR_EXISTS env else 1)"
          by (simp_all add: be_clone_fs_callback_unfold)
        from fail [OF this(1)] r show ?thesis by (simp split: if_splits)
      next
        case c: (Inr st1)
        with True Inr sx run have "r = 0"
          and "d' = snd (zfs_iter_filesystems kids (\<lambda>k d. be_clone_fs_callback env k d)
           (bt\<lparr>nbe_zfs_props := ?P\<rparr>, st1))"
          by (simp_all add: be_clone_fs_callback_unfold)
        with Inr c show ?thesis by (rule ok)
      qed
    qed
  qed
qed



declare be_copy_retry.simps [simp del]











lemma be_copy_autoname_unfold:
  assumes init: "be_zfs_init env"
    and a1: "BE_ATTR_NEW_BE_NAME a = None"
    and a2: "BE_ATTR_NEW_BE_POOL a = None"
    and a3: "BE_ATTR_SNAP_NAME a = None"
    and src: "be_copy_source env a st = Inr (obe, zp)"
    and props: "be_copy_props a = Inr P"
    and n0: "be_auto_be_name env 0 st obe = Some nm0"
    and snap: "be_create_snapshot env obe (be_make_root_ds env zp obe) st = Some (snap, st1)"
  shows "be_copy env a st =
     (case be_copy_clone env True obe nm0 zp
             (\<lparr>obe_root_ds = be_make_root_ds env zp obe, obe_snap_name = snap,
               nbe_root_ds = be_make_root_ds env zp nm0, nbe_zfs_props = P\<rparr>, st1) of
        (Inl e, bt2, st2) \<Rightarrow> (Inl e, st2)
      | (Inr nm, bt2, st2) \<Rightarrow>
          be_copy_finish env (a\<lparr>BE_ATTR_SNAP_NAME := Some snap\<rparr>) True nm zp (nbe_root_ds bt2)
            (case BE_ATTR_POLICY a of None \<Rightarrow> be_default_policy env | Some p \<Rightarrow> p) st2)"
proof -
  have d: "be_copy_dest env a st obe = Inr (nm0, True)"
    using a1 a2 a3 n0 by (simp add: be_copy_dest_def)
  have s: "be_copy_snapshot env a True obe nm0 (be_make_root_ds env zp obe) st
      = (Inr (snap, a\<lparr>BE_ATTR_SNAP_NAME := Some snap\<rparr>), st1)"
    using a3 snap by (simp add: be_copy_snapshot_def)
  show ?thesis
    using init src props d s a2 by (simp add: be_copy_def Let_def)
qed







section \<open>Where an auto-named BE is made\<close>

lemma be_copy_dest_auto_refused:
  "BE_ATTR_NEW_BE_NAME a = None \<Longrightarrow>
   BE_ATTR_NEW_BE_POOL a \<noteq> None \<or> BE_ATTR_SNAP_NAME a \<noteq> None \<Longrightarrow>
   \<exists>e. be_copy_dest env a st obe_name = Inl e"
  by (auto simp: be_copy_dest_def)

lemma zfs_in_subtree_child:
  assumes c: "zfs_is_child p x" and s: "zfs_in_subtree x n"
  shows "zfs_in_subtree p n"
proof -
  from c have l: "length p < length x" and t: "take (length p) x = p"
    and sl: "x ! length p = CHR ''/''" by (simp_all add: zfs_is_child_def)
  have px: "take (Suc (length p)) x = p @ ''/''"
    using l t sl by (simp add: take_Suc_conv_app_nth)
  from s show ?thesis unfolding zfs_in_subtree_def
  proof
    assume "n = x"
    with px show "n = p \<or> take (Suc (length p)) n = p @ ''/''" by simp
  next
    assume h: "take (Suc (length x)) n = x @ ''/''"
    have "take (Suc (length p)) n = take (Suc (length p)) (take (Suc (length x)) n)"
      using l by (simp add: min_def)
    also have "\<dots> = take (Suc (length p)) x" using l by (simp add: h)
    finally show "n = p \<or> take (Suc (length p)) n = p @ ''/''" using px by simp
  qed
qed

lemma zfs_make_handle_names:
  "n \<in> set (zfs_handle_names (zfs_make_handle names r)) \<Longrightarrow> zfs_in_subtree r n"
proof (induction names r arbitrary: n rule: zfs_make_handle.induct)
  case (1 names r)
  from "1.prems" have "n = r \<or> (\<exists>x \<in> set (filter (zfs_is_child r) names).
       n \<in> set (zfs_handle_names (zfs_make_handle names x)))"
  proof -
    have "zfs_handle_names (zfs_make_handle names r)
        = r # concat (map zfs_handle_names
                (map (zfs_make_handle names) (filter (zfs_is_child r) names)))"
      by (subst zfs_make_handle.simps) (simp del: zfs_make_handle.simps)
    with "1.prems" show ?thesis by (auto simp del: zfs_make_handle.simps)
  qed
  then show ?case
  proof
    assume "n = r"
    then show ?thesis by (simp add: zfs_in_subtree_def)
  next
    assume "\<exists>x \<in> set (filter (zfs_is_child r) names).
       n \<in> set (zfs_handle_names (zfs_make_handle names x))"
    then obtain x where x: "x \<in> set (filter (zfs_is_child r) names)"
      and m: "n \<in> set (zfs_handle_names (zfs_make_handle names x))" by blast
    from "1.IH" [OF x m] have "zfs_in_subtree x n" .
    moreover from x have "zfs_is_child r x" by simp
    ultimately show ?thesis by (rule zfs_in_subtree_child [rotated])
  qed
qed

lemma zfs_in_subtree_rebase:
  assumes "zfs_in_subtree obe m"
  shows "zfs_in_subtree nbe (nbe @ drop (length obe) m)"
  using assms unfolding zfs_in_subtree_def
proof
  assume "m = obe"
  then show "nbe @ drop (length obe) m = nbe
      \<or> take (Suc (length nbe)) (nbe @ drop (length obe) m) = nbe @ ''/''" by simp
next
  assume h: "take (Suc (length obe)) m = obe @ ''/''"
  have "m = take (Suc (length obe)) m @ drop (Suc (length obe)) m" by simp
  with h have "m = obe @ ''/'' @ drop (Suc (length obe)) m" by (simp only: append_assoc)
  then have "drop (length obe) m = drop (length obe) (obe @ ''/'' @ drop (Suc (length obe)) m)"
    by simp
  then have "drop (length obe) m = ''/'' @ drop (Suc (length obe)) m" by simp
  then show "nbe @ drop (length obe) m = nbe
      \<or> take (Suc (length nbe)) (nbe @ drop (length obe) m) = nbe @ ''/''" by simp
qed

lemma be_clone_inv_refl: "be_clone_inv bt st (bt\<lparr>nbe_zfs_props := Q\<rparr>, st)"
  by (simp add: be_clone_inv_def)

lemma be_clone_inv_trans:
  assumes "be_clone_inv bt st d1" and "be_clone_inv (fst d1) (snd d1) d2"
  shows "be_clone_inv bt st d2"
proof -
  obtain b1 s1 where d1: "d1 = (b1, s1)" by (cases d1)
  from assms(1) have a: "obe_root_ds b1 = obe_root_ds bt" "nbe_root_ds b1 = nbe_root_ds bt"
    "obe_snap_name b1 = obe_snap_name bt" "zpools s1 = zpools st"
    "zsnapshots s1 = zsnapshots st"
    and ax: "\<forall>x \<in> set (zdatasets s1).
          x \<in> set (zdatasets st) \<or> zfs_in_subtree (nbe_root_ds bt) (ds_name x)"
    unfolding be_clone_inv_def d1 by simp_all
  from assms(2) have b: "obe_root_ds (fst d2) = obe_root_ds b1"
    "nbe_root_ds (fst d2) = nbe_root_ds b1"
    "obe_snap_name (fst d2) = obe_snap_name b1" "zpools (snd d2) = zpools s1"
    "zsnapshots (snd d2) = zsnapshots s1"
    and bx: "\<forall>x \<in> set (zdatasets (snd d2)).
          x \<in> set (zdatasets s1) \<or> zfs_in_subtree (nbe_root_ds b1) (ds_name x)"
    unfolding be_clone_inv_def d1 by simp_all
  have "\<forall>x \<in> set (zdatasets (snd d2)).
          x \<in> set (zdatasets st) \<or> zfs_in_subtree (nbe_root_ds bt) (ds_name x)"
    using ax bx a(2) by auto
  with a b show ?thesis unfolding be_clone_inv_def by simp
qed


lemma be_clone_fs_callback_inv:
  assumes run: "be_clone_fs_callback env h (bt, st) = (r, d')"
    and under: "\<forall>n \<in> set (zfs_handle_names h). zfs_in_subtree (obe_root_ds bt) n"
  shows "be_clone_inv bt st d'"
  using run under
proof (induction h arbitrary: bt st r d')
  case (ZH zhp_name kids)
  from ZH.prems(1) show ?case
  proof (cases rule: be_clone_fs_callback_cases_bt)
    case (fail Q)
    then show ?thesis by (simp add: be_clone_inv_refl)
  next
    case (ok b st1)
    let ?P = "nvlist_add_string b (zfs_prop_to_name ZFS_PROP_CANMOUNT) ''noauto''"
    let ?bt1 = "bt\<lparr>nbe_zfs_props := ?P\<rparr>"
    let ?it = "zfs_iter_filesystems kids (\<lambda>k d. be_clone_fs_callback env k d) (?bt1, st1)"
    from ZH.prems(2) have zn: "zfs_in_subtree (obe_root_ds bt) zhp_name" by simp
    have st1: "st1 = st\<lparr>zdatasets := zdatasets st
        @ [zfs_new_dataset (nbe_root_ds bt @ drop (length (obe_root_ds bt)) zhp_name) ?P
             (Some (zhp_name @ ''@'' @ obe_snap_name bt))]\<rparr>"
      using zfs_clone_Inr [OF ok(2)] by simp
    have i1: "be_clone_inv bt st (?bt1, st1)"
      unfolding be_clone_inv_def st1 using zfs_in_subtree_rebase [OF zn] by auto
    have "be_clone_inv bt st (snd ?it)"
    proof (rule zfs_iter_filesystems_invariant
        [where I = "be_clone_inv bt st" and d = "(?bt1, st1)"
          and r = "fst ?it" and ks = kids and func = "\<lambda>k d. be_clone_fs_callback env k d"])
      show "be_clone_inv bt st (?bt1, st1)" by (rule i1)
      show "?it = (fst ?it, snd ?it)" by simp
      show "\<forall>k \<in> set kids. \<forall>d r d'. be_clone_inv bt st d \<longrightarrow>
          be_clone_fs_callback env k d = (r, d') \<longrightarrow> be_clone_inv bt st d'"
      proof (intro ballI allI impI)
        fix k d r d'
        assume k: "k \<in> set kids" and i: "be_clone_inv bt st d"
          and c: "be_clone_fs_callback env k d = (r, d')"
        obtain b' s' where d: "d = (b', s')" by (cases d)
        from i d have o: "obe_root_ds b' = obe_root_ds bt" by (simp add: be_clone_inv_def)
        have u: "\<forall>n \<in> set (zfs_handle_names k). zfs_in_subtree (obe_root_ds b') n"
          using ZH.prems(2) k o by auto
        from ZH.IH [OF k c [unfolded d] u] have "be_clone_inv b' s' d'" .
        with i d show "be_clone_inv bt st d'"
          using be_clone_inv_trans [of bt st d d'] by simp
      qed
    qed
    with ok(4) show ?thesis by simp
  qed
qed

lemma find_append_new:
  "\<forall>x \<in> set xs. \<not> P x \<Longrightarrow> P y \<Longrightarrow> find P (xs @ y # ys) = Some y"
  by (induction xs) auto

lemma be_clone_fs_callback_root:
  assumes run: "be_clone_fs_callback env zhp (bt, st) = (0, d')"
    and ex: "BE_ERR_EXISTS env \<noteq> 0"
    and opn: "zfs_open st (obe_root_ds bt) = Some zhp"
  shows "\<not> zfs_dataset_exists st (nbe_root_ds bt) ZFS_TYPE_FILESYSTEM
     \<and> zfs_dataset_exists (snd d') (nbe_root_ds bt) ZFS_TYPE_FILESYSTEM
     \<and> zfs_prop_get_origin (snd d') (nbe_root_ds bt)
         = Some (obe_root_ds bt @ ''@'' @ obe_snap_name bt)
     \<and> zfs_dataset_exists st (obe_root_ds bt @ ''@'' @ obe_snap_name bt) ZFS_TYPE_SNAPSHOT
     \<and> be_clone_inv bt st d'"
proof -
  from opn have zhp: "zhp = zfs_make_handle (map ds_name (zdatasets st)) (obe_root_ds bt)"
    by (auto simp: zfs_open_def split: if_splits)
  obtain n kids where h: "zhp = ZH n kids" by (cases zhp)
  with zfs_open_name [OF opn] have n: "n = obe_root_ds bt" by simp
  have under: "\<forall>m \<in> set (zfs_handle_names zhp). zfs_in_subtree (obe_root_ds bt) m"
    unfolding zhp by (auto dest: zfs_make_handle_names simp del: zfs_make_handle.simps)
  have inv: "be_clone_inv bt st d'" using run under by (rule be_clone_fs_callback_inv)
  from run [unfolded h] show ?thesis
  proof (cases rule: be_clone_fs_callback_cases_bt)
    case (fail Q)
    with ex show ?thesis by simp
  next
    case (ok b st1)
    let ?P = "nvlist_add_string b (zfs_prop_to_name ZFS_PROP_CANMOUNT) ''noauto''"
    let ?new = "zfs_new_dataset (nbe_root_ds bt) ?P
             (Some (obe_root_ds bt @ ''@'' @ obe_snap_name bt))"
    from zfs_clone_Inr [OF ok(2)] n have
      st1: "zdatasets st1 = zdatasets st @ [?new]"
      and fresh: "\<not> zfs_dataset_exists st (nbe_root_ds bt) ZFS_TYPE_FILESYSTEM" by simp_all
    have "zfs_extends st1 d'"
      unfolding ok(4) by (rule zfs_extends_kids) (rule be_clone_fs_callback_zfs_extends)
    then obtain more where m: "zdatasets (snd d') = zdatasets st @ ?new # more"
      using st1 by (auto simp: zfs_extends_def)
    have x: "zfs_dataset_exists (snd d') (nbe_root_ds bt) ZFS_TYPE_FILESYSTEM"
      using m by (simp add: zfs_dataset_exists_def)
    have "find (\<lambda>d. ds_name d = nbe_root_ds bt) (zdatasets st @ ?new # more) = Some ?new"
      using fresh by (intro find_append_new) (force simp: zfs_dataset_exists_def)+
    then have o: "zfs_prop_get_origin (snd d') (nbe_root_ds bt)
         = Some (obe_root_ds bt @ ''@'' @ obe_snap_name bt)"
      using m by (simp add: zfs_prop_get_origin_def zfs_lookup_def zfs_new_dataset_def)
    have sn: "zfs_dataset_exists st (obe_root_ds bt @ ''@'' @ obe_snap_name bt) ZFS_TYPE_SNAPSHOT"
    proof (rule ccontr)
      assume "\<not> ?thesis"
      with n have "fst (be_clone_fs_callback env (ZH n kids) (bt, st)) \<noteq> 0"
        by (simp add: be_clone_fs_callback_ret)
      with run h show False by simp
    qed
    from fresh x o sn inv show ?thesis by simp
  qed
qed


lemma be_same_source_refl: "be_same_source bt bt"
  by (simp add: be_same_source_def)

lemma be_copy_retry_result:
  assumes ex: "BE_ERR_EXISTS env \<noteq> 0"
    and run: "be_copy_retry env obe zp zhp i nm (bt, st) = (Inr (j, nm'), d2)"
    and jM: "j \<noteq> BE_AUTO_NAME_MAX_TRY env"
    and iM: "i \<le> BE_AUTO_NAME_MAX_TRY env"
  shows "\<exists>bt1. be_same_source bt bt1
     \<and> be_clone_fs_callback env zhp (bt1\<lparr>nbe_root_ds := be_make_root_ds env zp nm'\<rparr>, st)
         = (0, d2)"
  using run iM
proof (induction "nat (BE_AUTO_NAME_MAX_TRY env - i)" arbitrary: i nm bt)
  case 0
  then have "i = BE_AUTO_NAME_MAX_TRY env" by simp
  with "0.prems"(1) jM show ?case by (subst (asm) be_copy_retry.simps) simp
next
  case (Suc n)
  then have lt: "i < BE_AUTO_NAME_MAX_TRY env" by simp
  show ?case
  proof (cases "be_auto_be_name env (nat i) st obe")
    case None
    with lt Suc.prems(1) show ?thesis by (subst (asm) be_copy_retry.simps) simp
  next
    case (Some n')
    let ?bt = "bt\<lparr>nbe_root_ds := be_make_root_ds env zp n'\<rparr>"
    obtain zret d where c: "be_clone_fs_callback env zhp (?bt, st) = (zret, d)"
      by (cases "be_clone_fs_callback env zhp (?bt, st)")
    have u: "be_copy_retry env obe zp zhp i nm (bt, st) =
        (if zret = 0 then (Inr (i, n'), d)
         else if zret \<noteq> BE_ERR_EXISTS env then (Inl ErrClone, d)
         else be_copy_retry env obe zp zhp (i + 1) n' d)"
      using lt Some c by (subst be_copy_retry.simps) (simp add: Let_def)
    show ?thesis
    proof (cases "zret = 0")
      case True
      with u Suc.prems(1) have "j = i" "nm' = n'" "d2 = d" by simp_all
      with c True be_same_source_refl [of bt] show ?thesis by blast
    next
      case False
      with u Suc.prems(1) have z: "zret = BE_ERR_EXISTS env"
        and r: "be_copy_retry env obe zp zhp (i + 1) n' d = (Inr (j, nm'), d2)"
        by (simp_all split: if_splits)
      from be_clone_fs_callback_failed [OF c False] obtain Q where
        d: "d = (?bt\<lparr>nbe_zfs_props := Q\<rparr>, st)" by blast
      have m: "n = nat (BE_AUTO_NAME_MAX_TRY env - (i + 1))" using Suc.hyps(2) by simp
      have le: "i + 1 \<le> BE_AUTO_NAME_MAX_TRY env" using lt by simp
      from Suc.hyps(1) [OF m r [unfolded d] le] obtain bt1 where
        s: "be_same_source (?bt\<lparr>nbe_zfs_props := Q\<rparr>) bt1"
        and c1: "be_clone_fs_callback env zhp
           (bt1\<lparr>nbe_root_ds := be_make_root_ds env zp nm'\<rparr>, st) = (0, d2)" by blast
      from s have "be_same_source bt bt1" by (simp add: be_same_source_def)
      with c1 show ?thesis by blast
    qed
  qed
qed

lemma be_copy_clone_result:
  assumes ex: "BE_ERR_EXISTS env \<noteq> 0"
    and max: "1 \<le> BE_AUTO_NAME_MAX_TRY env"
    and r0: "nbe_root_ds bt = be_make_root_ds env zp nm0"
    and run: "be_copy_clone env True obe nm0 zp (bt, st) = (Inr nm', d2)"
  shows "\<exists>zhp bt1. zfs_open st (obe_root_ds bt) = Some zhp \<and> be_same_source bt bt1
     \<and> be_clone_fs_callback env zhp (bt1\<lparr>nbe_root_ds := be_make_root_ds env zp nm'\<rparr>, st)
         = (0, d2)"
proof (cases "zfs_open st (obe_root_ds bt)")
  case None
  with run show ?thesis by (simp add: be_copy_clone_def)
next
  case (Some zhp)
  obtain zret d1 where c: "be_clone_fs_callback env zhp (bt, st) = (zret, d1)"
    by (cases "be_clone_fs_callback env zhp (bt, st)")
  have b0: "bt\<lparr>nbe_root_ds := be_make_root_ds env zp nm0\<rparr> = bt" using r0 by simp
  show ?thesis
  proof (cases "zret = 0")
    case True
    with run Some c have "nm' = nm0" "d2 = d1" by (simp_all add: be_copy_clone_def)
    with c True b0 Some be_same_source_refl [of bt] show ?thesis by auto
  next
    case False
    from be_clone_fs_callback_failed [OF c False] obtain Q where
      d1: "d1 = (bt\<lparr>nbe_zfs_props := Q\<rparr>, st)" by blast
    obtain res d3 where rr: "be_copy_retry env obe zp zhp 1 nm0 d1 = (res, d3)"
      by (cases "be_copy_retry env obe zp zhp 1 nm0 d1")
    from run Some c False rr have z: "zret = BE_ERR_EXISTS env"
      by (simp add: be_copy_clone_def split: if_splits)
    show ?thesis
    proof (cases res)
      case (Inl e)
      with run Some c False rr z show ?thesis by (simp add: be_copy_clone_def)
    next
      case (Inr p)
      obtain j nm2 where p: "p = (j, nm2)" by (cases p)
      from run Some c False rr z Inr p have jM: "j \<noteq> BE_AUTO_NAME_MAX_TRY env"
        and e: "nm' = nm2" "d2 = d3"
        by (simp_all add: be_copy_clone_def split: if_splits)
      from be_copy_retry_result [OF ex rr [unfolded d1 Inr p] jM max] obtain bt1 where
        s: "be_same_source (bt\<lparr>nbe_zfs_props := Q\<rparr>) bt1"
        and c1: "be_clone_fs_callback env zhp
           (bt1\<lparr>nbe_root_ds := be_make_root_ds env zp nm2\<rparr>, st) = (0, d3)" by blast
      from s have "be_same_source bt bt1" by (simp add: be_same_source_def)
      with c1 e Some show ?thesis by blast
    qed
  qed
qed

lemma zfs_snap_split_path:
  "zfs_snap_split path = Some (name, snap) \<Longrightarrow> path = name @ ''@'' @ snap"
  using strrchr_split [of path "CHR ''@''"]
  by (auto simp: zfs_snap_split_def split: option.splits)

lemma zfs_snapshot_Inr:
  assumes "zfs_snapshot st path True = Inr st1"
  shows "\<not> zfs_dataset_exists st path ZFS_TYPE_SNAPSHOT
     \<and> zfs_dataset_exists st1 path ZFS_TYPE_SNAPSHOT
     \<and> zdatasets st1 = zdatasets st \<and> zpools st1 = zpools st"
proof (cases "zfs_snap_split path")
  case None
  with assms show ?thesis by (simp add: zfs_snapshot_def)
next
  case (Some p)
  obtain name snap where p: "p = (name, snap)" by (cases p)
  from zfs_snap_split_path [OF Some [unfolded p]] have path: "path = name @ ''@'' @ snap" .
  let ?targets = "filter (zfs_in_subtree name) (map ds_name (zdatasets st))"
  let ?new = "map (\<lambda>n. n @ ''@'' @ snap) ?targets"
  from assms Some p have x: "zfs_dataset_exists st name ZFS_TYPE_FILESYSTEM"
    and nx: "\<not> (\<exists>s \<in> set ?new. s \<in> set (zsnapshots st))"
    and st1: "st1 = st\<lparr>zsnapshots := zsnapshots st @ ?new\<rparr>"
    by (simp_all add: zfs_snapshot_def Let_def split: if_splits)
  from x have "name \<in> set ?targets"
    by (auto simp: zfs_dataset_exists_def zfs_in_subtree_def)
  then have "(\<lambda>n. n @ ''@'' @ snap) name \<in> (\<lambda>n. n @ ''@'' @ snap) ` set ?targets"
    by (rule imageI)
  then have "path \<in> set ?new" unfolding path by (simp only: set_map)
  with nx st1 show ?thesis by (auto simp: zfs_dataset_exists_def)
qed

lemma find_map_same:
  assumes "\<And>x. P (f x) = P x"
  shows "find P (map f xs) = map_option f (find P xs)"
  by (induction xs) (simp_all add: assms)

lemma be_copy_finish_result:
  assumes "be_copy_finish env a True nm zp root policy st = (Inr a', st')"
  shows "a' = a\<lparr>BE_ATTR_NEW_BE_NAME := Some nm\<rparr>
     \<and> map ds_name (zdatasets st') = map ds_name (zdatasets st)
     \<and> zpools st' = zpools st \<and> zsnapshots st' = zsnapshots st
     \<and> zfs_prop_get_origin st' n = zfs_prop_get_origin st n"
proof -
  from assms obtain zhp where
    e: "zfs_prop_set st (zfs_get_name zhp) (BE_POLICY_PROPERTY env) policy = Inr st'"
    and a: "a' = a\<lparr>BE_ATTR_NEW_BE_NAME := Some nm\<rparr>"
    by (auto simp: be_copy_finish_def split: if_splits option.splits sum.splits)
  let ?f = "\<lambda>d. if ds_name d = zfs_get_name zhp
                 then d\<lparr>ds_props := nvlist_add_string (ds_props d) (BE_POLICY_PROPERTY env) policy\<rparr>
                 else d"
  from e have st': "st' = st\<lparr>zdatasets := map ?f (zdatasets st)\<rparr>"
    by (simp add: zfs_prop_set_def split: if_splits)
  have n: "map ds_name (zdatasets st') = map ds_name (zdatasets st)"
    unfolding st' by (simp add: comp_def)
  have "find (\<lambda>d. ds_name d = n) (map ?f (zdatasets st))
      = map_option ?f (find (\<lambda>d. ds_name d = n) (zdatasets st))"
    by (rule find_map_same) simp
  then have o: "zfs_prop_get_origin st' n = zfs_prop_get_origin st n"
    unfolding st' by (simp add: zfs_prop_get_origin_def zfs_lookup_def split: option.splits)
  from a n o st' show ?thesis by simp
qed


lemma zfs_in_subtree_pool:
  assumes "zfs_in_subtree (be_make_root_ds env zp nm) n"
  shows "zfs_in_subtree zp n"
proof -
  let ?root = "be_make_root_ds env zp nm"
  have r: "take (Suc (length zp)) ?root = zp @ ''/''"
    by (simp add: be_make_root_ds_def)
  have l: "Suc (length zp) \<le> length ?root" by (simp add: be_make_root_ds_def)
  from assms show ?thesis unfolding zfs_in_subtree_def
  proof
    assume "n = ?root"
    with r show "n = zp \<or> take (Suc (length zp)) n = zp @ ''/''" by simp
  next
    assume h: "take (Suc (length ?root)) n = ?root @ ''/''"
    have "take (Suc (length zp)) n = take (Suc (length zp)) (take (Suc (length ?root)) n)"
      using l by (simp add: min_def)
    also have "\<dots> = take (Suc (length zp)) ?root" using l by (simp only: h take_append) simp
    finally show "n = zp \<or> take (Suc (length zp)) n = zp @ ''/''" using r by simp
  qed
qed

lemma be_copy_autoname_success:
  assumes a1: "BE_ATTR_NEW_BE_NAME a = None"
    and max: "1 \<le> BE_AUTO_NAME_MAX_TRY env"
    and ex: "BE_ERR_EXISTS env \<noteq> 0"
    and run: "be_copy env a st = (Inr a', st')"
  shows "\<exists>obe zp snap st1 nm.
       BE_ATTR_NEW_BE_POOL a = None \<and> BE_ATTR_SNAP_NAME a = None
     \<and> be_copy_source env a st = Inr (obe, zp)
     \<and> be_create_snapshot env obe (be_make_root_ds env zp obe) st = Some (snap, st1)
     \<and> a' = a\<lparr>BE_ATTR_SNAP_NAME := Some snap, BE_ATTR_NEW_BE_NAME := Some nm\<rparr>
     \<and> \<not> zfs_dataset_exists st (be_make_root_ds env zp obe @ ''@'' @ snap) ZFS_TYPE_SNAPSHOT
     \<and> zfs_dataset_exists st' (be_make_root_ds env zp obe @ ''@'' @ snap) ZFS_TYPE_SNAPSHOT
     \<and> \<not> zfs_dataset_exists st (be_make_root_ds env zp nm) ZFS_TYPE_FILESYSTEM
     \<and> zfs_dataset_exists st' (be_make_root_ds env zp nm) ZFS_TYPE_FILESYSTEM
     \<and> zfs_prop_get_origin st' (be_make_root_ds env zp nm)
         = Some (be_make_root_ds env zp obe @ ''@'' @ snap)
     \<and> zpools st' = zpools st
     \<and> (\<forall>n. zfs_dataset_exists st' n ZFS_TYPE_FILESYSTEM
              \<and> \<not> zfs_dataset_exists st n ZFS_TYPE_FILESYSTEM
            \<longrightarrow> zfs_in_subtree (be_make_root_ds env zp nm) n \<and> zfs_in_subtree zp n)"
proof -
  have init: "be_zfs_init env"
  proof (rule ccontr)
    assume "\<not> ?thesis"
    with run show False by (simp add: be_copy_def)
  qed
  obtain obe zp where src: "be_copy_source env a st = Inr (obe, zp)"
  proof (cases "be_copy_source env a st")
    case (Inl e)
    with run init show ?thesis by (simp add: be_copy_def)
  next
    case (Inr p)
    with that show ?thesis by (cases p) simp
  qed
  obtain P where props: "be_copy_props a = Inr P"
  proof (cases "be_copy_props a")
    case (Inl e)
    with run init src show ?thesis by (simp add: be_copy_def)
  next
    case (Inr P)
    with that show ?thesis by simp
  qed
  have "\<exists>nm0 au. be_copy_dest env a st obe = Inr (nm0, au)"
  proof (cases "be_copy_dest env a st obe")
    case (Inl e)
    with run init src props show ?thesis by (simp add: be_copy_def)
  next
    case (Inr p)
    then show ?thesis by (cases p) simp
  qed
  then obtain nm0 au where dest: "be_copy_dest env a st obe = Inr (nm0, au)" by blast
  from dest a1 have a2: "BE_ATTR_NEW_BE_POOL a = None" and a3: "BE_ATTR_SNAP_NAME a = None"
    and n0: "be_auto_be_name env 0 st obe = Some nm0"
    by (auto simp: be_copy_dest_def split: if_splits option.splits)
  let ?oroot = "be_make_root_ds env zp obe"
  obtain snap st1 where snap: "be_create_snapshot env obe ?oroot st = Some (snap, st1)"
  proof (cases "be_create_snapshot env obe ?oroot st")
    case None
    from a1 a2 a3 n0 have d: "be_copy_dest env a st obe = Inr (nm0, True)"
      by (simp add: be_copy_dest_def)
    from None a3 have "be_copy_snapshot env a True obe nm0 ?oroot st = (Inl ErrAutoSnapshot, st)"
      by (simp add: be_copy_snapshot_def)
    with run init src props d a2 show ?thesis by (simp add: be_copy_def Let_def)
  next
    case (Some p)
    with that show ?thesis by (cases p) simp
  qed
  let ?bt = "\<lparr>obe_root_ds = ?oroot, obe_snap_name = snap,
               nbe_root_ds = be_make_root_ds env zp nm0, nbe_zfs_props = P\<rparr>"
  let ?pol = "case BE_ATTR_POLICY a of None \<Rightarrow> be_default_policy env | Some p \<Rightarrow> p"
  note u = be_copy_autoname_unfold [OF init a1 a2 a3 src props n0 snap]
  obtain res bt2 st2 where cl: "be_copy_clone env True obe nm0 zp (?bt, st1) = (res, bt2, st2)"
    by (cases "be_copy_clone env True obe nm0 zp (?bt, st1)") auto
  obtain nm where res: "res = Inr nm"
  proof (cases res)
    case (Inl e)
    with run cl show ?thesis unfolding u by simp
  next
    case (Inr nm)
    with that show ?thesis by simp
  qed
  let ?nroot = "be_make_root_ds env zp nm"
  from run cl res have fin: "be_copy_finish env (a\<lparr>BE_ATTR_SNAP_NAME := Some snap\<rparr>) True nm zp
      (nbe_root_ds bt2) ?pol st2 = (Inr a', st')"
    unfolding u by simp
  have r0: "nbe_root_ds ?bt = be_make_root_ds env zp nm0" by simp
  from be_copy_clone_result [OF ex max r0 cl [unfolded res]] obtain zhp bt1 where
    opn: "zfs_open st1 (obe_root_ds ?bt) = Some zhp" and same: "be_same_source ?bt bt1"
    and c: "be_clone_fs_callback env zhp (bt1\<lparr>nbe_root_ds := ?nroot\<rparr>, st1) = (0, bt2, st2)"
    by blast
  let ?b = "bt1\<lparr>nbe_root_ds := ?nroot\<rparr>"
  from same have ob: "obe_root_ds ?b = ?oroot" and os: "obe_snap_name ?b = snap"
    and nb: "nbe_root_ds ?b = ?nroot" by (simp_all add: be_same_source_def)
  from opn ob have opn': "zfs_open st1 (obe_root_ds ?b) = Some zhp" by simp
  from be_clone_fs_callback_root [OF c ex opn'] have
    fresh1: "\<not> zfs_dataset_exists st1 ?nroot ZFS_TYPE_FILESYSTEM"
    and x2: "zfs_dataset_exists st2 ?nroot ZFS_TYPE_FILESYSTEM"
    and o2: "zfs_prop_get_origin st2 ?nroot = Some (?oroot @ ''@'' @ snap)"
    and inv: "be_clone_inv ?b st1 (bt2, st2)"
    unfolding ob os nb by simp_all
  from inv nb have p2: "zpools st2 = zpools st1" and s2: "zsnapshots st2 = zsnapshots st1"
    and new2: "\<forall>x \<in> set (zdatasets st2).
          x \<in> set (zdatasets st1) \<or> zfs_in_subtree ?nroot (ds_name x)"
    and nr2: "nbe_root_ds bt2 = ?nroot"
    by (simp_all add: be_clone_inv_def)
  from snap have zs: "zfs_snapshot st (?oroot @ ''@'' @ snap) True = Inr st1"
    by (auto simp: be_create_snapshot_def split: option.splits sum.splits)
  from zfs_snapshot_Inr [OF zs] have
    sf: "\<not> zfs_dataset_exists st (?oroot @ ''@'' @ snap) ZFS_TYPE_SNAPSHOT"
    and sx: "zfs_dataset_exists st1 (?oroot @ ''@'' @ snap) ZFS_TYPE_SNAPSHOT"
    and d1: "zdatasets st1 = zdatasets st" and p1: "zpools st1 = zpools st" by simp_all
  from be_copy_finish_result [OF fin, of ?nroot] have
    a': "a' = a\<lparr>BE_ATTR_SNAP_NAME := Some snap, BE_ATTR_NEW_BE_NAME := Some nm\<rparr>"
    and nf: "map ds_name (zdatasets st') = map ds_name (zdatasets st2)"
    and pf: "zpools st' = zpools st2" and sf': "zsnapshots st' = zsnapshots st2"
    and of': "zfs_prop_get_origin st' ?nroot = zfs_prop_get_origin st2 ?nroot"
    by simp_all
  have ex': "zfs_dataset_exists st' n ZFS_TYPE_FILESYSTEM = zfs_dataset_exists st2 n ZFS_TYPE_FILESYSTEM"
    for n using nf by (simp add: zfs_dataset_exists_def del: set_map)
  have g1: "zfs_dataset_exists st' (?oroot @ ''@'' @ snap) ZFS_TYPE_SNAPSHOT"
    using sx s2 sf' by (simp add: zfs_dataset_exists_def)
  have g2: "\<not> zfs_dataset_exists st ?nroot ZFS_TYPE_FILESYSTEM"
    using fresh1 d1 by (simp add: zfs_dataset_exists_def)
  have g3: "zfs_dataset_exists st' ?nroot ZFS_TYPE_FILESYSTEM" using x2 ex' by simp
  have g4: "zfs_prop_get_origin st' ?nroot = Some (?oroot @ ''@'' @ snap)"
    using o2 of' by simp
  have g5: "zpools st' = zpools st" using pf p2 p1 by simp
  have g6: "\<forall>n. zfs_dataset_exists st' n ZFS_TYPE_FILESYSTEM
              \<and> \<not> zfs_dataset_exists st n ZFS_TYPE_FILESYSTEM
            \<longrightarrow> zfs_in_subtree ?nroot n \<and> zfs_in_subtree zp n"
  proof (intro allI impI)
    fix n
    assume h: "zfs_dataset_exists st' n ZFS_TYPE_FILESYSTEM
              \<and> \<not> zfs_dataset_exists st n ZFS_TYPE_FILESYSTEM"
    then have "zfs_dataset_exists st2 n ZFS_TYPE_FILESYSTEM" using ex' by simp
    then obtain x where x: "x \<in> set (zdatasets st2)" and xn: "ds_name x = n"
      by (auto simp: zfs_dataset_exists_def)
    from h xn d1 have "x \<notin> set (zdatasets st1)" by (auto simp: zfs_dataset_exists_def)
    with new2 x xn have "zfs_in_subtree ?nroot n" by auto
    with zfs_in_subtree_pool show "zfs_in_subtree ?nroot n \<and> zfs_in_subtree zp n" by blast
  qed
  from a2 a3 src snap a' sf g1 g2 g3 g4 g5 g6 show ?thesis by blast
qed

text \<open>
  Claim C9. When the attributes give no name for the new BE, a pool name or a
  snapshot name among them makes \<open>be_copy\<close> return 1 with the namespace unchanged:
  nothing was snapshotted, created or cloned. And when a call without a name for the
  new BE succeeds (at least one attempt being allowed and \<open>BE_ERR_EXISTS\<close> being
  different from 0), the attributes gave neither a pool nor a snapshot; the snapshot
  that the call names in the attribute list did not exist before, and
  \<open>_be_create_snapshot\<close> made it for the root dataset of the original BE; the root
  dataset of the new BE did not exist before, is named in the pool of the original BE
  and is a clone of that snapshot; the pools are the same, and every dataset that
  the call added lies under that root dataset, hence in the pool of the original BE.
\<close>

theorem be_copy_autoname_refuses_pool_and_snapshot:
  assumes "BE_ATTR_NEW_BE_NAME a = None"
  shows "(BE_ATTR_NEW_BE_POOL a \<noteq> None \<or> BE_ATTR_SNAP_NAME a \<noteq> None \<longrightarrow>
            be_ret (fst (be_copy env a st)) = 1 \<and> snd (be_copy env a st) = st)
     \<and> (1 \<le> BE_AUTO_NAME_MAX_TRY env \<and> BE_ERR_EXISTS env \<noteq> 0 \<longrightarrow>
        (\<forall>a' st'. be_copy env a st = (Inr a', st') \<longrightarrow>
          (\<exists>obe zp snap st1 nm.
              BE_ATTR_NEW_BE_POOL a = None \<and> BE_ATTR_SNAP_NAME a = None
            \<and> be_copy_source env a st = Inr (obe, zp)
            \<and> be_create_snapshot env obe (be_make_root_ds env zp obe) st = Some (snap, st1)
            \<and> a' = a\<lparr>BE_ATTR_SNAP_NAME := Some snap, BE_ATTR_NEW_BE_NAME := Some nm\<rparr>
            \<and> \<not> zfs_dataset_exists st (be_make_root_ds env zp obe @ ''@'' @ snap)
                  ZFS_TYPE_SNAPSHOT
            \<and> zfs_dataset_exists st' (be_make_root_ds env zp obe @ ''@'' @ snap)
                  ZFS_TYPE_SNAPSHOT
            \<and> \<not> zfs_dataset_exists st (be_make_root_ds env zp nm) ZFS_TYPE_FILESYSTEM
            \<and> zfs_dataset_exists st' (be_make_root_ds env zp nm) ZFS_TYPE_FILESYSTEM
            \<and> zfs_prop_get_origin st' (be_make_root_ds env zp nm)
                = Some (be_make_root_ds env zp obe @ ''@'' @ snap)
            \<and> zpools st' = zpools st
            \<and> (\<forall>n. zfs_dataset_exists st' n ZFS_TYPE_FILESYSTEM
                     \<and> \<not> zfs_dataset_exists st n ZFS_TYPE_FILESYSTEM
                   \<longrightarrow> zfs_in_subtree (be_make_root_ds env zp nm) n
                       \<and> zfs_in_subtree zp n))))"
proof -
  have refuse: "be_ret (fst (be_copy env a st)) = 1 \<and> snd (be_copy env a st) = st"
    if h: "BE_ATTR_NEW_BE_POOL a \<noteq> None \<or> BE_ATTR_SNAP_NAME a \<noteq> None"
  proof -
    have d: "\<exists>e. be_copy_dest env a st n = Inl e" for n
      using assms h by (rule be_copy_dest_auto_refused)
    show ?thesis
    proof (cases "be_zfs_init env")
      case False
      then show ?thesis by (simp add: be_copy_def be_ret_def)
    next
      case True
      show ?thesis
      proof (cases "be_copy_source env a st")
        case (Inl e)
        with True show ?thesis by (simp add: be_copy_def be_ret_def)
      next
        case (Inr src)
        obtain obe_name obe_zpool where src: "src = (obe_name, obe_zpool)" by (cases src)
        obtain e where e: "be_copy_dest env a st obe_name = Inl e" using d by blast
        show ?thesis
        proof (cases "be_copy_props a")
          case (Inl e')
          with True Inr src show ?thesis by (simp add: be_copy_def be_ret_def)
        next
          case (Inr P)
          with True \<open>be_copy_source env a st = Inr src\<close> src e show ?thesis
            by (simp add: be_copy_def be_ret_def)
        qed
      qed
    qed
  qed
  show ?thesis
  proof (intro conjI allI impI)
    assume h: "BE_ATTR_NEW_BE_POOL a \<noteq> None \<or> BE_ATTR_SNAP_NAME a \<noteq> None"
    from refuse [OF h] show "be_ret (fst (be_copy env a st)) = 1" by simp
    from refuse [OF h] show "snd (be_copy env a st) = st" by simp
  next
    fix a' st'
    assume c: "1 \<le> BE_AUTO_NAME_MAX_TRY env \<and> BE_ERR_EXISTS env \<noteq> 0"
      and run: "be_copy env a st = (Inr a', st')"
    from c have max: "1 \<le> BE_AUTO_NAME_MAX_TRY env" and ex: "BE_ERR_EXISTS env \<noteq> 0"
      by simp_all
    show "\<exists>obe zp snap st1 nm.
              BE_ATTR_NEW_BE_POOL a = None \<and> BE_ATTR_SNAP_NAME a = None
            \<and> be_copy_source env a st = Inr (obe, zp)
            \<and> be_create_snapshot env obe (be_make_root_ds env zp obe) st = Some (snap, st1)
            \<and> a' = a\<lparr>BE_ATTR_SNAP_NAME := Some snap, BE_ATTR_NEW_BE_NAME := Some nm\<rparr>
            \<and> \<not> zfs_dataset_exists st (be_make_root_ds env zp obe @ ''@'' @ snap)
                  ZFS_TYPE_SNAPSHOT
            \<and> zfs_dataset_exists st' (be_make_root_ds env zp obe @ ''@'' @ snap)
                  ZFS_TYPE_SNAPSHOT
            \<and> \<not> zfs_dataset_exists st (be_make_root_ds env zp nm) ZFS_TYPE_FILESYSTEM
            \<and> zfs_dataset_exists st' (be_make_root_ds env zp nm) ZFS_TYPE_FILESYSTEM
            \<and> zfs_prop_get_origin st' (be_make_root_ds env zp nm)
                = Some (be_make_root_ds env zp obe @ ''@'' @ snap)
            \<and> zpools st' = zpools st
            \<and> (\<forall>n. zfs_dataset_exists st' n ZFS_TYPE_FILESYSTEM
                     \<and> \<not> zfs_dataset_exists st n ZFS_TYPE_FILESYSTEM
                   \<longrightarrow> zfs_in_subtree (be_make_root_ds env zp nm) n
                       \<and> zfs_in_subtree zp n)"
      using assms max ex run by (rule be_copy_autoname_success)
  qed
qed

theorem be_copy_autoname_refuses_pool_and_snapshot_witness:
  "BE_ATTR_NEW_BE_NAME (ex_attrs\<lparr>BE_ATTR_NEW_BE_POOL := Some ''q''\<rparr>) = None
   \<and> BE_ATTR_NEW_BE_POOL (ex_attrs\<lparr>BE_ATTR_NEW_BE_POOL := Some ''q''\<rparr>) \<noteq> None
   \<and> be_ret (fst (be_copy ex_env (ex_attrs\<lparr>BE_ATTR_NEW_BE_POOL := Some ''q''\<rparr>) ex_st_pools)) = 1
   \<and> snd (be_copy ex_env (ex_attrs\<lparr>BE_ATTR_NEW_BE_POOL := Some ''q''\<rparr>) ex_st_pools)
       = ex_st_pools
   \<and> BE_ATTR_NEW_BE_NAME (ex_attrs\<lparr>BE_ATTR_SNAP_NAME := Some ''s''\<rparr>) = None
   \<and> BE_ATTR_SNAP_NAME (ex_attrs\<lparr>BE_ATTR_SNAP_NAME := Some ''s''\<rparr>) \<noteq> None
   \<and> be_ret (fst (be_copy ex_env (ex_attrs\<lparr>BE_ATTR_SNAP_NAME := Some ''s''\<rparr>) ex_st_pools)) = 1
   \<and> snd (be_copy ex_env (ex_attrs\<lparr>BE_ATTR_SNAP_NAME := Some ''s''\<rparr>) ex_st_pools)
       = ex_st_pools
   \<and> BE_ATTR_NEW_BE_NAME ex_attrs = None
   \<and> 1 \<le> BE_AUTO_NAME_MAX_TRY ex_env \<and> BE_ERR_EXISTS ex_env \<noteq> 0
   \<and> fst (be_copy ex_env ex_attrs ex_st_pools)
       = Inr (ex_attrs\<lparr>BE_ATTR_SNAP_NAME := Some ''t'', BE_ATTR_NEW_BE_NAME := Some ''ax''\<rparr>)
   \<and> be_copy_source ex_env ex_attrs ex_st_pools = Inr (''a'', ''p'')
   \<and> \<not> zfs_dataset_exists ex_st_pools ''p/R/a@t'' ZFS_TYPE_SNAPSHOT
   \<and> zfs_dataset_exists (snd (be_copy ex_env ex_attrs ex_st_pools)) ''p/R/a@t''
       ZFS_TYPE_SNAPSHOT
   \<and> \<not> zfs_dataset_exists ex_st_pools ''p/R/ax'' ZFS_TYPE_FILESYSTEM
   \<and> zfs_dataset_exists (snd (be_copy ex_env ex_attrs ex_st_pools)) ''p/R/ax''
       ZFS_TYPE_FILESYSTEM
   \<and> zfs_prop_get_origin (snd (be_copy ex_env ex_attrs ex_st_pools)) ''p/R/ax''
       = Some ''p/R/a@t''
   \<and> zpools (snd (be_copy ex_env ex_attrs ex_st_pools)) = [''p'', ''q'']
   \<and> zfs_dataset_exists (snd (be_copy ex_env ex_attrs ex_st_pools)) ''p/R/ax/v''
       ZFS_TYPE_FILESYSTEM
   \<and> \<not> zfs_dataset_exists ex_st_pools ''p/R/ax/v'' ZFS_TYPE_FILESYSTEM
   \<and> zfs_in_subtree ''p/R/ax'' ''p/R/ax/v'' \<and> zfs_in_subtree ''p'' ''p/R/ax/v''"
proof -
  let ?aq = "ex_attrs\<lparr>BE_ATTR_NEW_BE_POOL := Some ''q''\<rparr>"
  let ?as = "ex_attrs\<lparr>BE_ATTR_SNAP_NAME := Some ''s''\<rparr>"
  let ?st' = "snd (be_copy ex_env ex_attrs ex_st_pools)"
  have q1: "BE_ATTR_NEW_BE_NAME ?aq = None" by (simp add: ex_attrs_def)
  have q2: "BE_ATTR_NEW_BE_POOL ?aq \<noteq> None" by simp
  have rq: "be_ret (fst (be_copy ex_env ?aq ex_st_pools)) = 1
      \<and> snd (be_copy ex_env ?aq ex_st_pools) = ex_st_pools"
    using be_copy_autoname_refuses_pool_and_snapshot [OF q1, of ex_env ex_st_pools] q2 by blast
  have s1: "BE_ATTR_NEW_BE_NAME ?as = None" by (simp add: ex_attrs_def)
  have s2: "BE_ATTR_SNAP_NAME ?as \<noteq> None" by simp
  have rs: "be_ret (fst (be_copy ex_env ?as ex_st_pools)) = 1
      \<and> snd (be_copy ex_env ?as ex_st_pools) = ex_st_pools"
    using be_copy_autoname_refuses_pool_and_snapshot [OF s1, of ex_env ex_st_pools] s2 by blast
  have h1: "BE_ATTR_NEW_BE_NAME ex_attrs = None" by (simp add: ex_attrs_def)
  have h2: "1 \<le> BE_AUTO_NAME_MAX_TRY ex_env" and h3: "BE_ERR_EXISTS ex_env \<noteq> 0"
    by (simp_all add: ex_env_def)
  have h4: "fst (be_copy ex_env ex_attrs ex_st_pools)
       = Inr (ex_attrs\<lparr>BE_ATTR_SNAP_NAME := Some ''t'', BE_ATTR_NEW_BE_NAME := Some ''ax''\<rparr>)"
    by code_simp
  then have run: "be_copy ex_env ex_attrs ex_st_pools
       = (Inr (ex_attrs\<lparr>BE_ATTR_SNAP_NAME := Some ''t'', BE_ATTR_NEW_BE_NAME := Some ''ax''\<rparr>),
          ?st')"
    by (metis prod.collapse)
  have src: "be_copy_source ex_env ex_attrs ex_st_pools = Inr (''a'', ''p'')" by code_simp
  have ra: "be_make_root_ds ex_env ''p'' ''a'' = ''p/R/a''"
    and rx: "be_make_root_ds ex_env ''p'' ''ax'' = ''p/R/ax''"
    by (simp_all add: be_make_root_ds_def ex_env_def)
  from be_copy_autoname_refuses_pool_and_snapshot [OF h1, of ex_env ex_st_pools,
      THEN conjunct2, THEN mp, OF conjI [OF h2 h3], rule_format, OF run]
  obtain obe zp snap st1 nm where
    f0: "be_create_snapshot ex_env obe (be_make_root_ds ex_env zp obe) ex_st_pools
        = Some (snap, st1)"
    and f1: "be_copy_source ex_env ex_attrs ex_st_pools = Inr (obe, zp)"
    and f2: "ex_attrs\<lparr>BE_ATTR_SNAP_NAME := Some ''t'', BE_ATTR_NEW_BE_NAME := Some ''ax''\<rparr>
        = ex_attrs\<lparr>BE_ATTR_SNAP_NAME := Some snap, BE_ATTR_NEW_BE_NAME := Some nm\<rparr>"
    and f3: "\<not> zfs_dataset_exists ex_st_pools (be_make_root_ds ex_env zp obe @ ''@'' @ snap)
                  ZFS_TYPE_SNAPSHOT"
    and f4: "zfs_dataset_exists ?st' (be_make_root_ds ex_env zp obe @ ''@'' @ snap)
                  ZFS_TYPE_SNAPSHOT"
    and f5: "\<not> zfs_dataset_exists ex_st_pools (be_make_root_ds ex_env zp nm) ZFS_TYPE_FILESYSTEM"
    and f6: "zfs_dataset_exists ?st' (be_make_root_ds ex_env zp nm) ZFS_TYPE_FILESYSTEM"
    and f7: "zfs_prop_get_origin ?st' (be_make_root_ds ex_env zp nm)
                = Some (be_make_root_ds ex_env zp obe @ ''@'' @ snap)"
    and f8: "zpools ?st' = zpools ex_st_pools"
    and f9: "\<forall>n. zfs_dataset_exists ?st' n ZFS_TYPE_FILESYSTEM
                     \<and> \<not> zfs_dataset_exists ex_st_pools n ZFS_TYPE_FILESYSTEM
                   \<longrightarrow> zfs_in_subtree (be_make_root_ds ex_env zp nm) n
                       \<and> zfs_in_subtree zp n"
    by blast
  from f1 src have e1: "obe = ''a''" "zp = ''p''" by simp_all
  from f2 have "BE_ATTR_SNAP_NAME
       (ex_attrs\<lparr>BE_ATTR_SNAP_NAME := Some ''t'', BE_ATTR_NEW_BE_NAME := Some ''ax''\<rparr>)
     = BE_ATTR_SNAP_NAME
       (ex_attrs\<lparr>BE_ATTR_SNAP_NAME := Some snap, BE_ATTR_NEW_BE_NAME := Some nm\<rparr>)"
    by (simp only:)
  then have e2: "snap = ''t''" by simp
  from f2 have "BE_ATTR_NEW_BE_NAME
       (ex_attrs\<lparr>BE_ATTR_SNAP_NAME := Some ''t'', BE_ATTR_NEW_BE_NAME := Some ''ax''\<rparr>)
     = BE_ATTR_NEW_BE_NAME
       (ex_attrs\<lparr>BE_ATTR_SNAP_NAME := Some snap, BE_ATTR_NEW_BE_NAME := Some nm\<rparr>)"
    by (simp only:)
  then have e3: "nm = ''ax''" by simp
  have g3: "\<not> zfs_dataset_exists ex_st_pools ''p/R/a@t'' ZFS_TYPE_SNAPSHOT"
    using f3 unfolding e1 e2 ra by simp
  have g4: "zfs_dataset_exists ?st' ''p/R/a@t'' ZFS_TYPE_SNAPSHOT"
    using f4 unfolding e1 e2 ra by simp
  have g5: "\<not> zfs_dataset_exists ex_st_pools ''p/R/ax'' ZFS_TYPE_FILESYSTEM"
    using f5 unfolding e1 e3 rx .
  have g6: "zfs_dataset_exists ?st' ''p/R/ax'' ZFS_TYPE_FILESYSTEM"
    using f6 unfolding e1 e3 rx .
  have g7: "zfs_prop_get_origin ?st' ''p/R/ax'' = Some ''p/R/a@t''"
    using f7 unfolding e1 e2 e3 ra rx by simp
  have g8: "zpools ?st' = [''p'', ''q'']" using f8 by (simp add: ex_st_pools_def)
  have k1: "zfs_dataset_exists ?st' ''p/R/ax/v'' ZFS_TYPE_FILESYSTEM" by code_simp
  have k2: "\<not> zfs_dataset_exists ex_st_pools ''p/R/ax/v'' ZFS_TYPE_FILESYSTEM" by code_simp
  have g9: "zfs_in_subtree ''p/R/ax'' ''p/R/ax/v'' \<and> zfs_in_subtree ''p'' ''p/R/ax/v''"
    using f9 [unfolded e1 e3 rx, rule_format, OF conjI [OF k1 k2]] .
  from q1 q2 rq s1 s2 rs h1 h2 h3 h4 src g3 g4 g5 g6 g7 g8 k1 k2 g9 show ?thesis by blast
qed

section \<open>A failed child in the clone path\<close>

text \<open>
  Claim C2 does not hold of the code. In the example namespace the snapshot \<open>s\<close>
  exists for the root of \<open>a\<close> but not for its child \<open>v\<close>. The callback on the
  child, in the namespace that the clone of the root leaves, returns 1; the callback
  on the root returns 0 all the same, having created the clone of the root only.
\<close>

theorem be_clone_fs_callback_child_failure:
  "fst (be_clone_fs_callback ex_env (ZH ''p/R/a/v'' [])
          (ex_bt_s\<lparr>nbe_zfs_props := [(''mountpoint'', ''legacy''), (''canmount'', ''noauto'')]\<rparr>,
           ex_st\<lparr>zdatasets := ex_datasets
             @ [zfs_new_dataset ''p/R/b''
                  [(''mountpoint'', ''legacy''), (''canmount'', ''noauto'')]
                  (Some ''p/R/a@s'')]\<rparr>)) = 1
   \<and> fst (be_clone_fs_callback ex_env ex_zhp (ex_bt_s, ex_st)) = 0
   \<and> snd (snd (be_clone_fs_callback ex_env ex_zhp (ex_bt_s, ex_st)))
       = ex_st\<lparr>zdatasets := ex_datasets
           @ [zfs_new_dataset ''p/R/b''
                [(''mountpoint'', ''legacy''), (''canmount'', ''noauto'')]
                (Some ''p/R/a@s'')]\<rparr>"
  by code_simp

text \<open>
  Claim C1 does not hold of the code, by the same defect. A copy of \<open>a\<close> to \<open>b\<close>
  from the snapshot \<open>s\<close>, in one pool, succeeds, and the new BE has the root dataset
  only, where the original has the child \<open>/v\<close> as well.
\<close>

theorem be_copy_missing_child:
  "be_ret (fst (be_copy ex_env
       (ex_attrs\<lparr>BE_ATTR_SNAP_NAME := Some ''s'', BE_ATTR_NEW_BE_NAME := Some ''b''\<rparr>) ex_st)) = 0
   \<and> be_rel_paths (snd (be_copy ex_env
        (ex_attrs\<lparr>BE_ATTR_SNAP_NAME := Some ''s'', BE_ATTR_NEW_BE_NAME := Some ''b''\<rparr>) ex_st))
        ''p/R/a'' = [[], ''/v'']
   \<and> be_rel_paths (snd (be_copy ex_env
        (ex_attrs\<lparr>BE_ATTR_SNAP_NAME := Some ''s'', BE_ATTR_NEW_BE_NAME := Some ''b''\<rparr>) ex_st))
        ''p/R/b'' = [[]]"
  by code_simp

end
